theory Spec2Isabelle
  imports Main "HOL-Library.Word"
begin

section \<open>Go values used by the two storage adapters\<close>

text \<open>
  The repository holds two Go packages, \<^verbatim>\<open>index\<close> (the content index, index.go) and
  \<^verbatim>\<open>license\<close> (the license store, store.go).  Both talk to an injected
  \<^verbatim>\<open>*sql.DB\<close>.  Go strings and byte slices are byte sequences, so both are
  \<^typ>\<open>string\<close> here (a nil slice and an empty slice are both the empty list).
  Go's \<^verbatim>\<open>int\<close> and \<^verbatim>\<open>int64\<close> are 64-bit words (the 64-bit platforms the server is
  built for), \<^verbatim>\<open>int32\<close> a 32-bit word; a pointer that may be nil is an option.
\<close>

type_synonym bytes = string
type_synonym goint = "64 word"
type_synonym int64 = "64 word"
type_synonym int32 = "32 word"

text \<open>\<^verbatim>\<open>strings.HasPrefix(s, prefix)\<close>.\<close>

fun HasPrefix :: "string \<Rightarrow> string \<Rightarrow> bool" where
  "HasPrefix s [] = True"
| "HasPrefix [] (p # ps) = False"
| "HasPrefix (c # cs) (p # ps) = (c = p \<and> HasPrefix cs ps)"

text \<open>
  \<^verbatim>\<open>time.Time\<close>: an instant, in nanoseconds since the zero time, and a location.
  \<^verbatim>\<open>UTC()\<close> keeps the instant and sets the location; \<^verbatim>\<open>Truncate(d)\<close> rounds the
  instant down to a multiple of \<open>d\<close> since the zero time, and returns the time unchanged
  when \<open>d \<le> 0\<close>.
\<close>

datatype Location = UTC | Zone string

record Time =
  nsec :: int
  loc :: Location

definition Time_UTC :: "Time \<Rightarrow> Time" where
  "Time_UTC t = t\<lparr>loc := UTC\<rparr>"

definition Second :: int where
  "Second = 1000000000"

definition Time_Truncate :: "Time \<Rightarrow> int \<Rightarrow> Time" where
  "Time_Truncate t d = (if d \<le> 0 then t else t\<lparr>nsec := nsec t - nsec t mod d\<rparr>)"

text \<open>A panic (here: a nil pointer dereference) or a normal return.\<close>

datatype 'a go = Panics | Returns 'a

section \<open>The database handle\<close>

text \<open>
  \<^verbatim>\<open>driver.Value\<close>: what crosses the boundary to the database.  Integers cross as
  \<^verbatim>\<open>int64\<close>, here their mathematical value.
\<close>

datatype Value = VNull | VInt int | VStr string | VBytes bytes | VTime Time

text \<open>
  Errors of \<^verbatim>\<open>database/sql\<close> and of the driver: the sentinel \<^verbatim>\<open>sql.ErrNoRows\<close>, and every
  other error with its message.  The two packages add one sentinel each
  (\<^verbatim>\<open>index.NotFound\<close>, \<^verbatim>\<open>license.NotFound\<close>); a database error is passed on as it is.
\<close>

datatype dberror = ErrNoRows | ErrOther string

datatype error = index_NotFound | license_NotFound | DbErr dberror

text \<open>
  \<^verbatim>\<open>sql.Result\<close>, as read through \<^verbatim>\<open>RowsAffected()\<close>: the count and the error that call
  returns.
\<close>

record Result =
  rowsAffected :: int
  rowsAffectedErr :: "dberror option"

text \<open>
  The injected handle is not part of the repository.  Its behaviour is a parameter: a
  driver, over a database state \<open>'s\<close>, answers the three calls the adapters make.
  A query answers with the rows of its cursor and the error, if any, that ends the
  cursor early.  The handle also keeps the list of the calls made on it, in order.
\<close>

record 's driver =
  drv_Exec :: "string \<Rightarrow> Value list \<Rightarrow> 's \<Rightarrow> (dberror + Result) \<times> 's"
  drv_Prepare :: "string \<Rightarrow> 's \<Rightarrow> dberror option \<times> 's"
  drv_Query :: "string \<Rightarrow> Value list \<Rightarrow> 's \<Rightarrow> (dberror + Value list list \<times> dberror option) \<times> 's"

datatype call = CallExec string "Value list" | CallPrepare string | CallQuery string "Value list"

record 's DB =
  calls :: "call list"
  content :: 's

datatype Stmt = Stmt (query: string)

text \<open>\<^verbatim>\<open>*sql.Rows\<close>: the rows not yet read, the row \<^verbatim>\<open>Next\<close> made current, the error that
  ends the cursor, and whether it is closed.\<close>

record Rows =
  pending :: "Value list list"
  current :: "Value list option"
  failure :: "dberror option"
  closed :: bool

definition DB_Exec :: "'s driver \<Rightarrow> string \<Rightarrow> Value list \<Rightarrow> 's DB \<Rightarrow> (dberror + Result) \<times> 's DB" where
  "DB_Exec drv q args db =
     (case drv_Exec drv q args (content db) of
        (r, s') \<Rightarrow> (r, \<lparr>calls = calls db @ [CallExec q args], content = s'\<rparr>))"

definition DB_Prepare :: "'s driver \<Rightarrow> string \<Rightarrow> 's DB \<Rightarrow> (dberror + Stmt) \<times> 's DB" where
  "DB_Prepare drv q db =
     (case drv_Prepare drv q (content db) of
        (r, s') \<Rightarrow>
          ((case r of Some err \<Rightarrow> Inl err | None \<Rightarrow> Inr (Stmt q)),
           \<lparr>calls = calls db @ [CallPrepare q], content = s'\<rparr>))"

definition Stmt_Exec :: "'s driver \<Rightarrow> Stmt \<Rightarrow> Value list \<Rightarrow> 's DB \<Rightarrow> (dberror + Result) \<times> 's DB" where
  "Stmt_Exec drv stmt args db = DB_Exec drv (query stmt) args db"

definition Stmt_Query :: "'s driver \<Rightarrow> Stmt \<Rightarrow> Value list \<Rightarrow> 's DB \<Rightarrow> (dberror + Rows) \<times> 's DB" where
  "Stmt_Query drv stmt args db =
     (case drv_Query drv (query stmt) args (content db) of
        (r, s') \<Rightarrow>
          ((case r of
              Inl err \<Rightarrow> Inl err
            | Inr (rs, f) \<Rightarrow> Inr \<lparr>pending = rs, current = None, failure = f, closed = False\<rparr>),
           \<lparr>calls = calls db @ [CallQuery (query stmt) args], content = s'\<rparr>))"

text \<open>\<^verbatim>\<open>Rows.Next\<close> makes the next row current, or closes the cursor and answers false;
  \<^verbatim>\<open>Rows.Close\<close> is idempotent.\<close>

definition Rows_Close :: "Rows \<Rightarrow> Rows" where
  "Rows_Close rs = rs\<lparr>current := None, closed := True\<rparr>"

definition Rows_Next :: "Rows \<Rightarrow> bool \<times> Rows" where
  "Rows_Next rs =
     (if closed rs then (False, rs)
      else case pending rs of
             [] \<Rightarrow> (False, Rows_Close rs)
           | r # rest \<Rightarrow> (True, rs\<lparr>pending := rest, current := Some r\<rparr>))"

text \<open>\<^verbatim>\<open>Rows.Err\<close>: the error that ended the cursor, once the rows are used up.\<close>

definition Rows_Err :: "Rows \<Rightarrow> dberror option" where
  "Rows_Err rs = (if pending rs = [] then failure rs else None)"

subsection \<open>Arguments and scanning\<close>

text \<open>
  How \<^verbatim>\<open>database/sql\<close> turns the arguments the adapters pass into driver values: a nil
  pointer and the untyped \<^verbatim>\<open>nil\<close> are NULL, a pointer is dereferenced, every integer
  kind becomes \<^verbatim>\<open>int64\<close>.
\<close>

definition arg_string :: "string \<Rightarrow> Value" where
  "arg_string s = VStr s"

definition arg_bytes :: "bytes \<Rightarrow> Value" where
  "arg_bytes b = VBytes b"

definition arg_int :: "'a::len word \<Rightarrow> Value" where
  "arg_int w = VInt (sint w)"

definition arg_time :: "Time \<Rightarrow> Value" where
  "arg_time t = VTime t"

definition arg_nil :: Value where
  "arg_nil = VNull"

definition arg_ptr :: "('a \<Rightarrow> Value) \<Rightarrow> 'a option \<Rightarrow> Value" where
  "arg_ptr f p = (case p of None \<Rightarrow> VNull | Some x \<Rightarrow> f x)"

text \<open>
  How \<^verbatim>\<open>Scan\<close> stores a driver value into a destination of each kind the adapters use.
  Strings and byte slices convert into each other; an integer destination takes an
  integer in its range; a time destination takes a time only; NULL goes into a pointer
  or a byte slice only.  (The library also parses decimal text into an integer
  destination and prints numbers and times into a string destination; those
  conversions are left out and count as conversion errors here.)
\<close>

definition conv_string :: "Value \<Rightarrow> dberror + string" where
  "conv_string v =
     (case v of VStr s \<Rightarrow> Inr s | VBytes b \<Rightarrow> Inr b
      | _ \<Rightarrow> Inl (ErrOther ''sql: Scan error: unsupported conversion to string''))"

definition conv_bytes :: "Value \<Rightarrow> dberror + bytes" where
  "conv_bytes v =
     (case v of VStr s \<Rightarrow> Inr s | VBytes b \<Rightarrow> Inr b | VNull \<Rightarrow> Inr []
      | _ \<Rightarrow> Inl (ErrOther ''sql: Scan error: unsupported conversion to []byte''))"

definition conv_int :: "Value \<Rightarrow> dberror + 'a::len word" where
  "conv_int v =
     (case v of
        VInt i \<Rightarrow>
          (if - (2 ^ (LENGTH('a) - 1)) \<le> i \<and> i < 2 ^ (LENGTH('a) - 1) then Inr (word_of_int i)
           else Inl (ErrOther ''sql: Scan error: value out of range''))
      | _ \<Rightarrow> Inl (ErrOther ''sql: Scan error: unsupported conversion to integer''))"

definition conv_time :: "Value \<Rightarrow> dberror + Time" where
  "conv_time v =
     (case v of VTime t \<Rightarrow> Inr t
      | _ \<Rightarrow> Inl (ErrOther ''sql: Scan error: unsupported conversion to time.Time''))"

definition conv_ptr :: "(Value \<Rightarrow> dberror + 'a) \<Rightarrow> Value \<Rightarrow> dberror + 'a option" where
  "conv_ptr f v =
     (case v of VNull \<Rightarrow> Inr None
      | _ \<Rightarrow> (case f v of Inl e \<Rightarrow> Inl e | Inr x \<Rightarrow> Inr (Some x)))"

text \<open>A destination: a conversion and the field of the record \<open>'r\<close> it stores into.\<close>

definition dest :: "(Value \<Rightarrow> dberror + 'a) \<Rightarrow> ('a \<Rightarrow> 'r \<Rightarrow> 'r) \<Rightarrow> Value \<Rightarrow> 'r \<Rightarrow> dberror + 'r" where
  "dest conv store v r = (case conv v of Inl e \<Rightarrow> Inl e | Inr a \<Rightarrow> Inr (store a r))"

text \<open>Destinations are assigned left to right; the first conversion error stops the
  scan and leaves the earlier assignments in place.\<close>

fun assign :: "(Value \<Rightarrow> 'r \<Rightarrow> dberror + 'r) list \<Rightarrow> Value list \<Rightarrow> 'r \<Rightarrow> 'r \<times> dberror option" where
  "assign (d # ds) (v # vs) r = (case d v r of Inl e \<Rightarrow> (r, Some e) | Inr r' \<Rightarrow> assign ds vs r')"
| "assign ds vs r = (r, None)"

definition scan_row :: "(Value \<Rightarrow> 'r \<Rightarrow> dberror + 'r) list \<Rightarrow> Value list \<Rightarrow> 'r \<Rightarrow> 'r \<times> dberror option" where
  "scan_row dests row r =
     (if length dests \<noteq> length row
      then (r, Some (ErrOther ''sql: wrong number of destination arguments in Scan''))
      else assign dests row r)"

definition Rows_Scan :: "(Value \<Rightarrow> 'r \<Rightarrow> dberror + 'r) list \<Rightarrow> Rows \<Rightarrow> 'r \<Rightarrow> 'r \<times> dberror option" where
  "Rows_Scan dests rs r =
     (if closed rs then (r, Some (ErrOther ''sql: Rows are closed''))
      else case current rs of
             None \<Rightarrow> (r, Some (ErrOther ''sql: Scan called without calling Next''))
           | Some row \<Rightarrow> scan_row dests row r)"

text \<open>A caller that calls a closure \<open>n\<close> times in a row: the values returned, in order,
  and the closure afterwards.\<close>

fun drain :: "('i \<Rightarrow> 'a \<times> 'i) \<Rightarrow> nat \<Rightarrow> 'i \<Rightarrow> 'a list \<times> 'i" where
  "drain next 0 it = ([], it)"
| "drain next (Suc n) it =
     (case next it of (x, it') \<Rightarrow> (case drain next n it' of (xs, it'') \<Rightarrow> (x # xs, it'')))"

text \<open>
  \<^verbatim>\<open>Stmt.QueryRow\<close> followed by \<^verbatim>\<open>Row.Scan\<close>: the error of the query if it failed;
  \<^verbatim>\<open>sql.ErrNoRows\<close> (or the error that ended the cursor) when there is no row;
  otherwise the scan of the first row.
\<close>

definition Row_Scan :: "(Value \<Rightarrow> 'r \<Rightarrow> dberror + 'r) list \<Rightarrow> dberror + Rows \<Rightarrow> 'r \<Rightarrow> 'r \<times> dberror option" where
  "Row_Scan dests row r =
     (case row of
        Inl err \<Rightarrow> (r, Some err)
      | Inr rs \<Rightarrow>
          (case Rows_Next rs of
             (False, rs') \<Rightarrow>
               (case Rows_Err rs' of Some err \<Rightarrow> (r, Some err) | None \<Rightarrow> (r, Some ErrNoRows))
           | (True, rs') \<Rightarrow> Rows_Scan dests rs' r))"

section \<open>The content index (index.go)\<close>

record Content =
  c_Id :: string
  c_EncryptionKey :: bytes
  c_Location :: string
  c_Length :: int64
  c_Sha256 :: string
  c_Type :: string

text \<open>\<^verbatim>\<open>Content{}\<close>, the zero value.\<close>

definition Content_zero :: Content where
  "Content_zero =
     \<lparr>c_Id = [], c_EncryptionKey = [], c_Location = [], c_Length = 0, c_Sha256 = [], c_Type = []\<rparr>"

record dbIndex =
  ix_get :: Stmt
  ix_add :: Stmt
  ix_update :: Stmt
  ix_list :: Stmt

text \<open>The destinations \<^verbatim>\<open>&c.Id, &c.EncryptionKey, &c.Location, &c.Length, &c.Sha256, &c.Type\<close>
  of the two scans of index.go.\<close>

definition Content_dests :: "(Value \<Rightarrow> Content \<Rightarrow> dberror + Content) list" where
  "Content_dests =
     [dest conv_string (\<lambda>a c. c\<lparr>c_Id := a\<rparr>),
      dest conv_bytes (\<lambda>a c. c\<lparr>c_EncryptionKey := a\<rparr>),
      dest conv_string (\<lambda>a c. c\<lparr>c_Location := a\<rparr>),
      dest conv_int (\<lambda>a c. c\<lparr>c_Length := a\<rparr>),
      dest conv_string (\<lambda>a c. c\<lparr>c_Sha256 := a\<rparr>),
      dest conv_string (\<lambda>a c. c\<lparr>c_Type := a\<rparr>)]"

definition index_Get :: "'s driver \<Rightarrow> dbIndex \<Rightarrow> string \<Rightarrow> 's DB \<Rightarrow> (Content \<times> error option) \<times> 's DB" where
  "index_Get drv i ident db =
     (case Stmt_Query drv (ix_get i) [arg_string ident] db of
        (Inl err, db') \<Rightarrow> ((Content_zero, Some (DbErr err)), db')
      | (Inr records, db') \<Rightarrow>
          (case Rows_Next records of
             (True, records') \<Rightarrow>
               (case Rows_Scan Content_dests records' Content_zero of
                  (c, err) \<Rightarrow> ((c, map_option DbErr err), db'))
           | (False, records') \<Rightarrow> ((Content_zero, Some index_NotFound), db')))"

definition index_Add :: "'s driver \<Rightarrow> dbIndex \<Rightarrow> Content \<Rightarrow> 's DB \<Rightarrow> error option \<times> 's DB" where
  "index_Add drv i c db =
     (case Stmt_Exec drv (ix_add i)
             [arg_string (c_Id c), arg_bytes (c_EncryptionKey c), arg_string (c_Location c),
              arg_int (c_Length c), arg_string (c_Sha256 c), arg_string (c_Type c)] db of
        (Inl err, db') \<Rightarrow> (Some (DbErr err), db')
      | (Inr _, db') \<Rightarrow> (None, db'))"

definition index_Update :: "'s driver \<Rightarrow> dbIndex \<Rightarrow> Content \<Rightarrow> 's DB \<Rightarrow> error option \<times> 's DB" where
  "index_Update drv i c db =
     (case Stmt_Exec drv (ix_update i)
             [arg_bytes (c_EncryptionKey c), arg_string (c_Location c), arg_int (c_Length c),
              arg_string (c_Sha256 c), arg_string (c_Type c), arg_string (c_Id c)] db of
        (Inl err, db') \<Rightarrow> (Some (DbErr err), db')
      | (Inr _, db') \<Rightarrow> (None, db'))"

text \<open>
  \<^verbatim>\<open>List\<close> returns a closure.  The closure for a failed query captures the error; the
  other one captures the cursor, which each call advances.  The closure is the value
  it captures, and \<open>index_next\<close> is one call of it.
\<close>

datatype index_iter = index_Failed dberror | index_Cursor Rows

definition index_List :: "'s driver \<Rightarrow> dbIndex \<Rightarrow> 's DB \<Rightarrow> index_iter \<times> 's DB" where
  "index_List drv i db =
     (case Stmt_Query drv (ix_list i) [] db of
        (Inl err, db') \<Rightarrow> (index_Failed err, db')
      | (Inr rows, db') \<Rightarrow> (index_Cursor rows, db'))"

fun index_next :: "index_iter \<Rightarrow> (Content \<times> error option) \<times> index_iter" where
  "index_next (index_Failed err) = ((Content_zero, Some (DbErr err)), index_Failed err)"
| "index_next (index_Cursor rows) =
     (case Rows_Next rows of
        (True, rows') \<Rightarrow>
          (case Rows_Scan Content_dests rows' Content_zero of
             (c, err) \<Rightarrow> ((c, map_option DbErr err), index_Cursor rows'))
      | (False, rows') \<Rightarrow> ((Content_zero, Some index_NotFound), index_Cursor (Rows_Close rows')))"

text \<open>The constants \<^verbatim>\<open>tableDef\<close> and \<^verbatim>\<open>tableDefPostgres\<close> of index.go.\<close>

definition index_tableDef :: string where
  "index_tableDef =
     ''CREATE TABLE IF NOT EXISTS content ('' @
     ''id varchar(255) PRIMARY KEY,'' @
     ''encryption_key varchar(64) NOT NULL,'' @
     ''location text NOT NULL,'' @
     ''length bigint,'' @
     ''sha256 varchar(64),'' @
     [CHR 0x22] @ ''type'' @ [CHR 0x22] @ '' varchar(256) NOT NULL default '' @
     [CHR 0x27] @ ''application/epub+zip'' @ [CHR 0x27] @ '')''"

definition index_tableDefPostgres :: string where
  "index_tableDefPostgres =
     ''CREATE TABLE IF NOT EXISTS content ('' @
     ''id varchar(255) PRIMARY KEY,'' @
     ''encryption_key bytea NOT NULL,'' @
     ''location text NOT NULL,'' @
     ''length bigint,'' @
     ''sha256 varchar(64),'' @
     [CHR 0x22] @ ''type'' @ [CHR 0x22] @ '' varchar(256) NOT NULL default '' @
     [CHR 0x27] @ ''application/epub+zip'' @ [CHR 0x27] @ '')''"

text \<open>The statement texts \<^verbatim>\<open>Open\<close> selects from the configured database name
  (\<^verbatim>\<open>config.Config.LcpServer.Database\<close>, here the parameter \<open>cfg\<close>).\<close>

definition Open_createTableQuery :: "string \<Rightarrow> string" where
  "Open_createTableQuery cfg =
     (if HasPrefix cfg ''postgres'' then index_tableDefPostgres else index_tableDef)"

definition Open_getQuery :: "string \<Rightarrow> string" where
  "Open_getQuery cfg =
     (if HasPrefix cfg ''postgres''
      then ''SELECT id,encryption_key,location,length,sha256,type FROM content WHERE id = $1 LIMIT 1''
      else ''SELECT id,encryption_key,location,length,sha256,type FROM content WHERE id = ? LIMIT 1'')"

definition Open_addQuery :: "string \<Rightarrow> string" where
  "Open_addQuery cfg =
     (if HasPrefix cfg ''postgres''
      then ''INSERT INTO content (id,encryption_key,location,length,sha256,type) VALUES ($1, $2, $3, $4, $5, $6)''
      else ''INSERT INTO content (id,encryption_key,location,length,sha256,type) VALUES (?, ?, ?, ?, ?, ?)'')"

definition Open_updateQuery :: "string \<Rightarrow> string" where
  "Open_updateQuery cfg =
     (if HasPrefix cfg ''postgres''
      then ''UPDATE content SET encryption_key=$1, location=$2, length=$3, sha256=$4, type=$5 WHERE id=$6''
      else ''UPDATE content SET encryption_key=?, location=?, length=?, sha256=?, type=? WHERE id=?'')"

definition Open_listQuery :: "string \<Rightarrow> string" where
  "Open_listQuery cfg =
     (if HasPrefix cfg ''postgres''
      then ''SELECT id,encryption_key,location,length,sha256,type FROM content''
      else ''SELECT id,encryption_key,location,length,sha256,type FROM content'')"

definition Open_alterQuery :: string where
  "Open_alterQuery =
     ''ALTER TABLE content ADD COLUMN '' @ [CHR 0x22] @ ''type'' @ [CHR 0x22] @
     '' varchar(255) NOT NULL DEFAULT '' @ [CHR 0x27] @ ''application/epub+zip'' @ [CHR 0x27]"

text \<open>
  \<^verbatim>\<open>Open\<close>: create the table, for a SQLite configuration try to add the type column
  and ignore the outcome, then prepare the four statements; the first error is
  returned.
\<close>

definition Open :: "string \<Rightarrow> 's driver \<Rightarrow> 's DB \<Rightarrow> (error + dbIndex) \<times> 's DB" where
  "Open cfg drv db =
     (case DB_Exec drv (Open_createTableQuery cfg) [] db of
        (Inl err, db1) \<Rightarrow> (Inl (DbErr err), db1)
      | (Inr _, db1) \<Rightarrow>
          (let db2 = (if HasPrefix cfg ''sqlite'' then snd (DB_Exec drv Open_alterQuery [] db1) else db1)
           in case DB_Prepare drv (Open_getQuery cfg) db2 of
                (Inl err, db3) \<Rightarrow> (Inl (DbErr err), db3)
              | (Inr get, db3) \<Rightarrow>
           (case DB_Prepare drv (Open_addQuery cfg) db3 of
                (Inl err, db4) \<Rightarrow> (Inl (DbErr err), db4)
              | (Inr add, db4) \<Rightarrow>
           (case DB_Prepare drv (Open_updateQuery cfg) db4 of
                (Inl err, db5) \<Rightarrow> (Inl (DbErr err), db5)
              | (Inr update, db5) \<Rightarrow>
           (case DB_Prepare drv (Open_listQuery cfg) db5 of
                (Inl err, db6) \<Rightarrow> (Inl (DbErr err), db6)
              | (Inr list, db6) \<Rightarrow>
                  (Inr \<lparr>ix_get = get, ix_add = add, ix_update = update, ix_list = list\<rparr>, db6))))))"

section \<open>The license store (store.go)\<close>

text \<open>
  Modelled from the spec: the declarations of \<^verbatim>\<open>License\<close>, \<^verbatim>\<open>LicenseReport\<close>,
  \<^verbatim>\<open>UserInfo\<close> and \<^verbatim>\<open>UserRights\<close> are in a file of the package that is not at hand.
  The records below hold the fields store.go reads and writes, typed as the spec's data
  model says (the four rights are nullable, the last update is nullable) and as
  store.go uses them: \<^verbatim>\<open>Rights\<close> is a pointer (\<^verbatim>\<open>Get\<close> assigns \<^verbatim>\<open>new(UserRights)\<close> to it),
  \<^verbatim>\<open>User\<close> is a struct value.
\<close>

record UserInfo =
  u_Id :: string

record UserRights =
  r_Print :: "int32 option"
  r_Copy :: "int32 option"
  r_Start :: "Time option"
  r_End :: "Time option"

record License =
  l_Id :: string
  l_User :: UserInfo
  l_Provider :: string
  l_Issued :: Time
  l_Updated :: "Time option"
  l_Rights :: "UserRights option"
  l_ContentId :: string

record LicenseReport =
  lr_Id :: string
  lr_User :: UserInfo
  lr_Provider :: string
  lr_Issued :: Time
  lr_Updated :: "Time option"
  lr_Rights :: "UserRights option"
  lr_ContentId :: string

definition Time_zero :: Time where
  "Time_zero = \<lparr>nsec = 0, loc = UTC\<rparr>"

definition UserRights_zero :: UserRights where
  "UserRights_zero = \<lparr>r_Print = None, r_Copy = None, r_Start = None, r_End = None\<rparr>"

text \<open>\<^verbatim>\<open>var l License; l.Rights = new(UserRights)\<close>, the record \<^verbatim>\<open>Get\<close> scans into.\<close>

definition License_new :: License where
  "License_new =
     \<lparr>l_Id = [], l_User = \<lparr>u_Id = []\<rparr>, l_Provider = [], l_Issued = Time_zero, l_Updated = None,
      l_Rights = Some UserRights_zero, l_ContentId = []\<rparr>"

text \<open>\<^verbatim>\<open>LicenseReport{}\<close>, and the record each call of a list closure scans into
  (\<^verbatim>\<open>l.User = UserInfo{}; l.Rights = new(UserRights)\<close>).\<close>

definition LicenseReport_zero :: LicenseReport where
  "LicenseReport_zero =
     \<lparr>lr_Id = [], lr_User = \<lparr>u_Id = []\<rparr>, lr_Provider = [], lr_Issued = Time_zero, lr_Updated = None,
      lr_Rights = None, lr_ContentId = []\<rparr>"

definition LicenseReport_new :: LicenseReport where
  "LicenseReport_new = LicenseReport_zero\<lparr>lr_Rights := Some UserRights_zero\<rparr>"

record sqlStore =
  s_listall :: Stmt
  s_list :: Stmt
  s_updaterights :: Stmt
  s_add :: Stmt
  s_update :: Stmt
  s_updatelsdstatus :: Stmt
  s_get :: Stmt

text \<open>The destinations \<^verbatim>\<open>&l.Id, &l.User.Id, &l.Provider, &l.Issued, &l.Updated,
  &l.Rights.Print, &l.Rights.Copy, &l.Rights.Start, &l.Rights.End, &l.ContentId\<close>.\<close>

definition License_dests :: "(Value \<Rightarrow> License \<Rightarrow> dberror + License) list" where
  "License_dests =
     [dest conv_string (\<lambda>a l. l\<lparr>l_Id := a\<rparr>),
      dest conv_string (\<lambda>a l. l\<lparr>l_User := (l_User l)\<lparr>u_Id := a\<rparr>\<rparr>),
      dest conv_string (\<lambda>a l. l\<lparr>l_Provider := a\<rparr>),
      dest conv_time (\<lambda>a l. l\<lparr>l_Issued := a\<rparr>),
      dest (conv_ptr conv_time) (\<lambda>a l. l\<lparr>l_Updated := a\<rparr>),
      dest (conv_ptr conv_int) (\<lambda>a l. l\<lparr>l_Rights := map_option (\<lambda>r. r\<lparr>r_Print := a\<rparr>) (l_Rights l)\<rparr>),
      dest (conv_ptr conv_int) (\<lambda>a l. l\<lparr>l_Rights := map_option (\<lambda>r. r\<lparr>r_Copy := a\<rparr>) (l_Rights l)\<rparr>),
      dest (conv_ptr conv_time) (\<lambda>a l. l\<lparr>l_Rights := map_option (\<lambda>r. r\<lparr>r_Start := a\<rparr>) (l_Rights l)\<rparr>),
      dest (conv_ptr conv_time) (\<lambda>a l. l\<lparr>l_Rights := map_option (\<lambda>r. r\<lparr>r_End := a\<rparr>) (l_Rights l)\<rparr>),
      dest conv_string (\<lambda>a l. l\<lparr>l_ContentId := a\<rparr>)]"

definition LicenseReport_dests :: "(Value \<Rightarrow> LicenseReport \<Rightarrow> dberror + LicenseReport) list" where
  "LicenseReport_dests =
     [dest conv_string (\<lambda>a l. l\<lparr>lr_Id := a\<rparr>),
      dest conv_string (\<lambda>a l. l\<lparr>lr_User := (lr_User l)\<lparr>u_Id := a\<rparr>\<rparr>),
      dest conv_string (\<lambda>a l. l\<lparr>lr_Provider := a\<rparr>),
      dest conv_time (\<lambda>a l. l\<lparr>lr_Issued := a\<rparr>),
      dest (conv_ptr conv_time) (\<lambda>a l. l\<lparr>lr_Updated := a\<rparr>),
      dest (conv_ptr conv_int) (\<lambda>a l. l\<lparr>lr_Rights := map_option (\<lambda>r. r\<lparr>r_Print := a\<rparr>) (lr_Rights l)\<rparr>),
      dest (conv_ptr conv_int) (\<lambda>a l. l\<lparr>lr_Rights := map_option (\<lambda>r. r\<lparr>r_Copy := a\<rparr>) (lr_Rights l)\<rparr>),
      dest (conv_ptr conv_time) (\<lambda>a l. l\<lparr>lr_Rights := map_option (\<lambda>r. r\<lparr>r_Start := a\<rparr>) (lr_Rights l)\<rparr>),
      dest (conv_ptr conv_time) (\<lambda>a l. l\<lparr>lr_Rights := map_option (\<lambda>r. r\<lparr>r_End := a\<rparr>) (lr_Rights l)\<rparr>),
      dest conv_string (\<lambda>a l. l\<lparr>lr_ContentId := a\<rparr>)]"

text \<open>
  The closure of \<^verbatim>\<open>ListAll\<close> and \<^verbatim>\<open>List\<close>.  The closure of a started iteration captures
  the cursor and the variable \<^verbatim>\<open>err\<close> of the enclosing call (nil when the closure is
  made); its else branch assigns \<^verbatim>\<open>NotFound\<close> to that variable, and the final
  \<^verbatim>\<open>return l, err\<close> reads it.
\<close>

datatype license_iter = license_Failed dberror | license_Cursor Rows "error option"

fun license_next :: "license_iter \<Rightarrow> (LicenseReport \<times> error option) \<times> license_iter" where
  "license_next (license_Failed err) = ((LicenseReport_zero, Some (DbErr err)), license_Failed err)"
| "license_next (license_Cursor listLicenses err) =
     (case Rows_Next listLicenses of
        (True, rows') \<Rightarrow>
          (case Rows_Scan LicenseReport_dests rows' LicenseReport_new of
             (l, Some e) \<Rightarrow> ((l, Some (DbErr e)), license_Cursor rows' err)
           | (l, None) \<Rightarrow> ((l, err), license_Cursor rows' err))
      | (False, rows') \<Rightarrow>
          ((LicenseReport_new, Some license_NotFound),
           license_Cursor (Rows_Close rows') (Some license_NotFound)))"

definition ListAll :: "'s driver \<Rightarrow> sqlStore \<Rightarrow> goint \<Rightarrow> goint \<Rightarrow> 's DB \<Rightarrow> license_iter \<times> 's DB" where
  "ListAll drv s page pageNum db =
     (case Stmt_Query drv (s_listall s) [arg_int page, arg_int (pageNum * page)] db of
        (Inl err, db') \<Rightarrow> (license_Failed err, db')
      | (Inr listLicenses, db') \<Rightarrow> (license_Cursor listLicenses None, db'))"

definition List :: "'s driver \<Rightarrow> sqlStore \<Rightarrow> string \<Rightarrow> goint \<Rightarrow> goint \<Rightarrow> 's DB \<Rightarrow> license_iter \<times> 's DB" where
  "List drv s contentID page pageNum db =
     (case Stmt_Query drv (s_list s) [arg_string contentID, arg_int page, arg_int (pageNum * page)] db of
        (Inl err, db') \<Rightarrow> (license_Failed err, db')
      | (Inr listLicenses, db') \<Rightarrow> (license_Cursor listLicenses None, db'))"

text \<open>
  The three updates and \<^verbatim>\<open>Add\<close>.  \<open>now\<close> is what \<^verbatim>\<open>time.Now()\<close> returns.  Reading
  \<^verbatim>\<open>l.Rights.Print\<close> through a nil \<^verbatim>\<open>Rights\<close> panics before the statement is executed.
\<close>

definition UpdateRights :: "'s driver \<Rightarrow> Time \<Rightarrow> sqlStore \<Rightarrow> License \<Rightarrow> 's DB \<Rightarrow> error option go \<times> 's DB" where
  "UpdateRights drv now s l db =
     (case l_Rights l of
        None \<Rightarrow> (Panics, db)
      | Some r \<Rightarrow>
          (case Stmt_Exec drv (s_updaterights s)
                  [arg_ptr arg_int (r_Print r), arg_ptr arg_int (r_Copy r),
                   arg_ptr arg_time (r_Start r), arg_ptr arg_time (r_End r),
                   arg_time (Time_Truncate (Time_UTC now) Second), arg_string (l_Id l)] db of
             (Inl err, db') \<Rightarrow> (Returns (Some (DbErr err)), db')
           | (Inr result, db') \<Rightarrow>
               (if rowsAffected result = 0 then (Returns (Some license_NotFound), db')
                else (Returns None, db'))))"

definition Add :: "'s driver \<Rightarrow> sqlStore \<Rightarrow> License \<Rightarrow> 's DB \<Rightarrow> error option go \<times> 's DB" where
  "Add drv s l db =
     (case l_Rights l of
        None \<Rightarrow> (Panics, db)
      | Some r \<Rightarrow>
          (case Stmt_Exec drv (s_add s)
                  [arg_string (l_Id l), arg_string (u_Id (l_User l)), arg_string (l_Provider l),
                   arg_time (l_Issued l), arg_nil,
                   arg_ptr arg_int (r_Print r), arg_ptr arg_int (r_Copy r),
                   arg_ptr arg_time (r_Start r), arg_ptr arg_time (r_End r),
                   arg_string (l_ContentId l)] db of
             (Inl err, db') \<Rightarrow> (Returns (Some (DbErr err)), db')
           | (Inr _, db') \<Rightarrow> (Returns None, db')))"

definition Update :: "'s driver \<Rightarrow> Time \<Rightarrow> sqlStore \<Rightarrow> License \<Rightarrow> 's DB \<Rightarrow> error option go \<times> 's DB" where
  "Update drv now s l db =
     (case l_Rights l of
        None \<Rightarrow> (Panics, db)
      | Some r \<Rightarrow>
          (case Stmt_Exec drv (s_update s)
                  [arg_string (u_Id (l_User l)), arg_string (l_Provider l),
                   arg_time (Time_Truncate (Time_UTC now) Second),
                   arg_ptr arg_int (r_Print r), arg_ptr arg_int (r_Copy r),
                   arg_ptr arg_time (r_Start r), arg_ptr arg_time (r_End r),
                   arg_string (l_ContentId l),
                   arg_string (l_Id l)] db of
             (Inl err, db') \<Rightarrow> (Returns (Some (DbErr err)), db')
           | (Inr _, db') \<Rightarrow> (Returns None, db')))"

definition UpdateLsdStatus :: "'s driver \<Rightarrow> sqlStore \<Rightarrow> string \<Rightarrow> int32 \<Rightarrow> 's DB \<Rightarrow> error option \<times> 's DB" where
  "UpdateLsdStatus drv s ident status db =
     (case Stmt_Exec drv (s_updatelsdstatus s) [arg_int status, arg_string ident] db of
        (Inl err, db') \<Rightarrow> (Some (DbErr err), db')
      | (Inr _, db') \<Rightarrow> (None, db'))"

text \<open>\<^verbatim>\<open>Get\<close>: \<^verbatim>\<open>QueryRow\<close>, then \<^verbatim>\<open>Scan\<close>; \<^verbatim>\<open>sql.ErrNoRows\<close> becomes \<^verbatim>\<open>NotFound\<close>, any
  other error is returned as it is.\<close>

definition license_Get :: "'s driver \<Rightarrow> sqlStore \<Rightarrow> string \<Rightarrow> 's DB \<Rightarrow> (License \<times> error option) \<times> 's DB" where
  "license_Get drv s ident db =
     (case Stmt_Query drv (s_get s) [arg_string ident] db of
        (row, db') \<Rightarrow>
          (case Row_Scan License_dests row License_new of
             (l, Some err) \<Rightarrow>
               (if err = ErrNoRows then ((l, Some license_NotFound), db')
                else ((l, Some (DbErr err)), db'))
           | (l, None) \<Rightarrow> ((l, None), db')))"

text \<open>The constants \<^verbatim>\<open>tableDef\<close> and \<^verbatim>\<open>tableDefPostgers\<close> of store.go.\<close>

definition license_tableDef :: string where
  "license_tableDef =
     ''CREATE TABLE IF NOT EXISTS license ('' @
     ''id varchar(255) PRIMARY KEY,'' @
     ''user_id varchar(255) NOT NULL,'' @
     ''provider varchar(255) NOT NULL,'' @
     ''issued datetime NOT NULL,'' @
     ''updated datetime DEFAULT NULL,'' @
     ''rights_print int(11) DEFAULT NULL,'' @
     ''rights_copy int(11) DEFAULT NULL,'' @
     ''rights_start datetime DEFAULT NULL,'' @
     ''rights_end datetime DEFAULT NULL,'' @
     ''content_fk varchar(255) NOT NULL,'' @
     ''lsd_status integer default 0,'' @
     ''FOREIGN KEY(content_fk) REFERENCES content(id))''"

definition license_tableDefPostgers :: string where
  "license_tableDefPostgers =
     ''CREATE TABLE IF NOT EXISTS license ('' @
     ''id VARCHAR(255) PRIMARY KEY,'' @
     ''user_id VARCHAR(255) NOT NULL,'' @
     ''provider VARCHAR(255) NOT NULL,'' @
     ''issued TIMESTAMPTZ NOT NULL,'' @
     ''updated TIMESTAMPTZ DEFAULT NULL,'' @
     ''rights_print INT DEFAULT NULL,'' @
     ''rights_copy INT DEFAULT NULL,'' @
     ''rights_start TIMESTAMPTZ DEFAULT NULL,'' @
     ''rights_end TIMESTAMPTZ DEFAULT NULL,'' @
     ''content_fk VARCHAR(255) NOT NULL,'' @
     ''lsd_status INT default 0,'' @
     ''FOREIGN KEY(content_fk) REFERENCES content(id))''"

text \<open>The statement texts \<^verbatim>\<open>NewSqlStore\<close> selects.  The raw string literals of store.go
  run over several lines; each line break is a newline and three tabs.\<close>

definition nl_tabs :: string where
  "nl_tabs = [CHR 0x0A, CHR 0x09, CHR 0x09, CHR 0x09]"

definition NewSqlStore_tabledefquery :: "string \<Rightarrow> string" where
  "NewSqlStore_tabledefquery cfg =
     (if HasPrefix cfg ''postgres'' then license_tableDefPostgers else license_tableDef)"

definition NewSqlStore_listallquery :: "string \<Rightarrow> string" where
  "NewSqlStore_listallquery cfg =
     (if HasPrefix cfg ''postgres''
      then ''SELECT id, user_id, provider, issued, updated,'' @
        nl_tabs @ ''rights_print, rights_copy, rights_start, rights_end, content_fk'' @
        nl_tabs @ ''FROM license'' @
        nl_tabs @ ''ORDER BY issued desc LIMIT $1 OFFSET $2''
      else ''SELECT id, user_id, provider, issued, updated,'' @
        nl_tabs @ ''rights_print, rights_copy, rights_start, rights_end, content_fk'' @
        nl_tabs @ ''FROM license'' @
        nl_tabs @ ''ORDER BY issued desc LIMIT ? OFFSET ?'')"

definition NewSqlStore_listquery :: "string \<Rightarrow> string" where
  "NewSqlStore_listquery cfg =
     (if HasPrefix cfg ''postgres''
      then ''SELECT id, user_id, provider, issued, updated,'' @
        nl_tabs @ ''rights_print, rights_copy, rights_start, rights_end, content_fk'' @
        nl_tabs @ ''FROM license'' @
        nl_tabs @ ''WHERE content_fk=$1 LIMIT $2 OFFSET $3''
      else ''SELECT id, user_id, provider, issued, updated,'' @
        nl_tabs @ ''rights_print, rights_copy, rights_start, rights_end, content_fk'' @
        nl_tabs @ ''FROM license'' @
        nl_tabs @ ''WHERE content_fk=? LIMIT ? OFFSET ?'')"

definition NewSqlStore_updaterightsquery :: "string \<Rightarrow> string" where
  "NewSqlStore_updaterightsquery cfg =
     (if HasPrefix cfg ''postgres''
      then ''UPDATE license SET rights_print=$1, rights_copy=$2, rights_start=$3, rights_end=$4, updated=$5 WHERE id=$6''
      else ''UPDATE license SET rights_print=?, rights_copy=?, rights_start=?, rights_end=?,u pdated=? WHERE id=?'')"

definition NewSqlStore_addquery :: "string \<Rightarrow> string" where
  "NewSqlStore_addquery cfg =
     (if HasPrefix cfg ''postgres''
      then ''INSERT INTO license (id, user_id, provider, issued, updated,'' @
        nl_tabs @ ''rights_print, rights_copy, rights_start, rights_end, content_fk) '' @
        nl_tabs @ ''VALUES ($1, $2, $3, $4, $5, $6, $7, $8, $9, $10)''
      else ''INSERT INTO license (id, user_id, provider, issued, updated,'' @
        nl_tabs @ ''rights_print, rights_copy, rights_start, rights_end, content_fk) '' @
        nl_tabs @ ''VALUES (?, ?, ?, ?, ?, ?, ?, ?, ?, ?)'')"

definition NewSqlStore_updatequery :: "string \<Rightarrow> string" where
  "NewSqlStore_updatequery cfg =
     (if HasPrefix cfg ''postgres''
      then ''UPDATE license SET user_id=$1, provider=$2, updated=$3,'' @
        nl_tabs @ ''rights_print=$4, rights_copy=$5, rights_start=$6, rights_end=$7, content_fk =$8'' @
        nl_tabs @ ''WHERE id=$9''
      else ''UPDATE license SET user_id=?, provider=?, updated=?,'' @
        nl_tabs @ ''rights_print=?, rights_copy=?, rights_start=?, rights_end=?, content_fk =?'' @
        nl_tabs @ ''WHERE id=?'')"

definition NewSqlStore_updatelsdstatusquery :: "string \<Rightarrow> string" where
  "NewSqlStore_updatelsdstatusquery cfg =
     (if HasPrefix cfg ''postgres''
      then ''UPDATE license SET lsd_status =$1 WHERE id=$2''
      else ''UPDATE license SET lsd_status =? WHERE id=?'')"

definition NewSqlStore_getquery :: "string \<Rightarrow> string" where
  "NewSqlStore_getquery cfg =
     (if HasPrefix cfg ''postgres''
      then ''SELECT id, user_id, provider, issued, updated, rights_print, rights_copy,'' @
        nl_tabs @ ''rights_start, rights_end, content_fk FROM license'' @
        nl_tabs @ ''where id = $1''
      else ''SELECT id, user_id, provider, issued, updated, rights_print, rights_copy,'' @
        nl_tabs @ ''rights_start, rights_end, content_fk FROM license'' @
        nl_tabs @ ''where id = ?'')"

text \<open>
  \<^verbatim>\<open>NewSqlStore\<close>: for a SQLite or Postgres configuration create the table; then prepare
  the seven statements; the first error is returned.  (The log line written when the
  table cannot be created is not modelled.)
\<close>

definition NewSqlStore :: "string \<Rightarrow> 's driver \<Rightarrow> 's DB \<Rightarrow> (error + sqlStore) \<times> 's DB" where
  "NewSqlStore cfg drv db =
     (case (if HasPrefix cfg ''sqlite'' \<or> HasPrefix cfg ''postgres''
            then (case DB_Exec drv (NewSqlStore_tabledefquery cfg) [] db of
                    (Inl err, db0) \<Rightarrow> (Some err, db0)
                  | (Inr _, db0) \<Rightarrow> (None, db0))
            else (None, db)) of
        (Some err, db0) \<Rightarrow> (Inl (DbErr err), db0)
      | (None, db0) \<Rightarrow>
           (case DB_Prepare drv (NewSqlStore_listallquery cfg) db0 of
                (Inl err, db1) \<Rightarrow> (Inl (DbErr err), db1)
              | (Inr listall, db1) \<Rightarrow>
           (case DB_Prepare drv (NewSqlStore_listquery cfg) db1 of
                (Inl err, db2) \<Rightarrow> (Inl (DbErr err), db2)
              | (Inr list, db2) \<Rightarrow>
           (case DB_Prepare drv (NewSqlStore_updaterightsquery cfg) db2 of
                (Inl err, db3) \<Rightarrow> (Inl (DbErr err), db3)
              | (Inr updaterights, db3) \<Rightarrow>
           (case DB_Prepare drv (NewSqlStore_addquery cfg) db3 of
                (Inl err, db4) \<Rightarrow> (Inl (DbErr err), db4)
              | (Inr add, db4) \<Rightarrow>
           (case DB_Prepare drv (NewSqlStore_updatequery cfg) db4 of
                (Inl err, db5) \<Rightarrow> (Inl (DbErr err), db5)
              | (Inr update, db5) \<Rightarrow>
           (case DB_Prepare drv (NewSqlStore_updatelsdstatusquery cfg) db5 of
                (Inl err, db6) \<Rightarrow> (Inl (DbErr err), db6)
              | (Inr updatelsdstatus, db6) \<Rightarrow>
           (case DB_Prepare drv (NewSqlStore_getquery cfg) db6 of
                (Inl err, db7) \<Rightarrow> (Inl (DbErr err), db7)
              | (Inr get, db7) \<Rightarrow>
                  (Inr \<lparr>s_listall = listall, s_list = list, s_updaterights = updaterights,
                        s_add = add, s_update = update, s_updatelsdstatus = updatelsdstatus,
                        s_get = get\<rparr>, db7)))))))))"

section \<open>External encoding of a content record\<close>

text \<open>
  The struct tags of \<^verbatim>\<open>Content\<close> in index.go, in declaration order: the Go field name,
  its \<^verbatim>\<open>json\<close> tag and the field's value.  \<^verbatim>\<open>encoding/json\<close> leaves out a field tagged
  \<^verbatim>\<open>-\<close> and names every other field by its tag (by its Go name when the tag is empty).
  A byte slice would be written in base64, which is kept abstract.
\<close>

datatype gofield = FString string | FBytes bytes | FInt64 int64

datatype json = JString string | JNumber int | JBase64 bytes | JObject "(string \<times> json) list"

definition Content_fields :: "Content \<Rightarrow> (string \<times> string \<times> gofield) list" where
  "Content_fields c =
     [(''Id'', ''id'', FString (c_Id c)),
      (''EncryptionKey'', ''-'', FBytes (c_EncryptionKey c)),
      (''Location'', ''location'', FString (c_Location c)),
      (''Length'', ''length'', FInt64 (c_Length c)),
      (''Sha256'', ''sha256'', FString (c_Sha256 c)),
      (''Type'', ''type'', FString (c_Type c))]"

definition json_value :: "gofield \<Rightarrow> json" where
  "json_value f = (case f of FString s \<Rightarrow> JString s | FBytes b \<Rightarrow> JBase64 b | FInt64 w \<Rightarrow> JNumber (sint w))"

definition json_field :: "string \<times> string \<times> gofield \<Rightarrow> (string \<times> json) list" where
  "json_field f =
     (case f of (name, tag, v) \<Rightarrow>
        if tag = ''-'' then [] else [(if tag = [] then name else tag, json_value v)])"

definition json_Marshal_Content :: "Content \<Rightarrow> json" where
  "json_Marshal_Content c = JObject (concat (map json_field (Content_fields c)))"

section \<open>A reference database\<close>

text \<open>
  The statements the adapters send are SQL text, and what they mean is decided by the
  database.  To state what a call stores and returns, the statement forms that occur in
  the two files are given a reference meaning: a lexer, a parser for
  \<^verbatim>\<open>CREATE TABLE IF NOT EXISTS\<close>, \<^verbatim>\<open>ALTER TABLE ... ADD COLUMN\<close>, \<^verbatim>\<open>INSERT\<close>, \<^verbatim>\<open>UPDATE\<close> and
  \<^verbatim>\<open>SELECT\<close>, and their execution on tables of rows.  Columns are bound by name, a
  placeholder \<^verbatim>\<open>$n\<close> is the \<open>n\<close>-th argument and the \<open>n\<close>-th \<^verbatim>\<open>?\<close> is the \<open>n\<close>-th argument.
  Values are stored as they are passed: column types are read and not enforced, and
  foreign keys are read and not enforced.
\<close>

subsection \<open>Lexer\<close>

datatype token =
  TWord string | TQuoted string | TStr string | TNum nat | TParam nat | TQMark | TSym char | TBad

definition is_space :: "char \<Rightarrow> bool" where
  "is_space c = (c = CHR '' '' \<or> c = CHR 0x09 \<or> c = CHR 0x0A \<or> c = CHR 0x0D)"

definition is_digit :: "char \<Rightarrow> bool" where
  "is_digit c = (let n = (of_char c :: nat) in 48 \<le> n \<and> n \<le> 57)"

definition is_word_char :: "char \<Rightarrow> bool" where
  "is_word_char c =
     (let n = (of_char c :: nat)
      in (48 \<le> n \<and> n \<le> 57) \<or> (65 \<le> n \<and> n \<le> 90) \<or> (97 \<le> n \<and> n \<le> 122) \<or> n = 95 \<or> n = 36)"

definition to_upper :: "char \<Rightarrow> char" where
  "to_upper c = (let n = (of_char c :: nat) in if 97 \<le> n \<and> n \<le> 122 then char_of (n - 32) else c)"

definition decimal :: "string \<Rightarrow> nat" where
  "decimal w = foldl (\<lambda>n c. 10 * n + (of_char c - 48)) 0 w"

definition word_token :: "string \<Rightarrow> token" where
  "word_token w =
     (if list_all is_digit w then TNum (decimal w)
      else if hd w = CHR ''$'' \<and> tl w \<noteq> [] \<and> list_all is_digit (tl w) then TParam (decimal (tl w))
      else if CHR ''$'' \<in> set w then TBad
      else TWord w)"

definition flush :: "string \<Rightarrow> token list" where
  "flush acc = (if acc = [] then [] else [word_token (rev acc)])"

text \<open>The lexer reads left to right; \<open>acc\<close> is the word or the quoted text read so far,
  reversed, and the first argument is the quote that is open.\<close>

fun lex :: "char option \<Rightarrow> string \<Rightarrow> string \<Rightarrow> token list" where
  "lex None acc [] = flush acc"
| "lex (Some q) acc [] = [TBad]"
| "lex (Some q) acc (c # cs) =
     (if c = q then (if q = CHR 0x27 then TStr (rev acc) else TQuoted (rev acc)) # lex None [] cs
      else lex (Some q) (c # acc) cs)"
| "lex None acc (c # cs) =
     (if is_word_char c then lex None (c # acc) cs
      else flush acc @
        (if is_space c then lex None [] cs
         else if c = CHR 0x27 \<or> c = CHR 0x22 then lex (Some c) [] cs
         else if c = CHR ''?'' then TQMark # lex None [] cs
         else TSym c # lex None [] cs))"

text \<open>The \<open>n\<close>-th question mark becomes the parameter \<open>n\<close>.\<close>

fun number_params :: "nat \<Rightarrow> token list \<Rightarrow> token list" where
  "number_params k [] = []"
| "number_params k (TQMark # ts) = TParam (Suc k) # number_params (Suc k) ts"
| "number_params k (t # ts) = t # number_params k ts"

definition tokens :: "string \<Rightarrow> token list" where
  "tokens q = number_params 0 (lex None [] q)"

subsection \<open>Parser\<close>

datatype operand = Param nat | Lit Value

record coldef =
  col_name :: string
  col_notnull :: bool
  col_pkey :: bool
  col_default :: Value

datatype statement =
    SqlCreateTable string "coldef list"
  | SqlAlterAddColumn string coldef
  | SqlInsert string "string list" "operand list"
  | SqlUpdate string "(string \<times> operand) list" string operand
  | SqlSelect "string list" string "(string \<times> operand) option" "(string \<times> bool) option"
      "operand option" "operand option"

definition kw :: "string \<Rightarrow> token \<Rightarrow> bool" where
  "kw k t = (case t of TWord w \<Rightarrow> map to_upper w = k | _ \<Rightarrow> False)"

definition name_of :: "token \<Rightarrow> string option" where
  "name_of t = (case t of TWord w \<Rightarrow> Some w | TQuoted w \<Rightarrow> Some w | _ \<Rightarrow> None)"

definition operand_of :: "token \<Rightarrow> operand option" where
  "operand_of t =
     (case t of
        TParam n \<Rightarrow> Some (Param n)
      | TNum n \<Rightarrow> Some (Lit (VInt (int n)))
      | TStr s \<Rightarrow> Some (Lit (VStr s))
      | TWord w \<Rightarrow> (if map to_upper w = ''NULL'' then Some (Lit VNull) else None)
      | _ \<Rightarrow> None)"

text \<open>Split at the commas that are outside every parenthesis.\<close>

fun split_commas :: "nat \<Rightarrow> token list \<Rightarrow> token list \<Rightarrow> token list list" where
  "split_commas d acc [] = [rev acc]"
| "split_commas d acc (t # ts) =
     (if t = TSym (CHR ''('') then split_commas (Suc d) (t # acc) ts
      else if t = TSym (CHR '')'') then split_commas (d - 1) (t # acc) ts
      else if t = TSym (CHR '','') \<and> d = 0 then rev acc # split_commas 0 [] ts
      else split_commas d (t # acc) ts)"

text \<open>Split at the first occurrence of a keyword.\<close>

fun break_kw :: "string \<Rightarrow> token list \<Rightarrow> (token list \<times> token list) option" where
  "break_kw k [] = None"
| "break_kw k (t # ts) =
     (if kw k t then Some ([], ts)
      else case break_kw k ts of None \<Rightarrow> None | Some (a, b) \<Rightarrow> Some (t # a, b))"

definition parens :: "token list \<Rightarrow> token list option" where
  "parens ts =
     (case ts of
        [] \<Rightarrow> None
      | t # rest \<Rightarrow>
          (if t = TSym (CHR ''('') \<and> rest \<noteq> [] \<and> last rest = TSym (CHR '')'')
           then Some (butlast rest) else None))"

definition single_name :: "token list \<Rightarrow> string option" where
  "single_name item = (case item of [t] \<Rightarrow> name_of t | _ \<Rightarrow> None)"

definition single_operand :: "token list \<Rightarrow> operand option" where
  "single_operand item = (case item of [t] \<Rightarrow> operand_of t | _ \<Rightarrow> None)"

definition assignment :: "token list \<Rightarrow> (string \<times> operand) option" where
  "assignment item =
     (case item of
        [c, e, v] \<Rightarrow>
          (case (name_of c, operand_of v) of
             (Some n, Some x) \<Rightarrow> (if e = TSym (CHR ''='') then Some (n, x) else None)
           | _ \<Rightarrow> None)
      | _ \<Rightarrow> None)"

fun has_pair :: "string \<Rightarrow> string \<Rightarrow> token list \<Rightarrow> bool" where
  "has_pair k1 k2 (a # b # ts) = ((kw k1 a \<and> kw k2 b) \<or> has_pair k1 k2 (b # ts))"
| "has_pair k1 k2 ts = False"

fun default_of :: "token list \<Rightarrow> Value" where
  "default_of (a # b # ts) =
     (if kw ''DEFAULT'' a then (case operand_of b of Some (Lit v) \<Rightarrow> v | _ \<Rightarrow> VNull)
      else default_of (b # ts))"
| "default_of ts = VNull"

definition column_def :: "token list \<Rightarrow> coldef option" where
  "column_def item =
     (case item of
        [] \<Rightarrow> None
      | t # rest \<Rightarrow>
          (case name_of t of
             None \<Rightarrow> None
           | Some n \<Rightarrow>
               (if rest = [] then None
                else Some \<lparr>col_name = n, col_notnull = has_pair ''NOT'' ''NULL'' rest,
                           col_pkey = has_pair ''PRIMARY'' ''KEY'' rest,
                           col_default = default_of rest\<rparr>)))"

text \<open>An item of a table definition: a column, or a foreign key constraint (no column).\<close>

definition table_item :: "token list \<Rightarrow> coldef list option" where
  "table_item item =
     (if has_pair ''FOREIGN'' ''KEY'' (take 2 item) then Some []
      else map_option (\<lambda>d. [d]) (column_def item))"

definition parse_create :: "token list \<Rightarrow> statement option" where
  "parse_create ts =
     (case ts of
        k1 # k2 # k3 # k4 # t # rest \<Rightarrow>
          (if kw ''TABLE'' k1 \<and> kw ''IF'' k2 \<and> kw ''NOT'' k3 \<and> kw ''EXISTS'' k4
           then (case (name_of t, parens rest) of
                   (Some tbl, Some body) \<Rightarrow>
                     map_option (\<lambda>items. SqlCreateTable tbl (concat items))
                       (those (map table_item (split_commas 0 [] body)))
                 | _ \<Rightarrow> None)
           else None)
      | _ \<Rightarrow> None)"

definition parse_alter :: "token list \<Rightarrow> statement option" where
  "parse_alter ts =
     (case ts of
        k1 # t # k2 # k3 # rest \<Rightarrow>
          (if kw ''TABLE'' k1 \<and> kw ''ADD'' k2 \<and> kw ''COLUMN'' k3
           then (case (name_of t, column_def rest) of
                   (Some tbl, Some d) \<Rightarrow> Some (SqlAlterAddColumn tbl d)
                 | _ \<Rightarrow> None)
           else None)
      | _ \<Rightarrow> None)"

definition parse_insert :: "token list \<Rightarrow> statement option" where
  "parse_insert ts =
     (case ts of
        k # t # rest \<Rightarrow>
          (if kw ''INTO'' k
           then (case (name_of t, break_kw ''VALUES'' rest) of
                   (Some tbl, Some (a, b)) \<Rightarrow>
                     (case (parens a, parens b) of
                        (Some cs, Some vs) \<Rightarrow>
                          (case (those (map single_name (split_commas 0 [] cs)),
                                 those (map single_operand (split_commas 0 [] vs))) of
                             (Some names, Some ops) \<Rightarrow>
                               (if length names = length ops then Some (SqlInsert tbl names ops) else None)
                           | _ \<Rightarrow> None)
                      | _ \<Rightarrow> None)
                 | _ \<Rightarrow> None)
           else None)
      | _ \<Rightarrow> None)"

definition parse_update :: "token list \<Rightarrow> statement option" where
  "parse_update ts =
     (case ts of
        t # k # rest \<Rightarrow>
          (if kw ''SET'' k
           then (case (name_of t, break_kw ''WHERE'' rest) of
                   (Some tbl, Some (a, b)) \<Rightarrow>
                     (case (those (map assignment (split_commas 0 [] a)), assignment b) of
                        (Some asg, Some (c, v)) \<Rightarrow> Some (SqlUpdate tbl asg c v)
                      | _ \<Rightarrow> None)
                 | _ \<Rightarrow> None)
           else None)
      | _ \<Rightarrow> None)"

text \<open>The optional clauses of a \<^verbatim>\<open>SELECT\<close>, each answering the clause it read, if any,
  and the tokens after it; \<open>None\<close> is a syntax error.\<close>

definition opt_where :: "token list \<Rightarrow> ((string \<times> operand) option \<times> token list) option" where
  "opt_where ts =
     (case ts of
        [] \<Rightarrow> Some (None, [])
      | k # rest \<Rightarrow>
          (if kw ''WHERE'' k
           then (case assignment (take 3 rest) of
                   Some cv \<Rightarrow> Some (Some cv, drop 3 rest)
                 | None \<Rightarrow> None)
           else Some (None, ts)))"

definition opt_order :: "token list \<Rightarrow> ((string \<times> bool) option \<times> token list) option" where
  "opt_order ts =
     (case ts of
        k1 # k2 # c # rest \<Rightarrow>
          (if kw ''ORDER'' k1
           then (if kw ''BY'' k2
                 then (case name_of c of
                         None \<Rightarrow> None
                       | Some n \<Rightarrow>
                           (case rest of
                              [] \<Rightarrow> Some (Some (n, False), [])
                            | d # rest' \<Rightarrow>
                                (if kw ''DESC'' d then Some (Some (n, True), rest')
                                 else if kw ''ASC'' d then Some (Some (n, False), rest')
                                 else Some (Some (n, False), rest))))
                 else None)
           else Some (None, ts))
      | _ \<Rightarrow> Some (None, ts))"

definition opt_operand :: "string \<Rightarrow> token list \<Rightarrow> (operand option \<times> token list) option" where
  "opt_operand k ts =
     (case ts of
        [] \<Rightarrow> Some (None, [])
      | t # rest \<Rightarrow>
          (if kw k t
           then (case rest of
                   [] \<Rightarrow> None
                 | v # rest' \<Rightarrow> map_option (\<lambda>x. (Some x, rest')) (operand_of v))
           else Some (None, ts)))"

definition parse_select :: "token list \<Rightarrow> statement option" where
  "parse_select ts =
     (case break_kw ''FROM'' ts of
        None \<Rightarrow> None
      | Some (cs, rest) \<Rightarrow>
          (case (those (map single_name (split_commas 0 [] cs)), rest) of
             (Some names, t # rest1) \<Rightarrow>
               (case name_of t of
                  None \<Rightarrow> None
                | Some tbl \<Rightarrow>
                    (case opt_where rest1 of
                       None \<Rightarrow> None
                     | Some (w, rest2) \<Rightarrow>
                    (case opt_order rest2 of
                       None \<Rightarrow> None
                     | Some (ord, rest3) \<Rightarrow>
                    (case opt_operand ''LIMIT'' rest3 of
                       None \<Rightarrow> None
                     | Some (lim, rest4) \<Rightarrow>
                    (case opt_operand ''OFFSET'' rest4 of
                       None \<Rightarrow> None
                     | Some (off, rest5) \<Rightarrow>
                         (if rest5 = [] then Some (SqlSelect names tbl w ord lim off) else None))))))
           | _ \<Rightarrow> None))"

definition parse_sql :: "string \<Rightarrow> statement option" where
  "parse_sql q =
     (let ts = tokens q
      in if TBad \<in> set ts then None
         else case ts of
                [] \<Rightarrow> None
              | t # rest \<Rightarrow>
                  (if kw ''CREATE'' t then parse_create rest
                   else if kw ''ALTER'' t then parse_alter rest
                   else if kw ''INSERT'' t then parse_insert rest
                   else if kw ''UPDATE'' t then parse_update rest
                   else if kw ''SELECT'' t then parse_select rest
                   else None))"

subsection \<open>Tables and execution\<close>

type_synonym row = "(string \<times> Value) list"

record table =
  t_cols :: "coldef list"
  t_rows :: "row list"

type_synonym database = "string \<Rightarrow> table option"

definition field :: "row \<Rightarrow> string \<Rightarrow> Value" where
  "field r c = (case map_of r c of Some v \<Rightarrow> v | None \<Rightarrow> VNull)"

fun set_field :: "string \<Rightarrow> Value \<Rightarrow> row \<Rightarrow> row" where
  "set_field c v [] = [(c, v)]"
| "set_field c v (kx # r) = (if fst kx = c then (c, v) # r else kx # set_field c v r)"

definition set_fields :: "(string \<times> Value) list \<Rightarrow> row \<Rightarrow> row" where
  "set_fields kvs r = fold (\<lambda>kv. set_field (fst kv) (snd kv)) kvs r"

text \<open>SQL equality: a comparison with NULL is never true.\<close>

definition sql_eq :: "Value \<Rightarrow> Value \<Rightarrow> bool" where
  "sql_eq a b = (a \<noteq> VNull \<and> b \<noteq> VNull \<and> a = b)"

definition bind :: "Value list \<Rightarrow> operand \<Rightarrow> Value option" where
  "bind args x =
     (case x of
        Lit v \<Rightarrow> Some v
      | Param n \<Rightarrow> (if 1 \<le> n \<and> n \<le> length args then Some (args ! (n - 1)) else None))"

definition param_index :: "operand \<Rightarrow> nat" where
  "param_index x = (case x of Param n \<Rightarrow> n | Lit v \<Rightarrow> 0)"

definition opt_list :: "'a option \<Rightarrow> 'a list" where
  "opt_list x = (case x of None \<Rightarrow> [] | Some a \<Rightarrow> [a])"

definition operands :: "statement \<Rightarrow> operand list" where
  "operands st =
     (case st of
        SqlCreateTable n cols \<Rightarrow> []
      | SqlAlterAddColumn n d \<Rightarrow> []
      | SqlInsert n cs ops \<Rightarrow> ops
      | SqlUpdate n asg c w \<Rightarrow> map snd asg @ [w]
      | SqlSelect cs n w ord lim off \<Rightarrow> map snd (opt_list w) @ opt_list lim @ opt_list off)"

text \<open>The number of arguments a statement takes: its highest placeholder.\<close>

definition num_input :: "statement \<Rightarrow> nat" where
  "num_input st = foldr max (map param_index (operands st)) 0"

definition has_column :: "table \<Rightarrow> string \<Rightarrow> bool" where
  "has_column t c = (c \<in> set (map col_name (t_cols t)))"

text \<open>The row an \<^verbatim>\<open>INSERT\<close> makes: every column of the table, with the value given for it
  or else its default.\<close>

definition new_row :: "coldef list \<Rightarrow> (string \<times> Value) list \<Rightarrow> row" where
  "new_row cols given =
     map (\<lambda>d. (col_name d, case map_of given (col_name d) of Some v \<Rightarrow> v | None \<Rightarrow> col_default d)) cols"

definition violates_notnull :: "coldef list \<Rightarrow> row \<Rightarrow> bool" where
  "violates_notnull cols r =
     list_ex (\<lambda>d. (col_notnull d \<or> col_pkey d) \<and> field r (col_name d) = VNull) cols"

definition violates_pkey :: "coldef list \<Rightarrow> row list \<Rightarrow> row \<Rightarrow> bool" where
  "violates_pkey cols rows r =
     list_ex (\<lambda>d. col_pkey d \<and> list_ex (\<lambda>r'. sql_eq (field r' (col_name d)) (field r (col_name d))) rows) cols"

text \<open>An \<^verbatim>\<open>UPDATE\<close> that assigns NULL to a column that must not be NULL.\<close>

definition assigns_null :: "coldef list \<Rightarrow> (string \<times> Value) list \<Rightarrow> bool" where
  "assigns_null cols kvs =
     list_ex (\<lambda>d. (col_notnull d \<or> col_pkey d) \<and> list_ex (\<lambda>kv. fst kv = col_name d \<and> snd kv = VNull) kvs) cols"

definition affected :: "nat \<Rightarrow> Result" where
  "affected n = \<lparr>rowsAffected = int n, rowsAffectedErr = None\<rparr>"

definition exec_statement :: "statement \<Rightarrow> Value list \<Rightarrow> database \<Rightarrow> (dberror + Result) \<times> database" where
  "exec_statement st args db =
     (case st of
        SqlCreateTable n cols \<Rightarrow>
          (case db n of
             Some t \<Rightarrow> (Inr (affected 0), db)
           | None \<Rightarrow> (Inr (affected 0), db(n \<mapsto> \<lparr>t_cols = cols, t_rows = []\<rparr>)))
      | SqlAlterAddColumn n d \<Rightarrow>
          (case db n of
             None \<Rightarrow> (Inl (ErrOther ''no such table''), db)
           | Some t \<Rightarrow>
               (if has_column t (col_name d) then (Inl (ErrOther ''duplicate column name''), db)
                else (Inr (affected 0),
                      db(n \<mapsto> \<lparr>t_cols = t_cols t @ [d],
                                t_rows = map (\<lambda>r. r @ [(col_name d, col_default d)]) (t_rows t)\<rparr>))))
      | SqlInsert n cs ops \<Rightarrow>
          (case db n of
             None \<Rightarrow> (Inl (ErrOther ''no such table''), db)
           | Some t \<Rightarrow>
               (if \<not> list_all (has_column t) cs then (Inl (ErrOther ''no such column''), db)
                else case those (map (bind args) ops) of
                       None \<Rightarrow> (Inl (ErrOther ''missing argument''), db)
                     | Some vs \<Rightarrow>
                         (let r = new_row (t_cols t) (zip cs vs)
                          in if violates_notnull (t_cols t) r
                             then (Inl (ErrOther ''NOT NULL constraint failed''), db)
                             else if violates_pkey (t_cols t) (t_rows t) r
                             then (Inl (ErrOther ''UNIQUE constraint failed''), db)
                             else (Inr (affected 1), db(n \<mapsto> t\<lparr>t_rows := t_rows t @ [r]\<rparr>)))))
      | SqlUpdate n asg c w \<Rightarrow>
          (case db n of
             None \<Rightarrow> (Inl (ErrOther ''no such table''), db)
           | Some t \<Rightarrow>
               (if \<not> list_all (has_column t) (c # map fst asg) then (Inl (ErrOther ''no such column''), db)
                else case (those (map (bind args) (map snd asg)), bind args w) of
                       (Some vs, Some wv) \<Rightarrow>
                         (let hit = (\<lambda>r. sql_eq (field r c) wv);
                              change = set_fields (zip (map fst asg) vs)
                          in if list_ex hit (t_rows t) \<and> assigns_null (t_cols t) (zip (map fst asg) vs)
                             then (Inl (ErrOther ''NOT NULL constraint failed''), db)
                             else (Inr (affected (length (filter hit (t_rows t)))),
                                   db(n \<mapsto> t\<lparr>t_rows := map (\<lambda>r. if hit r then change r else r) (t_rows t)\<rparr>)))
                     | _ \<Rightarrow> (Inl (ErrOther ''missing argument''), db)))
      | SqlSelect cs n w ord lim off \<Rightarrow> (Inr (affected 0), db))"

text \<open>The parts of a \<^verbatim>\<open>SELECT\<close>: the filter, the order (a stable sort on the column, times
  by their instant), and the counts of \<^verbatim>\<open>LIMIT\<close> and \<^verbatim>\<open>OFFSET\<close>, which must be integers
  that are not negative.\<close>

definition where_pred :: "Value list \<Rightarrow> (string \<times> operand) option \<Rightarrow> (row \<Rightarrow> bool) option" where
  "where_pred args w =
     (case w of
        None \<Rightarrow> Some (\<lambda>r. True)
      | Some (c, x) \<Rightarrow> map_option (\<lambda>v r. sql_eq (field r c) v) (bind args x))"

definition order_key :: "Value \<Rightarrow> int" where
  "order_key v = (case v of VInt i \<Rightarrow> i | VTime t \<Rightarrow> nsec t | _ \<Rightarrow> 0)"

definition order_rows :: "(string \<times> bool) option \<Rightarrow> row list \<Rightarrow> row list" where
  "order_rows ord rows =
     (case ord of
        None \<Rightarrow> rows
      | Some (c, desc) \<Rightarrow>
          (if desc then sort_key (\<lambda>r. - order_key (field r c)) rows
           else sort_key (\<lambda>r. order_key (field r c)) rows))"

definition count_of :: "Value list \<Rightarrow> operand option \<Rightarrow> nat option option" where
  "count_of args x =
     (case x of
        None \<Rightarrow> Some None
      | Some y \<Rightarrow>
          (case bind args y of
             Some (VInt i) \<Rightarrow> (if 0 \<le> i then Some (Some (nat i)) else None)
           | _ \<Rightarrow> None))"

definition limit_rows :: "nat option \<Rightarrow> 'a list \<Rightarrow> 'a list" where
  "limit_rows l rows = (case l of None \<Rightarrow> rows | Some k \<Rightarrow> take k rows)"

definition offset_rows :: "nat option \<Rightarrow> 'a list \<Rightarrow> 'a list" where
  "offset_rows off rows = (case off of None \<Rightarrow> rows | Some k \<Rightarrow> drop k rows)"

definition query_statement :: "statement \<Rightarrow> Value list \<Rightarrow> database \<Rightarrow> dberror + Value list list" where
  "query_statement st args db =
     (case st of
        SqlSelect cs n w ord lim off \<Rightarrow>
          (case db n of
             None \<Rightarrow> Inl (ErrOther ''no such table'')
           | Some t \<Rightarrow>
               (if \<not> list_all (has_column t) (cs @ map fst (opt_list w) @ map fst (opt_list ord))
                then Inl (ErrOther ''no such column'')
                else case (where_pred args w, count_of args lim, count_of args off) of
                       (Some p, Some l, Some off') \<Rightarrow>
                         Inr (map (\<lambda>r. map (field r) cs)
                                (limit_rows l (offset_rows off' (order_rows ord (filter p (t_rows t))))))
                     | _ \<Rightarrow> Inl (ErrOther ''bad argument'')))
      | _ \<Rightarrow> Inl (ErrOther ''not a query''))"

text \<open>The reference database as a driver: a statement that does not parse is refused
  when it is prepared or run, and a call must give as many arguments as the statement
  has placeholders.\<close>

definition ref_Prepare :: "string \<Rightarrow> database \<Rightarrow> dberror option \<times> database" where
  "ref_Prepare q db =
     (case parse_sql q of None \<Rightarrow> (Some (ErrOther ''syntax error''), db) | Some st \<Rightarrow> (None, db))"

definition ref_Exec :: "string \<Rightarrow> Value list \<Rightarrow> database \<Rightarrow> (dberror + Result) \<times> database" where
  "ref_Exec q args db =
     (case parse_sql q of
        None \<Rightarrow> (Inl (ErrOther ''syntax error''), db)
      | Some st \<Rightarrow>
          (if num_input st \<noteq> length args then (Inl (ErrOther ''sql: wrong number of arguments''), db)
           else exec_statement st args db))"

definition ref_Query :: "string \<Rightarrow> Value list \<Rightarrow> database \<Rightarrow> (dberror + Value list list \<times> dberror option) \<times> database" where
  "ref_Query q args db =
     (case parse_sql q of
        None \<Rightarrow> (Inl (ErrOther ''syntax error''), db)
      | Some st \<Rightarrow>
          (if num_input st \<noteq> length args then (Inl (ErrOther ''sql: wrong number of arguments''), db)
           else case query_statement st args db of
                  Inl err \<Rightarrow> (Inl err, db)
                | Inr rows \<Rightarrow> (Inr (rows, None), db)))"

definition refdb :: "database driver" where
  "refdb = \<lparr>drv_Exec = ref_Exec, drv_Prepare = ref_Prepare, drv_Query = ref_Query\<rparr>"

text \<open>A handle on which no call has been made yet.\<close>

definition fresh :: "'s \<Rightarrow> 's DB" where
  "fresh s = \<lparr>calls = [], content = s\<rparr>"

text \<open>A driver whose connection is down: every call fails and nothing is stored.\<close>

definition unreachable :: "unit driver" where
  "unreachable =
     \<lparr>drv_Exec = (\<lambda>q args s. (Inl (ErrOther ''connection refused''), s)),
      drv_Prepare = (\<lambda>q s. (Some (ErrOther ''connection refused''), s)),
      drv_Query = (\<lambda>q args s. (Inl (ErrOther ''connection refused''), s))\<rparr>"

text \<open>The store and the index as \<^verbatim>\<open>NewSqlStore\<close> and \<^verbatim>\<open>Open\<close> build them when every
  statement is prepared.\<close>

definition store_of :: "string \<Rightarrow> sqlStore" where
  "store_of cfg =
     \<lparr>s_listall = Stmt (NewSqlStore_listallquery cfg), s_list = Stmt (NewSqlStore_listquery cfg),
      s_updaterights = Stmt (NewSqlStore_updaterightsquery cfg),
      s_add = Stmt (NewSqlStore_addquery cfg), s_update = Stmt (NewSqlStore_updatequery cfg),
      s_updatelsdstatus = Stmt (NewSqlStore_updatelsdstatusquery cfg),
      s_get = Stmt (NewSqlStore_getquery cfg)\<rparr>"

definition index_of :: "string \<Rightarrow> dbIndex" where
  "index_of cfg =
     \<lparr>ix_get = Stmt (Open_getQuery cfg), ix_add = Stmt (Open_addQuery cfg),
      ix_update = Stmt (Open_updateQuery cfg), ix_list = Stmt (Open_listQuery cfg)\<rparr>"

text \<open>The columns the statements of the two files name, and the tables the two table
  definitions describe (both dialects describe the same columns; the types differ and
  are not kept).\<close>

definition license_columns :: "string list" where
  "license_columns = [''id'', ''user_id'', ''provider'', ''issued'', ''updated'', ''rights_print'',
     ''rights_copy'', ''rights_start'', ''rights_end'', ''content_fk'']"

definition content_columns :: "string list" where
  "content_columns = [''id'', ''encryption_key'', ''location'', ''length'', ''sha256'', ''type'']"

definition column :: "string \<Rightarrow> bool \<Rightarrow> bool \<Rightarrow> Value \<Rightarrow> coldef" where
  "column n nn pk d = \<lparr>col_name = n, col_notnull = nn, col_pkey = pk, col_default = d\<rparr>"

definition content_schema :: "coldef list" where
  "content_schema =
     [column ''id'' False True VNull, column ''encryption_key'' True False VNull,
      column ''location'' True False VNull, column ''length'' False False VNull,
      column ''sha256'' False False VNull,
      column ''type'' True False (VStr ''application/epub+zip'')]"

definition license_schema :: "coldef list" where
  "license_schema =
     [column ''id'' False True VNull, column ''user_id'' True False VNull,
      column ''provider'' True False VNull, column ''issued'' True False VNull,
      column ''updated'' False False VNull, column ''rights_print'' False False VNull,
      column ''rights_copy'' False False VNull, column ''rights_start'' False False VNull,
      column ''rights_end'' False False VNull, column ''content_fk'' True False VNull,
      column ''lsd_status'' False False (VInt 0)]"

text \<open>The arguments \<^verbatim>\<open>Add\<close> of the index and \<^verbatim>\<open>Add\<close> of the store pass, as driver values, and
  the rows they make in the reference database.\<close>

definition Content_args :: "Content \<Rightarrow> Value list" where
  "Content_args c =
     [VStr (c_Id c), VBytes (c_EncryptionKey c), VStr (c_Location c), VInt (sint (c_Length c)),
      VStr (c_Sha256 c), VStr (c_Type c)]"

definition Content_row :: "Content \<Rightarrow> row" where
  "Content_row c = zip content_columns (Content_args c)"

definition License_args :: "License \<Rightarrow> UserRights \<Rightarrow> Value list" where
  "License_args l r =
     [VStr (l_Id l), VStr (u_Id (l_User l)), VStr (l_Provider l), VTime (l_Issued l), VNull,
      arg_ptr arg_int (r_Print r), arg_ptr arg_int (r_Copy r),
      arg_ptr arg_time (r_Start r), arg_ptr arg_time (r_End r), VStr (l_ContentId l)]"

definition License_row :: "License \<Rightarrow> UserRights \<Rightarrow> row" where
  "License_row l r = zip license_columns (License_args l r) @ [(''lsd_status'', VInt 0)]"

definition is_Prepare :: "call \<Rightarrow> bool" where
  "is_Prepare c = (case c of CallPrepare q \<Rightarrow> True | _ \<Rightarrow> False)"

text \<open>The rows an operation on one id touches; the arguments \<^verbatim>\<open>Update\<close> and
  \<^verbatim>\<open>UpdateRights\<close> pass; what the two statements change in a row; and a table after an
  update of the rows with a given id.\<close>

definition hit :: "string \<Rightarrow> row \<Rightarrow> bool" where
  "hit ident = (\<lambda>r. sql_eq (field r ''id'') (VStr ident))"

definition Update_args :: "Time \<Rightarrow> License \<Rightarrow> UserRights \<Rightarrow> Value list" where
  "Update_args now l r =
     [VStr (u_Id (l_User l)), VStr (l_Provider l), VTime (Time_Truncate (Time_UTC now) Second),
      arg_ptr arg_int (r_Print r), arg_ptr arg_int (r_Copy r),
      arg_ptr arg_time (r_Start r), arg_ptr arg_time (r_End r),
      VStr (l_ContentId l), VStr (l_Id l)]"

definition UpdateRights_args :: "Time \<Rightarrow> License \<Rightarrow> UserRights \<Rightarrow> Value list" where
  "UpdateRights_args now l r =
     [arg_ptr arg_int (r_Print r), arg_ptr arg_int (r_Copy r),
      arg_ptr arg_time (r_Start r), arg_ptr arg_time (r_End r),
      VTime (Time_Truncate (Time_UTC now) Second), VStr (l_Id l)]"

definition Update_change :: "Time \<Rightarrow> License \<Rightarrow> UserRights \<Rightarrow> row \<Rightarrow> row" where
  "Update_change now l r =
     set_fields (zip [''user_id'', ''provider'', ''updated'', ''rights_print'', ''rights_copy'',
                      ''rights_start'', ''rights_end'', ''content_fk''] (butlast (Update_args now l r)))"

definition UpdateRights_change :: "Time \<Rightarrow> License \<Rightarrow> UserRights \<Rightarrow> row \<Rightarrow> row" where
  "UpdateRights_change now l r =
     set_fields (zip [''rights_print'', ''rights_copy'', ''rights_start'', ''rights_end'', ''updated'']
                     (butlast (UpdateRights_args now l r)))"

definition updated_table :: "string \<Rightarrow> (row \<Rightarrow> row) \<Rightarrow> table \<Rightarrow> table" where
  "updated_table ident change t =
     t\<lparr>t_rows := map (\<lambda>r'. if hit ident r' then change r' else r') (t_rows t)\<rparr>"

text \<open>What one call of a list closure returns for a row of the cursor.\<close>

definition index_result :: "Value list \<Rightarrow> Content \<times> error option" where
  "index_result row = (case scan_row Content_dests row Content_zero of (c, e) \<Rightarrow> (c, map_option DbErr e))"

definition license_result :: "Value list \<Rightarrow> LicenseReport \<times> error option" where
  "license_result row =
     (case scan_row LicenseReport_dests row LicenseReport_new of (l, e) \<Rightarrow> (l, map_option DbErr e))"

text \<open>The rows of the license table by issue time, latest first; the values a list
  statement selects from a row; and the page a limit and an offset cut out.\<close>

definition newest_first :: "row list \<Rightarrow> row list" where
  "newest_first rows = sort_key (\<lambda>r. - order_key (field r ''issued'')) rows"

definition license_values :: "row \<Rightarrow> Value list" where
  "license_values r = map (field r) license_columns"

definition content_values :: "row \<Rightarrow> Value list" where
  "content_values r = map (field r) content_columns"

definition page_of :: "int \<Rightarrow> int \<Rightarrow> 'a list \<Rightarrow> 'a list" where
  "page_of lim off rows = take (nat lim) (drop (nat off) rows)"

text \<open>A list of calls that continues \<open>base\<close> with calls of \<^verbatim>\<open>Prepare\<close> only.\<close>

definition only_prepares :: "call list \<Rightarrow> call list \<Rightarrow> bool" where
  "only_prepares base cs = (take (length base) cs = base \<and> list_all is_Prepare (drop (length base) cs))"

text \<open>A driver that accepts every call and stores nothing.\<close>

definition permissive :: "unit driver" where
  "permissive =
     \<lparr>drv_Exec = (\<lambda>q args s. (Inr \<lparr>rowsAffected = 0, rowsAffectedErr = None\<rparr>, s)),
      drv_Prepare = (\<lambda>q s. (None, s)),
      drv_Query = (\<lambda>q args s. (Inr ([], None), s))\<rparr>"

text \<open>Example values: a content record, two licenses, a clock reading, and reference
  databases that hold one table with given rows.\<close>

definition example_content :: Content where
  "example_content =
     \<lparr>c_Id = ''c1'', c_EncryptionKey = ''key'', c_Location = ''file.epub'', c_Length = 5,
      c_Sha256 = ''abc'', c_Type = ''application/epub+zip''\<rparr>"

definition example_rights :: UserRights where
  "example_rights = \<lparr>r_Print = Some 3, r_Copy = None, r_Start = None, r_End = None\<rparr>"

definition example_clock :: Time where
  "example_clock = \<lparr>nsec = 7500000000, loc = Zone ''CET''\<rparr>"

definition example_license :: License where
  "example_license =
     \<lparr>l_Id = ''L1'', l_User = \<lparr>u_Id = ''u1''\<rparr>, l_Provider = ''p'', l_Issued = \<lparr>nsec = 1000, loc = UTC\<rparr>,
      l_Updated = Some example_clock, l_Rights = Some example_rights, l_ContentId = ''c1''\<rparr>"

definition example_license2 :: License where
  "example_license2 =
     \<lparr>l_Id = ''L2'', l_User = \<lparr>u_Id = ''u2''\<rparr>, l_Provider = ''p'', l_Issued = \<lparr>nsec = 2000, loc = UTC\<rparr>,
      l_Updated = None, l_Rights = Some example_rights, l_ContentId = ''c1''\<rparr>"

definition content_table :: "row list \<Rightarrow> table" where
  "content_table rows = \<lparr>t_cols = content_schema, t_rows = rows\<rparr>"

definition license_table :: "row list \<Rightarrow> table" where
  "license_table rows = \<lparr>t_cols = license_schema, t_rows = rows\<rparr>"

definition content_db :: "row list \<Rightarrow> database DB" where
  "content_db rows = fresh (Map.empty(''content'' \<mapsto> content_table rows))"

definition license_db :: "row list \<Rightarrow> database DB" where
  "license_db rows = fresh (Map.empty(''license'' \<mapsto> license_table rows))"

section \<open>Calls on the handle\<close>

lemma Stmt_Query_Inl:
  "drv_Query drv (query st) args (content db) = (Inl e, s') \<Longrightarrow>
   Stmt_Query drv st args db = (Inl e, \<lparr>calls = calls db @ [CallQuery (query st) args], content = s'\<rparr>)"
  by (simp add: Stmt_Query_def)

lemma Stmt_Query_Inr:
  "drv_Query drv (query st) args (content db) = (Inr (rs, f), s') \<Longrightarrow>
   Stmt_Query drv st args db =
     (Inr \<lparr>pending = rs, current = None, failure = f, closed = False\<rparr>,
      \<lparr>calls = calls db @ [CallQuery (query st) args], content = s'\<rparr>)"
  by (simp add: Stmt_Query_def)

lemma Stmt_Query_calls:
  "calls (snd (Stmt_Query drv st args db)) = calls db @ [CallQuery (query st) args]"
  by (simp add: Stmt_Query_def split: prod.splits)

lemma Stmt_Exec_eq:
  "drv_Exec drv (query st) args (content db) = (r, s') \<Longrightarrow>
   Stmt_Exec drv st args db = (r, \<lparr>calls = calls db @ [CallExec (query st) args], content = s'\<rparr>)"
  by (simp add: Stmt_Exec_def DB_Exec_def)

lemma Stmt_Exec_calls:
  "calls (snd (Stmt_Exec drv st args db)) = calls db @ [CallExec (query st) args]"
  by (simp add: Stmt_Exec_def DB_Exec_def split: prod.splits)

section \<open>The encryption key is not encoded\<close>

lemma json_Marshal_Content_eq:
  "json_Marshal_Content c =
     JObject [(''id'', JString (c_Id c)), (''location'', JString (c_Location c)),
              (''length'', JNumber (sint (c_Length c))), (''sha256'', JString (c_Sha256 c)),
              (''type'', JString (c_Type c))]"
  by (simp add: json_Marshal_Content_def Content_fields_def json_field_def json_value_def)

text \<open>
  C9.  The JSON encoding of a content record does not depend on the encryption key: two
  records that differ in the key only encode to the same object, and that object holds
  the id, the location, the length, the hash and the type under their tag names.
\<close>

theorem json_omits_encryption_key:
  "json_Marshal_Content (c\<lparr>c_EncryptionKey := k\<rparr>) = json_Marshal_Content c \<and>
   json_Marshal_Content c =
     JObject [(''id'', JString (c_Id c)), (''location'', JString (c_Location c)),
              (''length'', JNumber (sint (c_Length c))), (''sha256'', JString (c_Sha256 c)),
              (''type'', JString (c_Type c))]"
  by (simp add: json_Marshal_Content_eq)

section \<open>A list whose query failed\<close>

lemma drain_license_Failed:
  "drain license_next n (license_Failed e) =
     (replicate n (LicenseReport_zero, Some (DbErr e)), license_Failed e)"
  by (induction n) simp_all

lemma drain_index_Failed:
  "drain index_next n (index_Failed e) = (replicate n (Content_zero, Some (DbErr e)), index_Failed e)"
  by (induction n) simp_all

lemma ListAll_failed:
  "drv_Query drv (query (s_listall s)) [VInt (sint page), VInt (sint (pageNum * page))] (content db) = (Inl e, s')
   \<Longrightarrow> fst (ListAll drv s page pageNum db) = license_Failed e"
  by (simp add: ListAll_def arg_int_def Stmt_Query_Inl)

lemma List_failed:
  "drv_Query drv (query (s_list s)) [VStr contentID, VInt (sint page), VInt (sint (pageNum * page))] (content db) = (Inl e, s')
   \<Longrightarrow> fst (List drv s contentID page pageNum db) = license_Failed e"
  by (simp add: List_def arg_int_def arg_string_def Stmt_Query_Inl)

lemma index_List_failed:
  "drv_Query drv (query (ix_list i)) [] (content db) = (Inl e, s')
   \<Longrightarrow> fst (index_List drv i db) = index_Failed e"
  by (simp add: index_List_def Stmt_Query_Inl)

section \<open>What the statement texts parse to\<close>

text \<open>Each text is parsed once per dialect; the lemmas for an arbitrary configuration
  follow by the case distinction \<^verbatim>\<open>NewSqlStore\<close> and \<^verbatim>\<open>Open\<close> make.\<close>

lemma parse_index_tableDef: "parse_sql index_tableDef = Some (SqlCreateTable ''content'' content_schema)"
  by code_simp

lemma parse_index_tableDefPostgres: "parse_sql index_tableDefPostgres = Some (SqlCreateTable ''content'' content_schema)"
  by code_simp

lemma parse_license_tableDef: "parse_sql license_tableDef = Some (SqlCreateTable ''license'' license_schema)"
  by code_simp

lemma parse_license_tableDefPostgers: "parse_sql license_tableDefPostgers = Some (SqlCreateTable ''license'' license_schema)"
  by code_simp

lemma parse_Open_alterQuery:
  "parse_sql Open_alterQuery =
     Some (SqlAlterAddColumn ''content'' (column ''type'' True False (VStr ''application/epub+zip'')))"
  by code_simp

lemma parse_Open_createTableQuery:
  "parse_sql (Open_createTableQuery cfg) = Some (SqlCreateTable ''content'' content_schema)"
  by (simp add: Open_createTableQuery_def parse_index_tableDef parse_index_tableDefPostgres)

lemma parse_NewSqlStore_tabledefquery:
  "parse_sql (NewSqlStore_tabledefquery cfg) = Some (SqlCreateTable ''license'' license_schema)"
  by (simp add: NewSqlStore_tabledefquery_def parse_license_tableDef parse_license_tableDefPostgers)

lemma parse_Open_getQuery_postgres:
  "parse_sql (Open_getQuery ''postgres'') =
     Some (SqlSelect content_columns ''content'' (Some (''id'', Param 1)) None (Some (Lit (VInt 1))) None)"
  by code_simp

lemma parse_Open_getQuery_other:
  "parse_sql (Open_getQuery []) =
     Some (SqlSelect content_columns ''content'' (Some (''id'', Param 1)) None (Some (Lit (VInt 1))) None)"
  by code_simp

lemma parse_Open_getQuery:
  "parse_sql (Open_getQuery cfg) =
     Some (SqlSelect content_columns ''content'' (Some (''id'', Param 1)) None (Some (Lit (VInt 1))) None)"
proof -
  have "Open_getQuery cfg = Open_getQuery ''postgres'' \<or> Open_getQuery cfg = Open_getQuery []"
    by (simp add: Open_getQuery_def)
  then show ?thesis
    using parse_Open_getQuery_postgres parse_Open_getQuery_other by auto
qed

lemma parse_Open_addQuery_postgres:
  "parse_sql (Open_addQuery ''postgres'') =
     Some (SqlInsert ''content'' content_columns (map Param [1, 2, 3, 4, 5, 6]))"
  by code_simp

lemma parse_Open_addQuery_other:
  "parse_sql (Open_addQuery []) =
     Some (SqlInsert ''content'' content_columns (map Param [1, 2, 3, 4, 5, 6]))"
  by code_simp

lemma parse_Open_addQuery:
  "parse_sql (Open_addQuery cfg) =
     Some (SqlInsert ''content'' content_columns (map Param [1, 2, 3, 4, 5, 6]))"
proof -
  have "Open_addQuery cfg = Open_addQuery ''postgres'' \<or> Open_addQuery cfg = Open_addQuery []"
    by (simp add: Open_addQuery_def)
  then show ?thesis
    using parse_Open_addQuery_postgres parse_Open_addQuery_other by auto
qed

lemma parse_Open_updateQuery_postgres:
  "parse_sql (Open_updateQuery ''postgres'') =
     Some (SqlUpdate ''content'' [(''encryption_key'', Param 1), (''location'', Param 2), (''length'', Param 3), (''sha256'', Param 4), (''type'', Param 5)] ''id'' (Param 6))"
  by code_simp

lemma parse_Open_updateQuery_other:
  "parse_sql (Open_updateQuery []) =
     Some (SqlUpdate ''content'' [(''encryption_key'', Param 1), (''location'', Param 2), (''length'', Param 3), (''sha256'', Param 4), (''type'', Param 5)] ''id'' (Param 6))"
  by code_simp

lemma parse_Open_updateQuery:
  "parse_sql (Open_updateQuery cfg) =
     Some (SqlUpdate ''content'' [(''encryption_key'', Param 1), (''location'', Param 2), (''length'', Param 3), (''sha256'', Param 4), (''type'', Param 5)] ''id'' (Param 6))"
proof -
  have "Open_updateQuery cfg = Open_updateQuery ''postgres'' \<or> Open_updateQuery cfg = Open_updateQuery []"
    by (simp add: Open_updateQuery_def)
  then show ?thesis
    using parse_Open_updateQuery_postgres parse_Open_updateQuery_other by auto
qed

lemma parse_Open_listQuery_postgres:
  "parse_sql (Open_listQuery ''postgres'') =
     Some (SqlSelect content_columns ''content'' None None None None)"
  by code_simp

lemma parse_Open_listQuery_other:
  "parse_sql (Open_listQuery []) =
     Some (SqlSelect content_columns ''content'' None None None None)"
  by code_simp

lemma parse_Open_listQuery:
  "parse_sql (Open_listQuery cfg) =
     Some (SqlSelect content_columns ''content'' None None None None)"
proof -
  have "Open_listQuery cfg = Open_listQuery ''postgres'' \<or> Open_listQuery cfg = Open_listQuery []"
    by (simp add: Open_listQuery_def)
  then show ?thesis
    using parse_Open_listQuery_postgres parse_Open_listQuery_other by auto
qed

lemma parse_NewSqlStore_listallquery_postgres:
  "parse_sql (NewSqlStore_listallquery ''postgres'') =
     Some (SqlSelect license_columns ''license'' None (Some (''issued'', True)) (Some (Param 1)) (Some (Param 2)))"
  by code_simp

lemma parse_NewSqlStore_listallquery_other:
  "parse_sql (NewSqlStore_listallquery []) =
     Some (SqlSelect license_columns ''license'' None (Some (''issued'', True)) (Some (Param 1)) (Some (Param 2)))"
  by code_simp

lemma parse_NewSqlStore_listallquery:
  "parse_sql (NewSqlStore_listallquery cfg) =
     Some (SqlSelect license_columns ''license'' None (Some (''issued'', True)) (Some (Param 1)) (Some (Param 2)))"
proof -
  have "NewSqlStore_listallquery cfg = NewSqlStore_listallquery ''postgres'' \<or> NewSqlStore_listallquery cfg = NewSqlStore_listallquery []"
    by (simp add: NewSqlStore_listallquery_def)
  then show ?thesis
    using parse_NewSqlStore_listallquery_postgres parse_NewSqlStore_listallquery_other by auto
qed

lemma parse_NewSqlStore_listquery_postgres:
  "parse_sql (NewSqlStore_listquery ''postgres'') =
     Some (SqlSelect license_columns ''license'' (Some (''content_fk'', Param 1)) None (Some (Param 2)) (Some (Param 3)))"
  by code_simp

lemma parse_NewSqlStore_listquery_other:
  "parse_sql (NewSqlStore_listquery []) =
     Some (SqlSelect license_columns ''license'' (Some (''content_fk'', Param 1)) None (Some (Param 2)) (Some (Param 3)))"
  by code_simp

lemma parse_NewSqlStore_listquery:
  "parse_sql (NewSqlStore_listquery cfg) =
     Some (SqlSelect license_columns ''license'' (Some (''content_fk'', Param 1)) None (Some (Param 2)) (Some (Param 3)))"
proof -
  have "NewSqlStore_listquery cfg = NewSqlStore_listquery ''postgres'' \<or> NewSqlStore_listquery cfg = NewSqlStore_listquery []"
    by (simp add: NewSqlStore_listquery_def)
  then show ?thesis
    using parse_NewSqlStore_listquery_postgres parse_NewSqlStore_listquery_other by auto
qed

lemma parse_NewSqlStore_addquery_postgres:
  "parse_sql (NewSqlStore_addquery ''postgres'') =
     Some (SqlInsert ''license'' license_columns (map Param [1, 2, 3, 4, 5, 6, 7, 8, 9, 10]))"
  by code_simp

lemma parse_NewSqlStore_addquery_other:
  "parse_sql (NewSqlStore_addquery []) =
     Some (SqlInsert ''license'' license_columns (map Param [1, 2, 3, 4, 5, 6, 7, 8, 9, 10]))"
  by code_simp

lemma parse_NewSqlStore_addquery:
  "parse_sql (NewSqlStore_addquery cfg) =
     Some (SqlInsert ''license'' license_columns (map Param [1, 2, 3, 4, 5, 6, 7, 8, 9, 10]))"
proof -
  have "NewSqlStore_addquery cfg = NewSqlStore_addquery ''postgres'' \<or> NewSqlStore_addquery cfg = NewSqlStore_addquery []"
    by (simp add: NewSqlStore_addquery_def)
  then show ?thesis
    using parse_NewSqlStore_addquery_postgres parse_NewSqlStore_addquery_other by auto
qed

lemma parse_NewSqlStore_updatequery_postgres:
  "parse_sql (NewSqlStore_updatequery ''postgres'') =
     Some (SqlUpdate ''license'' [(''user_id'', Param 1), (''provider'', Param 2), (''updated'', Param 3), (''rights_print'', Param 4), (''rights_copy'', Param 5), (''rights_start'', Param 6), (''rights_end'', Param 7), (''content_fk'', Param 8)] ''id'' (Param 9))"
  by code_simp

lemma parse_NewSqlStore_updatequery_other:
  "parse_sql (NewSqlStore_updatequery []) =
     Some (SqlUpdate ''license'' [(''user_id'', Param 1), (''provider'', Param 2), (''updated'', Param 3), (''rights_print'', Param 4), (''rights_copy'', Param 5), (''rights_start'', Param 6), (''rights_end'', Param 7), (''content_fk'', Param 8)] ''id'' (Param 9))"
  by code_simp

lemma parse_NewSqlStore_updatequery:
  "parse_sql (NewSqlStore_updatequery cfg) =
     Some (SqlUpdate ''license'' [(''user_id'', Param 1), (''provider'', Param 2), (''updated'', Param 3), (''rights_print'', Param 4), (''rights_copy'', Param 5), (''rights_start'', Param 6), (''rights_end'', Param 7), (''content_fk'', Param 8)] ''id'' (Param 9))"
proof -
  have "NewSqlStore_updatequery cfg = NewSqlStore_updatequery ''postgres'' \<or> NewSqlStore_updatequery cfg = NewSqlStore_updatequery []"
    by (simp add: NewSqlStore_updatequery_def)
  then show ?thesis
    using parse_NewSqlStore_updatequery_postgres parse_NewSqlStore_updatequery_other by auto
qed

lemma parse_NewSqlStore_updatelsdstatusquery_postgres:
  "parse_sql (NewSqlStore_updatelsdstatusquery ''postgres'') =
     Some (SqlUpdate ''license'' [(''lsd_status'', Param 1)] ''id'' (Param 2))"
  by code_simp

lemma parse_NewSqlStore_updatelsdstatusquery_other:
  "parse_sql (NewSqlStore_updatelsdstatusquery []) =
     Some (SqlUpdate ''license'' [(''lsd_status'', Param 1)] ''id'' (Param 2))"
  by code_simp

lemma parse_NewSqlStore_updatelsdstatusquery:
  "parse_sql (NewSqlStore_updatelsdstatusquery cfg) =
     Some (SqlUpdate ''license'' [(''lsd_status'', Param 1)] ''id'' (Param 2))"
proof -
  have "NewSqlStore_updatelsdstatusquery cfg = NewSqlStore_updatelsdstatusquery ''postgres'' \<or> NewSqlStore_updatelsdstatusquery cfg = NewSqlStore_updatelsdstatusquery []"
    by (simp add: NewSqlStore_updatelsdstatusquery_def)
  then show ?thesis
    using parse_NewSqlStore_updatelsdstatusquery_postgres parse_NewSqlStore_updatelsdstatusquery_other by auto
qed

lemma parse_NewSqlStore_getquery_postgres:
  "parse_sql (NewSqlStore_getquery ''postgres'') =
     Some (SqlSelect license_columns ''license'' (Some (''id'', Param 1)) None None None)"
  by code_simp

lemma parse_NewSqlStore_getquery_other:
  "parse_sql (NewSqlStore_getquery []) =
     Some (SqlSelect license_columns ''license'' (Some (''id'', Param 1)) None None None)"
  by code_simp

lemma parse_NewSqlStore_getquery:
  "parse_sql (NewSqlStore_getquery cfg) =
     Some (SqlSelect license_columns ''license'' (Some (''id'', Param 1)) None None None)"
proof -
  have "NewSqlStore_getquery cfg = NewSqlStore_getquery ''postgres'' \<or> NewSqlStore_getquery cfg = NewSqlStore_getquery []"
    by (simp add: NewSqlStore_getquery_def)
  then show ?thesis
    using parse_NewSqlStore_getquery_postgres parse_NewSqlStore_getquery_other by auto
qed

lemma parse_NewSqlStore_updaterightsquery_postgres:
  "parse_sql (NewSqlStore_updaterightsquery ''postgres'') =
     Some (SqlUpdate ''license'' [(''rights_print'', Param 1), (''rights_copy'', Param 2),
       (''rights_start'', Param 3), (''rights_end'', Param 4), (''updated'', Param 5)] ''id'' (Param 6))"
  by code_simp

lemma parse_NewSqlStore_updaterightsquery_other:
  "parse_sql (NewSqlStore_updaterightsquery []) = None"
  by code_simp


section \<open>The adapters on the reference database\<close>

lemma Stmt_Exec_ref:
  "parse_sql (query st) = Some ast \<Longrightarrow> num_input ast = length args \<Longrightarrow>
   Stmt_Exec refdb st args db =
     (case exec_statement ast args (content db) of
        (r, s') \<Rightarrow> (r, \<lparr>calls = calls db @ [CallExec (query st) args], content = s'\<rparr>))"
  by (simp add: Stmt_Exec_def DB_Exec_def refdb_def ref_Exec_def)

lemma Stmt_Query_ref:
  "parse_sql (query st) = Some ast \<Longrightarrow> num_input ast = length args \<Longrightarrow>
   Stmt_Query refdb st args db =
     ((case query_statement ast args (content db) of
         Inl e \<Rightarrow> Inl e
       | Inr rows \<Rightarrow> Inr \<lparr>pending = rows, current = None, failure = None, closed = False\<rparr>),
      \<lparr>calls = calls db @ [CallQuery (query st) args], content = content db\<rparr>)"
  by (simp add: Stmt_Query_def refdb_def ref_Query_def split: sum.splits)

lemma conv_int_sint: "conv_int (VInt (sint (w :: 'a::len word))) = (Inr w :: dberror + 'a word)"
  using sint_ge [of w] sint_lt [of w] by (simp add: conv_int_def)

subsection \<open>The content index\<close>

lemma exec_insert_content:
  assumes "db ''content'' = Some t" "t_cols t = content_schema"
  shows "exec_statement (SqlInsert ''content'' content_columns (map Param [1, 2, 3, 4, 5, 6])) (Content_args c) db =
     (if list_ex (\<lambda>r'. sql_eq (field r' ''id'') (VStr (c_Id c))) (t_rows t)
      then (Inl (ErrOther ''UNIQUE constraint failed''), db)
      else (Inr (affected 1), db(''content'' \<mapsto> t\<lparr>t_rows := t_rows t @ [Content_row c]\<rparr>)))"
  using assms
  by (simp add: exec_statement_def has_column_def content_schema_def column_def content_columns_def
      Content_args_def bind_def new_row_def violates_notnull_def violates_pkey_def field_def Content_row_def)

lemma index_Add_ref:
  assumes "content db ''content'' = Some t" "t_cols t = content_schema"
  shows "index_Add refdb (index_of cfg) c db =
     (if list_ex (\<lambda>r'. sql_eq (field r' ''id'') (VStr (c_Id c))) (t_rows t)
      then (Some (DbErr (ErrOther ''UNIQUE constraint failed'')),
            \<lparr>calls = calls db @ [CallExec (Open_addQuery cfg) (Content_args c)], content = content db\<rparr>)
      else (None,
            \<lparr>calls = calls db @ [CallExec (Open_addQuery cfg) (Content_args c)],
             content = (content db)(''content'' \<mapsto> t\<lparr>t_rows := t_rows t @ [Content_row c]\<rparr>)\<rparr>))"
proof -
  have p: "parse_sql (query (ix_add (index_of cfg))) =
      Some (SqlInsert ''content'' content_columns (map Param [1, 2, 3, 4, 5, 6]))"
    by (simp only: index_of_def dbIndex.simps Stmt.sel parse_Open_addQuery)
  have n: "num_input (SqlInsert ''content'' content_columns (map Param [1, 2, 3, 4, 5, 6])) = length (Content_args c)"
    by (simp add: num_input_def operands_def param_index_def Content_args_def)
  have a: "[arg_string (c_Id c), arg_bytes (c_EncryptionKey c), arg_string (c_Location c),
              arg_int (c_Length c), arg_string (c_Sha256 c), arg_string (c_Type c)] = Content_args c"
    by (simp add: Content_args_def arg_string_def arg_bytes_def arg_int_def)
  note x = Stmt_Exec_ref [OF p n, of db, unfolded exec_insert_content [of "content db" t c, OF assms]]
  show ?thesis
    unfolding index_Add_def a x by (simp add: index_of_def)
qed

lemma query_get_content:
  assumes "db ''content'' = Some t" "t_cols t = content_schema"
  shows "query_statement (SqlSelect content_columns ''content'' (Some (''id'', Param 1)) None (Some (Lit (VInt 1))) None) [VStr ident] db =
     Inr (map (\<lambda>r. map (field r) content_columns) (take 1 (filter (\<lambda>r. sql_eq (field r ''id'') (VStr ident)) (t_rows t))))"
  using assms
  by (simp add: query_statement_def has_column_def content_schema_def column_def content_columns_def
      opt_list_def where_pred_def bind_def count_of_def limit_rows_def offset_rows_def order_rows_def)

lemma scan_Content_args: "scan_row Content_dests (Content_args c) Content_zero = (c, None)"
  by (simp add: scan_row_def Content_dests_def Content_args_def dest_def conv_string_def conv_bytes_def
      conv_int_sint Content_zero_def)

lemma fields_Content_row: "map (field (Content_row c)) content_columns = Content_args c"
  by (simp add: Content_row_def content_columns_def Content_args_def field_def)

lemma index_Get_ref:
  assumes "content db ''content'' = Some t" "t_cols t = content_schema"
  shows "index_Get refdb (index_of cfg) ident db =
     ((case filter (\<lambda>r. sql_eq (field r ''id'') (VStr ident)) (t_rows t) of
         [] \<Rightarrow> (Content_zero, Some index_NotFound)
       | r # rs \<Rightarrow>
           (case scan_row Content_dests (map (field r) content_columns) Content_zero of
              (c, e) \<Rightarrow> (c, map_option DbErr e))),
      \<lparr>calls = calls db @ [CallQuery (Open_getQuery cfg) [VStr ident]], content = content db\<rparr>)"
proof -
  have p: "parse_sql (query (ix_get (index_of cfg))) =
      Some (SqlSelect content_columns ''content'' (Some (''id'', Param 1)) None (Some (Lit (VInt 1))) None)"
    by (simp only: index_of_def dbIndex.simps Stmt.sel parse_Open_getQuery)
  have n: "num_input (SqlSelect content_columns ''content'' (Some (''id'', Param 1)) None (Some (Lit (VInt 1))) None) = length [VStr ident]"
    by (simp add: num_input_def operands_def param_index_def opt_list_def)
  note x = Stmt_Query_ref [OF p n, of db, unfolded query_get_content [of "content db" t ident, OF assms]]
  show ?thesis
    unfolding index_Get_def arg_string_def x
    by (simp add: Rows_Next_def Rows_Scan_def Rows_Close_def index_of_def split: list.splits prod.splits)
qed

subsection \<open>The license store\<close>

lemma exec_insert_license:
  assumes "db ''license'' = Some t" "t_cols t = license_schema"
  shows "exec_statement (SqlInsert ''license'' license_columns (map Param [1, 2, 3, 4, 5, 6, 7, 8, 9, 10])) (License_args l r) db =
     (if list_ex (\<lambda>r'. sql_eq (field r' ''id'') (VStr (l_Id l))) (t_rows t)
      then (Inl (ErrOther ''UNIQUE constraint failed''), db)
      else (Inr (affected 1), db(''license'' \<mapsto> t\<lparr>t_rows := t_rows t @ [License_row l r]\<rparr>)))"
  using assms
  by (simp add: exec_statement_def has_column_def license_schema_def column_def license_columns_def
      License_args_def bind_def new_row_def violates_notnull_def violates_pkey_def field_def License_row_def)

lemma Add_ref:
  assumes "content db ''license'' = Some t" "t_cols t = license_schema" "l_Rights l = Some r"
  shows "Add refdb (store_of cfg) l db =
     (if list_ex (\<lambda>r'. sql_eq (field r' ''id'') (VStr (l_Id l))) (t_rows t)
      then (Returns (Some (DbErr (ErrOther ''UNIQUE constraint failed''))),
            \<lparr>calls = calls db @ [CallExec (NewSqlStore_addquery cfg) (License_args l r)], content = content db\<rparr>)
      else (Returns None,
            \<lparr>calls = calls db @ [CallExec (NewSqlStore_addquery cfg) (License_args l r)],
             content = (content db)(''license'' \<mapsto> t\<lparr>t_rows := t_rows t @ [License_row l r]\<rparr>)\<rparr>))"
proof -
  have p: "parse_sql (query (s_add (store_of cfg))) =
      Some (SqlInsert ''license'' license_columns (map Param [1, 2, 3, 4, 5, 6, 7, 8, 9, 10]))"
    by (simp only: store_of_def sqlStore.simps Stmt.sel parse_NewSqlStore_addquery)
  have n: "num_input (SqlInsert ''license'' license_columns (map Param [1, 2, 3, 4, 5, 6, 7, 8, 9, 10])) = length (License_args l r)"
    by (simp add: num_input_def operands_def param_index_def License_args_def)
  have a: "[arg_string (l_Id l), arg_string (u_Id (l_User l)), arg_string (l_Provider l),
                   arg_time (l_Issued l), arg_nil,
                   arg_ptr arg_int (r_Print r), arg_ptr arg_int (r_Copy r),
                   arg_ptr arg_time (r_Start r), arg_ptr arg_time (r_End r),
                   arg_string (l_ContentId l)] = License_args l r"
    by (simp add: License_args_def arg_string_def arg_time_def arg_nil_def)
  note x = Stmt_Exec_ref [OF p n, of db, unfolded exec_insert_license [of "content db" t l r, OF assms(1,2)]]
  show ?thesis
    unfolding Add_def assms(3) option.case a x by (simp add: store_of_def)
qed

lemma query_get_license:
  assumes "db ''license'' = Some t" "t_cols t = license_schema"
  shows "query_statement (SqlSelect license_columns ''license'' (Some (''id'', Param 1)) None None None) [VStr ident] db =
     Inr (map (\<lambda>r. map (field r) license_columns) (filter (\<lambda>r. sql_eq (field r ''id'') (VStr ident)) (t_rows t)))"
  using assms
  by (simp add: query_statement_def has_column_def license_schema_def column_def license_columns_def
      opt_list_def where_pred_def bind_def count_of_def limit_rows_def offset_rows_def order_rows_def)

lemma conv_ptr_arg_int:
  "conv_ptr conv_int (arg_ptr arg_int (p :: 'a::len word option)) = (Inr p :: dberror + 'a word option)"
  by (cases p) (simp_all add: conv_ptr_def arg_ptr_def arg_int_def conv_int_sint)

lemma conv_ptr_arg_time: "conv_ptr conv_time (arg_ptr arg_time p) = Inr p"
  by (cases p) (simp_all add: conv_ptr_def arg_ptr_def arg_time_def conv_time_def)

lemma conv_ptr_VNull: "conv_ptr f VNull = Inr None"
  by (simp add: conv_ptr_def)

lemma scan_License_args:
  "scan_row License_dests (License_args l r) License_new =
     (\<lparr>l_Id = l_Id l, l_User = \<lparr>u_Id = u_Id (l_User l)\<rparr>, l_Provider = l_Provider l,
       l_Issued = l_Issued l, l_Updated = None, l_Rights = Some r, l_ContentId = l_ContentId l\<rparr>, None)"
  by (simp add: scan_row_def License_dests_def License_args_def dest_def conv_string_def conv_time_def
      conv_ptr_arg_int conv_ptr_arg_time License_new_def UserRights_zero_def conv_ptr_VNull)

lemma fields_License_row: "map (field (License_row l r)) license_columns = License_args l r"
  by (simp add: License_row_def license_columns_def License_args_def field_def)

lemma license_Get_ref:
  assumes "content db ''license'' = Some t" "t_cols t = license_schema"
  shows "license_Get refdb (store_of cfg) ident db =
     ((case filter (\<lambda>r. sql_eq (field r ''id'') (VStr ident)) (t_rows t) of
         [] \<Rightarrow> (License_new, Some license_NotFound)
       | r # rs \<Rightarrow>
           (case scan_row License_dests (map (field r) license_columns) License_new of
              (l, e) \<Rightarrow> (l, map_option (\<lambda>err. if err = ErrNoRows then license_NotFound else DbErr err) e))),
      \<lparr>calls = calls db @ [CallQuery (NewSqlStore_getquery cfg) [VStr ident]], content = content db\<rparr>)"
proof -
  have p: "parse_sql (query (s_get (store_of cfg))) =
      Some (SqlSelect license_columns ''license'' (Some (''id'', Param 1)) None None None)"
    by (simp only: store_of_def sqlStore.simps Stmt.sel parse_NewSqlStore_getquery)
  have n: "num_input (SqlSelect license_columns ''license'' (Some (''id'', Param 1)) None None None) = length [VStr ident]"
    by (simp add: num_input_def operands_def param_index_def opt_list_def)
  note x = Stmt_Query_ref [OF p n, of db, unfolded query_get_license [of "content db" t ident, OF assms]]
  show ?thesis
    unfolding license_Get_def arg_string_def x
    by (simp add: Row_Scan_def Rows_Next_def Rows_Scan_def Rows_Close_def Rows_Err_def store_of_def
        split: list.splits prod.splits option.splits)
qed

lemma exec_update_license:
  assumes "db ''license'' = Some t" "t_cols t = license_schema"
  shows "exec_statement (SqlUpdate ''license'' [(''user_id'', Param 1), (''provider'', Param 2), (''updated'', Param 3), (''rights_print'', Param 4), (''rights_copy'', Param 5), (''rights_start'', Param 6), (''rights_end'', Param 7), (''content_fk'', Param 8)] ''id'' (Param 9))
           (Update_args now l r) db =
     (Inr (affected (length (filter (hit (l_Id l)) (t_rows t)))),
      db(''license'' \<mapsto> t\<lparr>t_rows := map (\<lambda>r'. if hit (l_Id l) r' then
           set_fields (zip [''user_id'', ''provider'', ''updated'', ''rights_print'', ''rights_copy'',
                            ''rights_start'', ''rights_end'', ''content_fk''] (butlast (Update_args now l r))) r'
           else r') (t_rows t)\<rparr>))"
  using assms
  by (simp add: exec_statement_def has_column_def license_schema_def column_def
      Update_args_def bind_def assigns_null_def hit_def cong: if_cong)

lemma exec_updaterights_license:
  assumes "db ''license'' = Some t" "t_cols t = license_schema"
  shows "exec_statement (SqlUpdate ''license'' [(''rights_print'', Param 1), (''rights_copy'', Param 2),
       (''rights_start'', Param 3), (''rights_end'', Param 4), (''updated'', Param 5)] ''id'' (Param 6))
           (UpdateRights_args now l r) db =
     (Inr (affected (length (filter (hit (l_Id l)) (t_rows t)))),
      db(''license'' \<mapsto> t\<lparr>t_rows := map (\<lambda>r'. if hit (l_Id l) r' then
           set_fields (zip [''rights_print'', ''rights_copy'', ''rights_start'', ''rights_end'', ''updated'']
                           (butlast (UpdateRights_args now l r))) r'
           else r') (t_rows t)\<rparr>))"
  using assms
  by (simp add: exec_statement_def has_column_def license_schema_def column_def
      UpdateRights_args_def bind_def assigns_null_def hit_def cong: if_cong)

lemma exec_updatelsdstatus_license:
  assumes "db ''license'' = Some t" "t_cols t = license_schema"
  shows "exec_statement (SqlUpdate ''license'' [(''lsd_status'', Param 1)] ''id'' (Param 2))
           [VInt (sint status), VStr ident] db =
     (Inr (affected (length (filter (hit ident) (t_rows t)))),
      db(''license'' \<mapsto> t\<lparr>t_rows := map (\<lambda>r'. if hit ident r' then
           set_fields [(''lsd_status'', VInt (sint status))] r' else r') (t_rows t)\<rparr>))"
  using assms
  by (simp add: exec_statement_def has_column_def license_schema_def column_def
      bind_def assigns_null_def hit_def cong: if_cong)

lemma Update_ref:
  assumes "content db ''license'' = Some t" "t_cols t = license_schema" "l_Rights l = Some r"
  shows "Update refdb now (store_of cfg) l db =
     (Returns None,
      \<lparr>calls = calls db @ [CallExec (NewSqlStore_updatequery cfg) (Update_args now l r)],
       content = (content db)(''license'' \<mapsto> updated_table (l_Id l) (Update_change now l r) t)\<rparr>)"
proof -
  let ?ast = "SqlUpdate ''license'' [(''user_id'', Param 1), (''provider'', Param 2), (''updated'', Param 3), (''rights_print'', Param 4), (''rights_copy'', Param 5), (''rights_start'', Param 6), (''rights_end'', Param 7), (''content_fk'', Param 8)] ''id'' (Param 9)"
  have p: "parse_sql (query (s_update (store_of cfg))) = Some ?ast"
    by (simp only: store_of_def sqlStore.simps Stmt.sel parse_NewSqlStore_updatequery)
  have n: "num_input ?ast = length (Update_args now l r)"
    by (simp add: num_input_def operands_def param_index_def Update_args_def)
  have a: "[arg_string (u_Id (l_User l)), arg_string (l_Provider l),
                   arg_time (Time_Truncate (Time_UTC now) Second),
                   arg_ptr arg_int (r_Print r), arg_ptr arg_int (r_Copy r),
                   arg_ptr arg_time (r_Start r), arg_ptr arg_time (r_End r),
                   arg_string (l_ContentId l),
                   arg_string (l_Id l)] = Update_args now l r"
    by (simp add: Update_args_def arg_string_def arg_time_def)
  note x = Stmt_Exec_ref [OF p n, of db, unfolded exec_update_license [of "content db" t now l r, OF assms(1,2)]]
  show ?thesis
    unfolding Update_def assms(3) option.case a x
    by (simp add: store_of_def updated_table_def Update_change_def)
qed

lemma UpdateRights_ref:
  assumes "content db ''license'' = Some t" "t_cols t = license_schema" "l_Rights l = Some r"
    and "HasPrefix cfg ''postgres''"
  shows "UpdateRights refdb now (store_of cfg) l db =
     (Returns (if filter (hit (l_Id l)) (t_rows t) = [] then Some license_NotFound else None),
      \<lparr>calls = calls db @ [CallExec (NewSqlStore_updaterightsquery cfg) (UpdateRights_args now l r)],
       content = (content db)(''license'' \<mapsto> updated_table (l_Id l) (UpdateRights_change now l r) t)\<rparr>)"
proof -
  let ?ast = "SqlUpdate ''license'' [(''rights_print'', Param 1), (''rights_copy'', Param 2),
       (''rights_start'', Param 3), (''rights_end'', Param 4), (''updated'', Param 5)] ''id'' (Param 6)"
  have q: "NewSqlStore_updaterightsquery cfg = NewSqlStore_updaterightsquery ''postgres''"
    using assms(4) by (simp add: NewSqlStore_updaterightsquery_def)
  have p: "parse_sql (query (s_updaterights (store_of cfg))) = Some ?ast"
    by (simp only: store_of_def sqlStore.simps Stmt.sel q parse_NewSqlStore_updaterightsquery_postgres)
  have n: "num_input ?ast = length (UpdateRights_args now l r)"
    by (simp add: num_input_def operands_def param_index_def UpdateRights_args_def)
  have a: "[arg_ptr arg_int (r_Print r), arg_ptr arg_int (r_Copy r),
                   arg_ptr arg_time (r_Start r), arg_ptr arg_time (r_End r),
                   arg_time (Time_Truncate (Time_UTC now) Second), arg_string (l_Id l)] = UpdateRights_args now l r"
    by (simp add: UpdateRights_args_def arg_string_def arg_time_def)
  note x = Stmt_Exec_ref [OF p n, of db, unfolded exec_updaterights_license [of "content db" t now l r, OF assms(1,2)]]
  show ?thesis
    unfolding UpdateRights_def assms(3) option.case a x
    by (simp add: store_of_def updated_table_def UpdateRights_change_def affected_def)
qed

lemma UpdateRights_ref_other:
  assumes "l_Rights l = Some r" and "\<not> HasPrefix cfg ''postgres''"
  shows "UpdateRights refdb now (store_of cfg) l db =
     (Returns (Some (DbErr (ErrOther ''syntax error''))),
      \<lparr>calls = calls db @ [CallExec (NewSqlStore_updaterightsquery cfg) (UpdateRights_args now l r)],
       content = content db\<rparr>)"
proof -
  have q: "NewSqlStore_updaterightsquery cfg = NewSqlStore_updaterightsquery []"
    using assms(2) by (simp add: NewSqlStore_updaterightsquery_def)
  have a: "[arg_ptr arg_int (r_Print r), arg_ptr arg_int (r_Copy r),
                   arg_ptr arg_time (r_Start r), arg_ptr arg_time (r_End r),
                   arg_time (Time_Truncate (Time_UTC now) Second), arg_string (l_Id l)] = UpdateRights_args now l r"
    by (simp add: UpdateRights_args_def arg_string_def arg_time_def)
  show ?thesis
    unfolding UpdateRights_def assms(1) option.case a
    by (simp add: Stmt_Exec_def DB_Exec_def refdb_def ref_Exec_def store_of_def
        parse_NewSqlStore_updaterightsquery_other [folded q])
qed

lemma UpdateLsdStatus_ref:
  assumes "content db ''license'' = Some t" "t_cols t = license_schema"
  shows "UpdateLsdStatus refdb (store_of cfg) ident status db =
     (None,
      \<lparr>calls = calls db @ [CallExec (NewSqlStore_updatelsdstatusquery cfg) [VInt (sint status), VStr ident]],
       content = (content db)(''license'' \<mapsto>
          updated_table ident (set_fields [(''lsd_status'', VInt (sint status))]) t)\<rparr>)"
proof -
  let ?ast = "SqlUpdate ''license'' [(''lsd_status'', Param 1)] ''id'' (Param 2)"
  have p: "parse_sql (query (s_updatelsdstatus (store_of cfg))) = Some ?ast"
    by (simp only: store_of_def sqlStore.simps Stmt.sel parse_NewSqlStore_updatelsdstatusquery)
  have n: "num_input ?ast = length [VInt (sint status), VStr ident]"
    by (simp add: num_input_def operands_def param_index_def)
  note x = Stmt_Exec_ref [OF p n, of db, unfolded exec_updatelsdstatus_license [of "content db" t status ident, OF assms(1,2)]]
  show ?thesis
    unfolding UpdateLsdStatus_def arg_int_def arg_string_def x
    by (simp add: store_of_def updated_table_def)
qed

lemma updated_table_no_hit:
  "filter (hit ident) (t_rows t) = [] \<Longrightarrow> updated_table ident change t = t"
proof -
  assume "filter (hit ident) (t_rows t) = []"
  then have "map (\<lambda>r'. if hit ident r' then change r' else r') (t_rows t) = t_rows t"
    by (induction "t_rows t" arbitrary: t) (auto simp: filter_empty_conv map_idI)
  then show ?thesis by (simp add: updated_table_def)
qed


section \<open>Draining a list\<close>

lemma drain_index_Cursor:
  "drain index_next (Suc (length rows))
      (index_Cursor \<lparr>pending = rows, current = cur, failure = f, closed = False\<rparr>) =
     (map index_result rows @ [(Content_zero, Some index_NotFound)],
      index_Cursor \<lparr>pending = [], current = None, failure = f, closed = True\<rparr>)"
proof (induction rows arbitrary: cur)
  case Nil
  show ?case by (simp add: Rows_Next_def Rows_Close_def)
next
  case (Cons row rows)
  have "index_next (index_Cursor \<lparr>pending = row # rows, current = cur, failure = f, closed = False\<rparr>) =
        (index_result row, index_Cursor \<lparr>pending = rows, current = Some row, failure = f, closed = False\<rparr>)"
    by (simp add: Rows_Next_def Rows_Scan_def index_result_def split: prod.splits)
  then show ?case using Cons.IH [of "Some row"] by simp
qed

lemma drain_license_Cursor:
  "drain license_next (Suc (length rows))
      (license_Cursor \<lparr>pending = rows, current = cur, failure = f, closed = False\<rparr> None) =
     (map license_result rows @ [(LicenseReport_new, Some license_NotFound)],
      license_Cursor \<lparr>pending = [], current = None, failure = f, closed = True\<rparr> (Some license_NotFound))"
proof (induction rows arbitrary: cur)
  case Nil
  show ?case by (simp add: Rows_Next_def Rows_Close_def)
next
  case (Cons row rows)
  have "license_next (license_Cursor \<lparr>pending = row # rows, current = cur, failure = f, closed = False\<rparr> None) =
        (license_result row, license_Cursor \<lparr>pending = rows, current = Some row, failure = f, closed = False\<rparr> None)"
    by (simp add: Rows_Next_def Rows_Scan_def license_result_def split: prod.splits option.splits)
  then show ?case using Cons.IH [of "Some row"] by simp
qed

lemma index_result_Content_args: "index_result (Content_args c) = (c, None)"
  by (simp add: index_result_def scan_Content_args)

lemma license_result_License_args:
  "license_result (License_args l r) =
     (\<lparr>lr_Id = l_Id l, lr_User = \<lparr>u_Id = u_Id (l_User l)\<rparr>, lr_Provider = l_Provider l,
       lr_Issued = l_Issued l, lr_Updated = None, lr_Rights = Some r, lr_ContentId = l_ContentId l\<rparr>, None)"
  by (simp add: license_result_def scan_row_def LicenseReport_dests_def License_args_def dest_def
      conv_string_def conv_time_def conv_ptr_arg_int conv_ptr_arg_time LicenseReport_new_def
      LicenseReport_zero_def UserRights_zero_def conv_ptr_VNull)

lemma index_List_started:
  "drv_Query drv (query (ix_list i)) [] (content db) = (Inr (rows, f), s') \<Longrightarrow>
   fst (index_List drv i db) = index_Cursor \<lparr>pending = rows, current = None, failure = f, closed = False\<rparr>"
  by (simp add: index_List_def Stmt_Query_Inr)

lemma ListAll_started:
  "drv_Query drv (query (s_listall s)) [VInt (sint page), VInt (sint (pageNum * page))] (content db) = (Inr (rows, f), s') \<Longrightarrow>
   fst (ListAll drv s page pageNum db) =
     license_Cursor \<lparr>pending = rows, current = None, failure = f, closed = False\<rparr> None"
  by (simp add: ListAll_def arg_int_def Stmt_Query_Inr)

lemma List_started:
  "drv_Query drv (query (s_list s)) [VStr contentID, VInt (sint page), VInt (sint (pageNum * page))] (content db) = (Inr (rows, f), s') \<Longrightarrow>
   fst (List drv s contentID page pageNum db) =
     license_Cursor \<lparr>pending = rows, current = None, failure = f, closed = False\<rparr> None"
  by (simp add: List_def arg_int_def arg_string_def Stmt_Query_Inr)

section \<open>Pages\<close>

lemma query_listall_license:
  assumes "db ''license'' = Some t" "t_cols t = license_schema"
  shows "query_statement (SqlSelect license_columns ''license'' None (Some (''issued'', True)) (Some (Param 1)) (Some (Param 2))) [VInt a, VInt b] db =
     (if 0 \<le> a \<and> 0 \<le> b
      then Inr (map license_values (page_of a b (newest_first (t_rows t))))
      else Inl (ErrOther ''bad argument''))"
  using assms
  by (simp add: query_statement_def has_column_def license_schema_def column_def license_columns_def
      opt_list_def where_pred_def bind_def count_of_def limit_rows_def offset_rows_def order_rows_def
      newest_first_def license_values_def page_of_def)

lemma query_list_license:
  assumes "db ''license'' = Some t" "t_cols t = license_schema"
  shows "query_statement (SqlSelect license_columns ''license'' (Some (''content_fk'', Param 1)) None (Some (Param 2)) (Some (Param 3))) [VStr cid, VInt a, VInt b] db =
     (if 0 \<le> a \<and> 0 \<le> b
      then Inr (map license_values (page_of a b (filter (\<lambda>r. sql_eq (field r ''content_fk'') (VStr cid)) (t_rows t))))
      else Inl (ErrOther ''bad argument''))"
  using assms
  by (simp add: query_statement_def has_column_def license_schema_def column_def license_columns_def
      opt_list_def where_pred_def bind_def count_of_def limit_rows_def offset_rows_def order_rows_def
      license_values_def page_of_def)

lemma ListAll_ref:
  assumes "content db ''license'' = Some t" "t_cols t = license_schema"
    and "0 \<le> sint page" "0 \<le> sint (pageNum * page)"
  shows "fst (ListAll refdb (store_of cfg) page pageNum db) =
     license_Cursor \<lparr>pending = map license_values (page_of (sint page) (sint (pageNum * page)) (newest_first (t_rows t))),
                     current = None, failure = None, closed = False\<rparr> None"
proof -
  let ?ast = "SqlSelect license_columns ''license'' None (Some (''issued'', True)) (Some (Param 1)) (Some (Param 2))"
  have p: "parse_sql (query (s_listall (store_of cfg))) = Some ?ast"
    by (simp only: store_of_def sqlStore.simps Stmt.sel parse_NewSqlStore_listallquery)
  have n: "num_input ?ast = length [VInt (sint page), VInt (sint (pageNum * page))]"
    by (simp add: num_input_def operands_def param_index_def opt_list_def)
  note x = Stmt_Query_ref [OF p n, of db, unfolded query_listall_license [of "content db" t, OF assms(1,2)]]
  show ?thesis
    unfolding ListAll_def arg_int_def x using assms(3,4) by simp
qed

lemma List_ref:
  assumes "content db ''license'' = Some t" "t_cols t = license_schema"
    and "0 \<le> sint page" "0 \<le> sint (pageNum * page)"
  shows "fst (List refdb (store_of cfg) cid page pageNum db) =
     license_Cursor \<lparr>pending = map license_values (page_of (sint page) (sint (pageNum * page))
                        (filter (\<lambda>r. sql_eq (field r ''content_fk'') (VStr cid)) (t_rows t))),
                     current = None, failure = None, closed = False\<rparr> None"
proof -
  let ?ast = "SqlSelect license_columns ''license'' (Some (''content_fk'', Param 1)) None (Some (Param 2)) (Some (Param 3))"
  have p: "parse_sql (query (s_list (store_of cfg))) = Some ?ast"
    by (simp only: store_of_def sqlStore.simps Stmt.sel parse_NewSqlStore_listquery)
  have n: "num_input ?ast = length [VStr cid, VInt (sint page), VInt (sint (pageNum * page))]"
    by (simp add: num_input_def operands_def param_index_def opt_list_def)
  note x = Stmt_Query_ref [OF p n, of db, unfolded query_list_license [of "content db" t, OF assms(1,2)]]
  show ?thesis
    unfolding List_def arg_int_def arg_string_def x using assms(3,4) by simp
qed

lemma mul_no_overflow:
  fixes a b :: "64 word"
  assumes "- (2 ^ 63) \<le> sint a * sint b" "sint a * sint b < 2 ^ 63"
  shows "sint (a * b) = sint a * sint b"
  using assms by (simp add: sint_word_ariths signed_take_bit_int_eq_self)


section \<open>The calls of the two constructors\<close>

lemma DB_Exec_calls: "calls (snd (DB_Exec drv q args db)) = calls db @ [CallExec q args]"
  by (simp add: DB_Exec_def split: prod.splits)

lemma DB_Prepare_calls: "calls (snd (DB_Prepare drv q db)) = calls db @ [CallPrepare q]"
  by (simp add: DB_Prepare_def split: prod.splits)

lemma only_prepares_refl: "only_prepares base base"
  by (simp add: only_prepares_def)

lemma only_prepares_snoc:
  assumes "only_prepares base cs"
  shows "only_prepares base (cs @ [CallPrepare q])"
proof -
  have "length (take (length base) cs) = length base"
    using assms by (simp add: only_prepares_def)
  then have "length base \<le> length cs"
    by simp
  then show ?thesis
    using assms by (simp add: only_prepares_def is_Prepare_def)
qed

lemma prepare_step:
  assumes "only_prepares base (calls db)"
    and "\<And>st db'. only_prepares base (calls db') \<Longrightarrow> only_prepares base (calls (snd (K st db')))"
  shows "only_prepares base (calls (snd (case DB_Prepare drv q db of
            (Inl err, db') \<Rightarrow> (Inl (DbErr err), db') | (Inr st, db') \<Rightarrow> K st db')))"
proof (cases "DB_Prepare drv q db")
  case (Pair r db')
  have "calls db' = calls db @ [CallPrepare q]"
    using DB_Prepare_calls [of drv q db] Pair by simp
  then have c: "only_prepares base (calls db')"
    using only_prepares_snoc [OF assms(1)] by simp
  show ?thesis
  proof (cases r)
    case (Inl err)
    then show ?thesis using Pair c by simp
  next
    case (Inr st)
    then show ?thesis using Pair assms(2) [OF c] by simp
  qed
qed

lemma prepares_of_store:
  assumes "only_prepares base (calls db0)"
  shows "only_prepares base (calls (snd
           (case DB_Prepare drv (NewSqlStore_listallquery cfg) db0 of
                (Inl err, db1) \<Rightarrow> (Inl (DbErr err), db1)
              | (Inr listall, db1) \<Rightarrow>
           (case DB_Prepare drv (NewSqlStore_listquery cfg) db1 of
                (Inl err, db2) \<Rightarrow> (Inl (DbErr err), db2)
              | (Inr list, db2) \<Rightarrow>
           (case DB_Prepare drv (NewSqlStore_updaterightsquery cfg) db2 of
                (Inl err, db3) \<Rightarrow> (Inl (DbErr err), db3)
              | (Inr updaterights, db3) \<Rightarrow>
           (case DB_Prepare drv (NewSqlStore_addquery cfg) db3 of
                (Inl err, db4) \<Rightarrow> (Inl (DbErr err), db4)
              | (Inr add, db4) \<Rightarrow>
           (case DB_Prepare drv (NewSqlStore_updatequery cfg) db4 of
                (Inl err, db5) \<Rightarrow> (Inl (DbErr err), db5)
              | (Inr update, db5) \<Rightarrow>
           (case DB_Prepare drv (NewSqlStore_updatelsdstatusquery cfg) db5 of
                (Inl err, db6) \<Rightarrow> (Inl (DbErr err), db6)
              | (Inr updatelsdstatus, db6) \<Rightarrow>
           (case DB_Prepare drv (NewSqlStore_getquery cfg) db6 of
                (Inl err, db7) \<Rightarrow> (Inl (DbErr err), db7)
              | (Inr get, db7) \<Rightarrow>
                  (Inr \<lparr>s_listall = listall, s_list = list, s_updaterights = updaterights,
                        s_add = add, s_update = update, s_updatelsdstatus = updatelsdstatus,
                        s_get = get\<rparr>, db7))))))))))"
  by (intro prepare_step) (use assms in simp_all)

lemma prepares_of_index:
  assumes "only_prepares base (calls db2)"
  shows "only_prepares base (calls (snd
           (case DB_Prepare drv (Open_getQuery cfg) db2 of
                (Inl err, db3) \<Rightarrow> (Inl (DbErr err), db3)
              | (Inr get, db3) \<Rightarrow>
           (case DB_Prepare drv (Open_addQuery cfg) db3 of
                (Inl err, db4) \<Rightarrow> (Inl (DbErr err), db4)
              | (Inr add, db4) \<Rightarrow>
           (case DB_Prepare drv (Open_updateQuery cfg) db4 of
                (Inl err, db5) \<Rightarrow> (Inl (DbErr err), db5)
              | (Inr update, db5) \<Rightarrow>
           (case DB_Prepare drv (Open_listQuery cfg) db5 of
                (Inl err, db6) \<Rightarrow> (Inl (DbErr err), db6)
              | (Inr list, db6) \<Rightarrow>
                  (Inr \<lparr>ix_get = get, ix_add = add, ix_update = update, ix_list = list\<rparr>, db6)))))))"
  by (intro prepare_step) (use assms in simp_all)

lemma NewSqlStore_calls:
  "only_prepares
     (if HasPrefix cfg ''sqlite'' \<or> HasPrefix cfg ''postgres''
      then calls db @ [CallExec (NewSqlStore_tabledefquery cfg) []] else calls db)
     (calls (snd (NewSqlStore cfg drv db)))"
proof (cases "HasPrefix cfg ''sqlite'' \<or> HasPrefix cfg ''postgres''")
  case False
  then show ?thesis
    unfolding NewSqlStore_def
    by (simp add: prepares_of_store only_prepares_refl)
next
  case True
  obtain r db0 where e: "DB_Exec drv (NewSqlStore_tabledefquery cfg) [] db = (r, db0)"
    by (cases "DB_Exec drv (NewSqlStore_tabledefquery cfg) [] db")
  have c: "calls db0 = calls db @ [CallExec (NewSqlStore_tabledefquery cfg) []]"
    using DB_Exec_calls [of drv "NewSqlStore_tabledefquery cfg" "[]" db] e by simp
  have b: "only_prepares (calls db @ [CallExec (NewSqlStore_tabledefquery cfg) []]) (calls db0)"
    by (simp add: c only_prepares_refl)
  show ?thesis
  proof (cases r)
    case (Inl err)
    then show ?thesis
      unfolding NewSqlStore_def using True e b by simp
  next
    case (Inr res)
    then show ?thesis
      unfolding NewSqlStore_def using True e prepares_of_store [OF b] by simp
  qed
qed

lemma Open_calls:
  "only_prepares (calls db @ [CallExec (Open_createTableQuery cfg) []]) (calls (snd (Open cfg drv db))) \<or>
   only_prepares (calls db @ [CallExec (Open_createTableQuery cfg) [], CallExec Open_alterQuery []])
     (calls (snd (Open cfg drv db)))"
proof -
  obtain r db1 where e: "DB_Exec drv (Open_createTableQuery cfg) [] db = (r, db1)"
    by (cases "DB_Exec drv (Open_createTableQuery cfg) [] db")
  have c: "calls db1 = calls db @ [CallExec (Open_createTableQuery cfg) []]"
    using DB_Exec_calls [of drv "Open_createTableQuery cfg" "[]" db] e by simp
  show ?thesis
  proof (cases r)
    case (Inl err)
    then show ?thesis
      unfolding Open_def using e c by (simp add: only_prepares_refl)
  next
    case (Inr res)
    show ?thesis
    proof (cases "HasPrefix cfg ''sqlite''")
      case False
      have b: "only_prepares (calls db @ [CallExec (Open_createTableQuery cfg) []]) (calls db1)"
        by (simp add: c only_prepares_refl)
      show ?thesis
        unfolding Open_def using Inr False e prepares_of_index [OF b] by simp
    next
      case True
      have b: "only_prepares (calls db @ [CallExec (Open_createTableQuery cfg) [], CallExec Open_alterQuery []])
                 (calls (snd (DB_Exec drv Open_alterQuery [] db1)))"
        by (simp add: DB_Exec_calls c only_prepares_refl)
      show ?thesis
        unfolding Open_def using Inr True e prepares_of_index [OF b] by simp
    qed
  qed
qed

lemma Open_first_call:
  "take (Suc (length (calls db))) (calls (snd (Open cfg drv db))) =
     calls db @ [CallExec (Open_createTableQuery cfg) []]"
  using Open_calls [of db cfg drv] by (auto simp: only_prepares_def dest: arg_cong [where f = "take (Suc (length (calls db)))"])

lemma create_table_prefix:
  "HasPrefix (Open_createTableQuery cfg) ''CREATE TABLE IF NOT EXISTS'' \<and>
   HasPrefix (NewSqlStore_tabledefquery cfg) ''CREATE TABLE IF NOT EXISTS''"
  by (simp add: Open_createTableQuery_def NewSqlStore_tabledefquery_def index_tableDef_def
      index_tableDefPostgres_def license_tableDef_def license_tableDefPostgers_def)

lemma create_table_idempotent:
  assumes "parse_sql q = Some (SqlCreateTable n cols)"
  shows "snd (ref_Exec q [] (snd (ref_Exec q [] db))) = snd (ref_Exec q [] db)"
  using assms
  by (simp add: ref_Exec_def num_input_def operands_def exec_statement_def split: option.splits)

section \<open>The constructors on the reference database\<close>

lemma DB_Exec_ref:
  "parse_sql q = Some ast \<Longrightarrow> num_input ast = length args \<Longrightarrow>
   DB_Exec refdb q args db =
     (case exec_statement ast args (content db) of
        (r, s') \<Rightarrow> (r, \<lparr>calls = calls db @ [CallExec q args], content = s'\<rparr>))"
  by (simp add: DB_Exec_def refdb_def ref_Exec_def)

lemma DB_Prepare_ref:
  "parse_sql q = Some ast \<Longrightarrow>
   DB_Prepare refdb q db = (Inr (Stmt q), \<lparr>calls = calls db @ [CallPrepare q], content = content db\<rparr>)"
  by (simp add: DB_Prepare_def refdb_def ref_Prepare_def)

lemma DB_Prepare_ref_None:
  "parse_sql q = None \<Longrightarrow>
   DB_Prepare refdb q db =
     (Inl (ErrOther ''syntax error''), \<lparr>calls = calls db @ [CallPrepare q], content = content db\<rparr>)"
  by (simp add: DB_Prepare_def refdb_def ref_Prepare_def)

lemma exec_create:
  "exec_statement (SqlCreateTable n cols) [] db =
     (Inr (affected 0), case db n of Some t \<Rightarrow> db | None \<Rightarrow> db(n \<mapsto> \<lparr>t_cols = cols, t_rows = []\<rparr>))"
  by (simp add: exec_statement_def split: option.splits)

lemma num_input_create: "num_input (SqlCreateTable n cols) = length ([] :: Value list)"
  by (simp add: num_input_def operands_def)

lemma num_input_alter: "num_input (SqlAlterAddColumn n d) = length ([] :: Value list)"
  by (simp add: num_input_def operands_def)

text \<open>On an empty reference database \<^verbatim>\<open>Open\<close> succeeds for every configuration and
  leaves the content table of the table definition, with no row.\<close>

lemma Open_ref:
  "fst (Open cfg refdb (fresh Map.empty)) = Inr (index_of cfg) \<and>
   content (snd (Open cfg refdb (fresh Map.empty))) = content (content_db [])"
proof -
  note c = DB_Exec_ref [OF parse_Open_createTableQuery num_input_create, unfolded exec_create]
  note a = DB_Exec_ref [OF parse_Open_alterQuery num_input_alter]
  note p = DB_Prepare_ref [OF parse_Open_getQuery] DB_Prepare_ref [OF parse_Open_addQuery]
    DB_Prepare_ref [OF parse_Open_updateQuery] DB_Prepare_ref [OF parse_Open_listQuery]
  show ?thesis
    unfolding Open_def
    by (simp add: c a p fresh_def index_of_def content_db_def content_table_def exec_statement_def
        has_column_def content_schema_def column_def)
qed

text \<open>On an empty reference database \<^verbatim>\<open>NewSqlStore\<close> succeeds for a Postgres
  configuration, and leaves the license table of the table definition; for every other
  configuration the third statement is refused and no store is returned.\<close>

lemma NewSqlStore_ref_postgres:
  assumes "HasPrefix cfg ''postgres''"
  shows "fst (NewSqlStore cfg refdb (fresh Map.empty)) = Inr (store_of cfg) \<and>
         content (snd (NewSqlStore cfg refdb (fresh Map.empty))) = content (license_db [])"
proof -
  note c = DB_Exec_ref [OF parse_NewSqlStore_tabledefquery num_input_create, unfolded exec_create]
  have u: "parse_sql (NewSqlStore_updaterightsquery cfg) =
      Some (SqlUpdate ''license'' [(''rights_print'', Param 1), (''rights_copy'', Param 2),
       (''rights_start'', Param 3), (''rights_end'', Param 4), (''updated'', Param 5)] ''id'' (Param 6))"
  proof -
    have "NewSqlStore_updaterightsquery cfg = NewSqlStore_updaterightsquery ''postgres''"
      using assms by (simp add: NewSqlStore_updaterightsquery_def)
    then show ?thesis
      by (simp only: parse_NewSqlStore_updaterightsquery_postgres)
  qed
  note p = DB_Prepare_ref [OF parse_NewSqlStore_listallquery] DB_Prepare_ref [OF parse_NewSqlStore_listquery]
    DB_Prepare_ref [OF u] DB_Prepare_ref [OF parse_NewSqlStore_addquery]
    DB_Prepare_ref [OF parse_NewSqlStore_updatequery] DB_Prepare_ref [OF parse_NewSqlStore_updatelsdstatusquery]
    DB_Prepare_ref [OF parse_NewSqlStore_getquery]
  have g: "(HasPrefix cfg ''sqlite'' \<or> HasPrefix cfg ''postgres'') = True"
    using assms by simp
  show ?thesis
    unfolding NewSqlStore_def g if_True
    by (simp add: c p fresh_def store_of_def license_db_def license_table_def)
qed

lemma NewSqlStore_ref_other:
  assumes "\<not> HasPrefix cfg ''postgres''"
  shows "fst (NewSqlStore cfg refdb db) = Inl (DbErr (ErrOther ''syntax error''))"
proof -
  note c = DB_Exec_ref [OF parse_NewSqlStore_tabledefquery num_input_create, unfolded exec_create]
  have u: "parse_sql (NewSqlStore_updaterightsquery cfg) = None"
  proof -
    have "NewSqlStore_updaterightsquery cfg = NewSqlStore_updaterightsquery []"
      using assms by (simp add: NewSqlStore_updaterightsquery_def)
    then show ?thesis
      by (simp only: parse_NewSqlStore_updaterightsquery_other)
  qed
  note p = DB_Prepare_ref [OF parse_NewSqlStore_listallquery] DB_Prepare_ref [OF parse_NewSqlStore_listquery]
    DB_Prepare_ref_None [OF u]
  show ?thesis
    unfolding NewSqlStore_def
    by (simp add: c p)
qed

section \<open>Add, then Get, on the reference database\<close>

lemma query_list_content:
  assumes "db ''content'' = Some t" "t_cols t = content_schema"
  shows "query_statement (SqlSelect content_columns ''content'' None None None None) [] db =
     Inr (map content_values (t_rows t))"
  using assms
  by (simp add: query_statement_def has_column_def content_schema_def column_def content_columns_def
      opt_list_def where_pred_def bind_def count_of_def limit_rows_def offset_rows_def order_rows_def
      content_values_def)

lemma index_List_ref:
  assumes "content db ''content'' = Some t" "t_cols t = content_schema"
  shows "fst (index_List refdb (index_of cfg) db) =
     index_Cursor \<lparr>pending = map content_values (t_rows t), current = None, failure = None, closed = False\<rparr>"
proof -
  let ?ast = "SqlSelect content_columns ''content'' None None None None"
  have p: "parse_sql (query (ix_list (index_of cfg))) = Some ?ast"
    by (simp only: index_of_def dbIndex.simps Stmt.sel parse_Open_listQuery)
  have n: "num_input ?ast = length ([] :: Value list)"
    by (simp add: num_input_def operands_def param_index_def opt_list_def)
  note x = Stmt_Query_ref [OF p n, of db, unfolded query_list_content [of "content db" t, OF assms(1,2)]]
  show ?thesis
    unfolding index_List_def x by simp
qed

lemma sorted_newest_first:
  "sorted (map (\<lambda>r. - order_key (field r ''issued'')) (newest_first rows)) \<and>
   set (newest_first rows) = set rows \<and> length (newest_first rows) = length rows"
  by (simp add: newest_first_def)

lemma filter_hit_append_new:
  assumes "\<not> list_ex (hit ident) rows" "hit ident r"
  shows "filter (hit ident) (rows @ [r]) = [r]"
  using assms by (simp add: list_ex_iff filter_empty_conv)

lemma hit_Content_row: "hit (c_Id c) (Content_row c)"
  by (simp add: hit_def sql_eq_def field_def Content_row_def content_columns_def Content_args_def)

lemma hit_License_row: "hit (l_Id l) (License_row l r)"
  by (simp add: hit_def sql_eq_def field_def License_row_def license_columns_def License_args_def)

lemma index_round_trip:
  assumes "content db ''content'' = Some t" "t_cols t = content_schema"
    and "index_Add refdb (index_of cfg) c db = (None, db')"
  shows "fst (index_Get refdb (index_of cfg') (c_Id c) db') = (c, None)"
proof -
  have n: "\<not> list_ex (hit (c_Id c)) (t_rows t)"
    using assms(3) unfolding index_Add_ref [OF assms(1,2)] hit_def by (simp split: if_splits)
  then have d: "content db' = (content db)(''content'' \<mapsto> t\<lparr>t_rows := t_rows t @ [Content_row c]\<rparr>)"
    using assms(3) unfolding index_Add_ref [OF assms(1,2)] hit_def by auto
  have t': "content db' ''content'' = Some (t\<lparr>t_rows := t_rows t @ [Content_row c]\<rparr>)"
    "t_cols (t\<lparr>t_rows := t_rows t @ [Content_row c]\<rparr>) = content_schema"
    using d assms(2) by simp_all
  have f: "filter (\<lambda>r. sql_eq (field r ''id'') (VStr (c_Id c))) (t_rows t @ [Content_row c]) = [Content_row c]"
    using filter_hit_append_new [OF n hit_Content_row] by (simp add: hit_def)
  show ?thesis
    unfolding index_Get_ref [OF t']
    by (simp add: f fields_Content_row scan_Content_args del: filter_append)
qed

lemma license_round_trip:
  assumes "content db ''license'' = Some t" "t_cols t = license_schema"
    and "Add refdb (store_of cfg) l db = (Returns None, db')"
  shows "fst (license_Get refdb (store_of cfg') (l_Id l) db') = (l\<lparr>l_Updated := None\<rparr>, None)"
proof -
  obtain r where r: "l_Rights l = Some r"
    using assms(3) by (cases "l_Rights l") (simp_all add: Add_def)
  have n: "\<not> list_ex (hit (l_Id l)) (t_rows t)"
    using assms(3) unfolding Add_ref [OF assms(1,2) r] hit_def by (simp split: if_splits)
  then have d: "content db' = (content db)(''license'' \<mapsto> t\<lparr>t_rows := t_rows t @ [License_row l r]\<rparr>)"
    using assms(3) unfolding Add_ref [OF assms(1,2) r] hit_def by auto
  have t': "content db' ''license'' = Some (t\<lparr>t_rows := t_rows t @ [License_row l r]\<rparr>)"
    "t_cols (t\<lparr>t_rows := t_rows t @ [License_row l r]\<rparr>) = license_schema"
    using d assms(2) by simp_all
  have f: "filter (\<lambda>r'. sql_eq (field r' ''id'') (VStr (l_Id l))) (t_rows t @ [License_row l r]) = [License_row l r]"
    using filter_hit_append_new [OF n hit_License_row] by (simp add: hit_def)
  show ?thesis
    unfolding license_Get_ref [OF t']
    by (simp add: f fields_License_row scan_License_args r del: filter_append)
qed

section \<open>The two dialects\<close>

text \<open>
  C1.  The claim that both dialects give an executable \<^verbatim>\<open>UPDATE\<close> for \<^verbatim>\<open>UpdateRights\<close>,
  evaluated for the configuration \<^verbatim>\<open>sqlite3\<close>: the text selected there does not parse (the
  column name is written \<^verbatim>\<open>u pdated\<close>), while the Postgres text parses to the update of
  the four rights and of \<^verbatim>\<open>updated\<close>; so on the reference database \<^verbatim>\<open>NewSqlStore\<close> returns
  the syntax error for \<^verbatim>\<open>sqlite3\<close> and a store for \<^verbatim>\<open>postgres\<close>.  The ten other statements
  of the two files parse to the same statement in both dialects.
\<close>

theorem updaterights_text_outside_postgres:
  "parse_sql (NewSqlStore_updaterightsquery ''sqlite3'') = None \<and>
   parse_sql (NewSqlStore_updaterightsquery ''postgres'') =
     Some (SqlUpdate ''license'' [(''rights_print'', Param 1), (''rights_copy'', Param 2),
       (''rights_start'', Param 3), (''rights_end'', Param 4), (''updated'', Param 5)] ''id'' (Param 6)) \<and>
   fst (NewSqlStore ''sqlite3'' refdb (fresh Map.empty)) = Inl (DbErr (ErrOther ''syntax error'')) \<and>
   fst (NewSqlStore ''postgres'' refdb (fresh Map.empty)) = Inr (store_of ''postgres'') \<and>
   parse_sql (NewSqlStore_listallquery ''sqlite3'') = parse_sql (NewSqlStore_listallquery ''postgres'') \<and>
   parse_sql (NewSqlStore_listquery ''sqlite3'') = parse_sql (NewSqlStore_listquery ''postgres'') \<and>
   parse_sql (NewSqlStore_addquery ''sqlite3'') = parse_sql (NewSqlStore_addquery ''postgres'') \<and>
   parse_sql (NewSqlStore_updatequery ''sqlite3'') = parse_sql (NewSqlStore_updatequery ''postgres'') \<and>
   parse_sql (NewSqlStore_updatelsdstatusquery ''sqlite3'') =
     parse_sql (NewSqlStore_updatelsdstatusquery ''postgres'') \<and>
   parse_sql (NewSqlStore_getquery ''sqlite3'') = parse_sql (NewSqlStore_getquery ''postgres'') \<and>
   parse_sql (Open_getQuery ''sqlite3'') = parse_sql (Open_getQuery ''postgres'') \<and>
   parse_sql (Open_addQuery ''sqlite3'') = parse_sql (Open_addQuery ''postgres'') \<and>
   parse_sql (Open_updateQuery ''sqlite3'') = parse_sql (Open_updateQuery ''postgres'') \<and>
   parse_sql (Open_listQuery ''sqlite3'') = parse_sql (Open_listQuery ''postgres'')"
proof -
  have same:
    "parse_sql (NewSqlStore_listallquery ''sqlite3'') = parse_sql (NewSqlStore_listallquery ''postgres'')"
    "parse_sql (NewSqlStore_listquery ''sqlite3'') = parse_sql (NewSqlStore_listquery ''postgres'')"
    "parse_sql (NewSqlStore_addquery ''sqlite3'') = parse_sql (NewSqlStore_addquery ''postgres'')"
    "parse_sql (NewSqlStore_updatequery ''sqlite3'') = parse_sql (NewSqlStore_updatequery ''postgres'')"
    "parse_sql (NewSqlStore_updatelsdstatusquery ''sqlite3'') =
       parse_sql (NewSqlStore_updatelsdstatusquery ''postgres'')"
    "parse_sql (NewSqlStore_getquery ''sqlite3'') = parse_sql (NewSqlStore_getquery ''postgres'')"
    "parse_sql (Open_getQuery ''sqlite3'') = parse_sql (Open_getQuery ''postgres'')"
    "parse_sql (Open_addQuery ''sqlite3'') = parse_sql (Open_addQuery ''postgres'')"
    "parse_sql (Open_updateQuery ''sqlite3'') = parse_sql (Open_updateQuery ''postgres'')"
    "parse_sql (Open_listQuery ''sqlite3'') = parse_sql (Open_listQuery ''postgres'')"
    by (simp_all only: parse_NewSqlStore_listallquery parse_NewSqlStore_listquery parse_NewSqlStore_addquery
        parse_NewSqlStore_updatequery parse_NewSqlStore_updatelsdstatusquery parse_NewSqlStore_getquery
        parse_Open_getQuery parse_Open_addQuery parse_Open_updateQuery parse_Open_listQuery)
  have "NewSqlStore_updaterightsquery ''sqlite3'' = NewSqlStore_updaterightsquery []"
    by (simp add: NewSqlStore_updaterightsquery_def)
  then have "parse_sql (NewSqlStore_updaterightsquery ''sqlite3'') = None"
    by (simp only: parse_NewSqlStore_updaterightsquery_other)
  moreover have "fst (NewSqlStore ''sqlite3'' refdb (fresh Map.empty)) = Inl (DbErr (ErrOther ''syntax error''))"
    by (rule NewSqlStore_ref_other) simp
  moreover have "fst (NewSqlStore ''postgres'' refdb (fresh Map.empty)) = Inr (store_of ''postgres'')"
    using NewSqlStore_ref_postgres [of "''postgres''"] by simp
  ultimately show ?thesis
    using parse_NewSqlStore_updaterightsquery_postgres same by simp
qed

section \<open>Creating the table\<close>

text \<open>
  C2, as the claim states it, fails for \<^verbatim>\<open>NewSqlStore\<close>: for the configuration \<^verbatim>\<open>mysql\<close>,
  on a driver that accepts every call, the calls made are the seven \<^verbatim>\<open>Prepare\<close> calls and
  nothing else, and the store is returned.
\<close>

theorem NewSqlStore_mysql_creates_no_table:
  "NewSqlStore ''mysql'' permissive (fresh ()) =
     (Inr (store_of ''mysql''),
      \<lparr>calls = [CallPrepare (NewSqlStore_listallquery ''mysql''), CallPrepare (NewSqlStore_listquery ''mysql''),
                CallPrepare (NewSqlStore_updaterightsquery ''mysql''), CallPrepare (NewSqlStore_addquery ''mysql''),
                CallPrepare (NewSqlStore_updatequery ''mysql''),
                CallPrepare (NewSqlStore_updatelsdstatusquery ''mysql''),
                CallPrepare (NewSqlStore_getquery ''mysql'')],
       content = ()\<rparr>)"
  by (simp add: NewSqlStore_def DB_Prepare_def permissive_def fresh_def store_of_def)

text \<open>
  C2, amended.  For every configuration, driver and handle: the first call \<^verbatim>\<open>Open\<close> makes
  is the execution of its table definition, and every later call is a \<^verbatim>\<open>Prepare\<close>, but for
  the column migration that may come second.  \<^verbatim>\<open>NewSqlStore\<close> executes its table
  definition first when the configuration starts with \<^verbatim>\<open>sqlite\<close> or \<^verbatim>\<open>postgres\<close>, and
  otherwise makes \<^verbatim>\<open>Prepare\<close> calls only.  Both table definitions start with
  \<^verbatim>\<open>CREATE TABLE IF NOT EXISTS\<close>, and on the reference database executing one twice leaves
  what executing it once leaves.
\<close>

theorem create_table_comes_first:
  "take (Suc (length (calls db))) (calls (snd (Open cfg drv db))) =
     calls db @ [CallExec (Open_createTableQuery cfg) []] \<and>
   (only_prepares (calls db @ [CallExec (Open_createTableQuery cfg) []]) (calls (snd (Open cfg drv db))) \<or>
    only_prepares (calls db @ [CallExec (Open_createTableQuery cfg) [], CallExec Open_alterQuery []])
      (calls (snd (Open cfg drv db)))) \<and>
   only_prepares
     (if HasPrefix cfg ''sqlite'' \<or> HasPrefix cfg ''postgres''
      then calls db @ [CallExec (NewSqlStore_tabledefquery cfg) []] else calls db)
     (calls (snd (NewSqlStore cfg drv db))) \<and>
   HasPrefix (Open_createTableQuery cfg) ''CREATE TABLE IF NOT EXISTS'' \<and>
   HasPrefix (NewSqlStore_tabledefquery cfg) ''CREATE TABLE IF NOT EXISTS'' \<and>
   snd (ref_Exec (Open_createTableQuery cfg) [] (snd (ref_Exec (Open_createTableQuery cfg) [] s))) =
     snd (ref_Exec (Open_createTableQuery cfg) [] s) \<and>
   snd (ref_Exec (NewSqlStore_tabledefquery cfg) [] (snd (ref_Exec (NewSqlStore_tabledefquery cfg) [] s))) =
     snd (ref_Exec (NewSqlStore_tabledefquery cfg) [] s)"
  using Open_first_call [of db cfg drv] Open_calls [of db cfg drv] NewSqlStore_calls [of cfg db drv]
    create_table_prefix [of cfg]
    create_table_idempotent [OF parse_Open_createTableQuery, of cfg s]
    create_table_idempotent [OF parse_NewSqlStore_tabledefquery, of cfg s]
  by simp

theorem create_table_comes_first_witness:
  "take 1 (calls (snd (Open ''sqlite3'' permissive (fresh ())))) = [CallExec index_tableDef []] \<and>
   only_prepares [CallExec license_tableDef []] (calls (snd (NewSqlStore ''sqlite3'' permissive (fresh ()))))"
  using create_table_comes_first [of "fresh ()" "''sqlite3''" permissive]
  by (simp add: fresh_def Open_createTableQuery_def NewSqlStore_tabledefquery_def)

lemma ListAll_calls:
  "calls (snd (ListAll drv s page pageNum db)) =
     calls db @ [CallQuery (query (s_listall s)) [VInt (sint page), VInt (sint (pageNum * page))]]"
proof -
  have "snd (ListAll drv s page pageNum db) =
      snd (Stmt_Query drv (s_listall s) [arg_int page, arg_int (pageNum * page)] db)"
    by (simp add: ListAll_def split: prod.splits sum.splits)
  then show ?thesis by (simp add: Stmt_Query_calls arg_int_def)
qed

lemma List_calls:
  "calls (snd (List drv s contentID page pageNum db)) =
     calls db @ [CallQuery (query (s_list s)) [VStr contentID, VInt (sint page), VInt (sint (pageNum * page))]]"
proof -
  have "snd (List drv s contentID page pageNum db) =
      snd (Stmt_Query drv (s_list s) [arg_string contentID, arg_int page, arg_int (pageNum * page)] db)"
    by (simp add: List_def split: prod.splits sum.splits)
  then show ?thesis by (simp add: Stmt_Query_calls arg_int_def arg_string_def)
qed

lemma page_of_10_0: "page_of (sint (10 :: 64 word)) (sint ((0 :: 64 word) * 10)) rows = take 10 rows"
  by (simp add: page_of_def)

lemma page_of_10_1: "page_of (sint (10 :: 64 word)) (sint ((1 :: 64 word) * 10)) rows = take 10 (drop 10 rows)"
  by (simp add: page_of_def)

section \<open>Limit and offset of the two lists\<close>

text \<open>
  C3.  For every driver, \<^verbatim>\<open>ListAll(page, pageNum)\<close> runs its statement with the arguments
  \<open>page\<close> and \<open>pageNum * page\<close>, and \<^verbatim>\<open>List(contentID, page, pageNum)\<close> with \<open>contentID\<close>,
  \<open>page\<close> and \<open>pageNum * page\<close>; in both dialects the statement of \<^verbatim>\<open>ListAll\<close> takes its
  first argument as \<^verbatim>\<open>LIMIT\<close> and its second as \<^verbatim>\<open>OFFSET\<close> and orders by issue time,
  latest first, and the statement of \<^verbatim>\<open>List\<close> filters by its first argument and takes the
  second as \<^verbatim>\<open>LIMIT\<close> and the third as \<^verbatim>\<open>OFFSET\<close>.  The product is Go's product of two
  \<^verbatim>\<open>int\<close> values, which is the product of the integers whenever that fits in 64 bits.  On
  the reference database the cursor then holds the rows after the first \<open>pageNum * page\<close>,
  at most \<open>page\<close> of them: \<^verbatim>\<open>ListAll(10, 0)\<close> the first ten of the rows by issue time, latest
  first, and \<^verbatim>\<open>ListAll(10, 1)\<close> the ten after them.
\<close>

theorem list_limit_and_offset:
  "calls (snd (ListAll drv s page pageNum db)) =
     calls db @ [CallQuery (query (s_listall s)) [VInt (sint page), VInt (sint (pageNum * page))]] \<and>
   calls (snd (List drv s contentID page pageNum db)) =
     calls db @ [CallQuery (query (s_list s)) [VStr contentID, VInt (sint page), VInt (sint (pageNum * page))]] \<and>
   parse_sql (NewSqlStore_listallquery cfg) =
     Some (SqlSelect license_columns ''license'' None (Some (''issued'', True)) (Some (Param 1)) (Some (Param 2))) \<and>
   parse_sql (NewSqlStore_listquery cfg) =
     Some (SqlSelect license_columns ''license'' (Some (''content_fk'', Param 1)) None (Some (Param 2)) (Some (Param 3))) \<and>
   (- (2 ^ 63) \<le> sint pageNum * sint page \<and> sint pageNum * sint page < 2 ^ 63 \<longrightarrow>
      sint (pageNum * page) = sint pageNum * sint page) \<and>
   (content rdb ''license'' = Some t \<and> t_cols t = license_schema \<and> 0 \<le> sint page \<and> 0 \<le> sint (pageNum * page) \<longrightarrow>
      fst (ListAll refdb (store_of cfg) page pageNum rdb) =
        license_Cursor \<lparr>pending = map license_values
                           (page_of (sint page) (sint (pageNum * page)) (newest_first (t_rows t))),
                        current = None, failure = None, closed = False\<rparr> None \<and>
      fst (List refdb (store_of cfg) contentID page pageNum rdb) =
        license_Cursor \<lparr>pending = map license_values
                           (page_of (sint page) (sint (pageNum * page))
                              (filter (\<lambda>r. sql_eq (field r ''content_fk'') (VStr contentID)) (t_rows t))),
                        current = None, failure = None, closed = False\<rparr> None) \<and>
   (content rdb ''license'' = Some t \<and> t_cols t = license_schema \<longrightarrow>
      fst (ListAll refdb (store_of cfg) 10 0 rdb) =
        license_Cursor \<lparr>pending = map license_values (take 10 (newest_first (t_rows t))),
                        current = None, failure = None, closed = False\<rparr> None \<and>
      fst (ListAll refdb (store_of cfg) 10 1 rdb) =
        license_Cursor \<lparr>pending = map license_values (take 10 (drop 10 (newest_first (t_rows t)))),
                        current = None, failure = None, closed = False\<rparr> None) \<and>
   sorted (map (\<lambda>r. - order_key (field r ''issued'')) (newest_first (t_rows t))) \<and>
   set (newest_first (t_rows t)) = set (t_rows t)"
proof -
  have a: "content rdb ''license'' = Some t \<and> t_cols t = license_schema \<longrightarrow>
      fst (ListAll refdb (store_of cfg) 10 0 rdb) =
        license_Cursor \<lparr>pending = map license_values (take 10 (newest_first (t_rows t))),
                        current = None, failure = None, closed = False\<rparr> None"
    using ListAll_ref [of rdb t 10 0 cfg] by (simp add: page_of_10_0 [simplified])
  have b: "content rdb ''license'' = Some t \<and> t_cols t = license_schema \<longrightarrow>
      fst (ListAll refdb (store_of cfg) 10 1 rdb) =
        license_Cursor \<lparr>pending = map license_values (take 10 (drop 10 (newest_first (t_rows t)))),
                        current = None, failure = None, closed = False\<rparr> None"
    using ListAll_ref [of rdb t 10 1 cfg] by (simp add: page_of_10_1 [simplified])
  show ?thesis
    using a b ListAll_calls [of drv s page pageNum db] List_calls [of drv s contentID page pageNum db]
      parse_NewSqlStore_listallquery [of cfg] parse_NewSqlStore_listquery [of cfg]
      mul_no_overflow [of pageNum page] ListAll_ref [of rdb t page pageNum cfg]
      List_ref [of rdb t page pageNum cfg contentID] sorted_newest_first [of "t_rows t"]
    by simp
qed

theorem list_limit_and_offset_witness:
  "sint ((3 :: 64 word) * 10) = sint (3 :: 64 word) * sint (10 :: 64 word) \<and>
   fst (ListAll refdb (store_of ''postgres'') 1 1
          (license_db [License_row example_license example_rights, License_row example_license2 example_rights])) =
     license_Cursor \<lparr>pending = [License_args example_license example_rights],
                     current = None, failure = None, closed = False\<rparr> None \<and>
   fst (ListAll refdb (store_of ''postgres'') 10 0
          (license_db [License_row example_license example_rights, License_row example_license2 example_rights])) =
     license_Cursor \<lparr>pending = [License_args example_license2 example_rights,
                                 License_args example_license example_rights],
                     current = None, failure = None, closed = False\<rparr> None"
proof -
  let ?rows = "[License_row example_license example_rights, License_row example_license2 example_rights]"
  have n: "newest_first ?rows = [License_row example_license2 example_rights, License_row example_license example_rights]"
    by (simp add: newest_first_def License_row_def license_columns_def License_args_def field_def
        order_key_def example_license_def example_license2_def)
  have v: "license_values (License_row l r) = License_args l r" for l r
    by (simp add: license_values_def fields_License_row)
  show ?thesis
    using list_limit_and_offset [where page = 1 and pageNum = 1 and cfg = "''postgres''"
        and rdb = "license_db ?rows" and t = "license_table ?rows" and drv = refdb
        and s = "store_of ''postgres''" and db = "license_db ?rows" and contentID = "''c1''"]
      list_limit_and_offset [where page = 10 and pageNum = 3 and cfg = "''postgres''"
        and rdb = "license_db ?rows" and t = "license_table ?rows" and drv = refdb
        and s = "store_of ''postgres''" and db = "license_db ?rows" and contentID = "''c1''"]
    by (simp add: license_db_def license_table_def fresh_def n v page_of_def)
qed

section \<open>Get on an id that matches no row\<close>

lemma index_Get_no_row:
  "drv_Query drv (query (ix_get i)) [VStr ident] (content db) = (Inr ([], f), s')
   \<Longrightarrow> fst (index_Get drv i ident db) = (Content_zero, Some index_NotFound)"
  by (simp add: index_Get_def arg_string_def Stmt_Query_Inr Rows_Next_def)

lemma license_Get_no_row:
  "drv_Query drv (query (s_get s)) [VStr ident] (content db) = (Inr ([], None), s')
   \<Longrightarrow> fst (license_Get drv s ident db) = (License_new, Some license_NotFound)"
  by (simp add: license_Get_def arg_string_def Stmt_Query_Inr Rows_Next_def Row_Scan_def Rows_Err_def Rows_Close_def)

lemma license_Get_ErrNoRows:
  "drv_Query drv (query (s_get s)) [VStr ident] (content db) = (Inl ErrNoRows, s')
   \<Longrightarrow> fst (license_Get drv s ident db) = (License_new, Some license_NotFound)"
  by (simp add: license_Get_def arg_string_def Stmt_Query_Inl Row_Scan_def)

lemma index_Get_ref_missing:
  assumes "content db ''content'' = Some t" "t_cols t = content_schema" "filter (hit ident) (t_rows t) = []"
  shows "fst (index_Get refdb (index_of cfg) ident db) = (Content_zero, Some index_NotFound)"
  using assms(3) unfolding index_Get_ref [OF assms(1,2)] hit_def by simp

lemma license_Get_ref_missing:
  assumes "content db ''license'' = Some t" "t_cols t = license_schema" "filter (hit ident) (t_rows t) = []"
  shows "fst (license_Get refdb (store_of cfg) ident db) = (License_new, Some license_NotFound)"
  using assms(3) unfolding license_Get_ref [OF assms(1,2)] hit_def by simp

text \<open>
  C4.  For every driver: when the query of the index's \<^verbatim>\<open>Get\<close> answers with a cursor that
  yields no row, \<^verbatim>\<open>Get\<close> returns the zero record and the index's not-found error; when the
  query of the store's \<^verbatim>\<open>Get\<close> answers with no row and no cursor error, or with the
  driver's no-rows error, \<^verbatim>\<open>Get\<close> returns the store's not-found error.  On the reference
  database, in both dialects, that is what \<^verbatim>\<open>Get\<close> returns for every id that no row of the
  table has.  The not-found errors are not database errors.
\<close>

theorem get_of_missing_id_is_not_found:
  "(drv_Query drv (query (ix_get i)) [VStr ident] (content db) = (Inr ([], f), s1) \<longrightarrow>
      fst (index_Get drv i ident db) = (Content_zero, Some index_NotFound)) \<and>
   (drv_Query drv (query (s_get s)) [VStr ident] (content db) = (Inr ([], None), s2) \<longrightarrow>
      fst (license_Get drv s ident db) = (License_new, Some license_NotFound)) \<and>
   (drv_Query drv (query (s_get s)) [VStr ident] (content db) = (Inl ErrNoRows, s3) \<longrightarrow>
      fst (license_Get drv s ident db) = (License_new, Some license_NotFound)) \<and>
   (content rdb ''content'' = Some tcon \<and> t_cols tcon = content_schema \<and> filter (hit ident) (t_rows tcon) = [] \<longrightarrow>
      fst (index_Get refdb (index_of cfg) ident rdb) = (Content_zero, Some index_NotFound)) \<and>
   (content rdb ''license'' = Some tlic \<and> t_cols tlic = license_schema \<and> filter (hit ident) (t_rows tlic) = [] \<longrightarrow>
      fst (license_Get refdb (store_of cfg) ident rdb) = (License_new, Some license_NotFound)) \<and>
   index_NotFound \<noteq> DbErr e \<and> license_NotFound \<noteq> DbErr e"
  using index_Get_no_row [of drv i ident db f s1] license_Get_no_row [of drv s ident db s2]
    license_Get_ErrNoRows [of drv s ident db s3] index_Get_ref_missing [of rdb tcon ident cfg]
    license_Get_ref_missing [of rdb tlic ident cfg]
  by simp

theorem get_of_missing_id_is_not_found_witness:
  "fst (index_Get permissive (index_of ''sqlite3'') ''nobody'' (fresh ())) = (Content_zero, Some index_NotFound) \<and>
   fst (license_Get permissive (store_of ''sqlite3'') ''nobody'' (fresh ())) = (License_new, Some license_NotFound) \<and>
   fst (index_Get refdb (index_of ''sqlite3'') ''nobody'' (content_db [Content_row example_content])) =
     (Content_zero, Some index_NotFound) \<and>
   fst (license_Get refdb (store_of ''postgres'') ''nobody''
          (license_db [License_row example_license example_rights])) =
     (License_new, Some license_NotFound)"
proof -
  have h1: "\<not> hit ''nobody'' (Content_row example_content)"
    by (simp add: hit_def sql_eq_def field_def Content_row_def content_columns_def Content_args_def
        example_content_def)
  have h2: "\<not> hit ''nobody'' (License_row example_license example_rights)"
    by (simp add: hit_def sql_eq_def field_def License_row_def license_columns_def License_args_def
        example_license_def)
  show ?thesis
    using get_of_missing_id_is_not_found [where drv = permissive and i = "index_of ''sqlite3''"
        and s = "store_of ''sqlite3''" and ident = "''nobody''" and db = "fresh ()" and f = None
        and ?s1.0 = "()" and ?s2.0 = "()" and ?s3.0 = "()" and cfg = "''sqlite3''"
        and rdb = "content_db [Content_row example_content]"
        and tcon = "content_table [Content_row example_content]"
        and tlic = "content_table [Content_row example_content]" and e = ErrNoRows]
      get_of_missing_id_is_not_found [where drv = permissive and i = "index_of ''sqlite3''"
        and s = "store_of ''sqlite3''" and ident = "''nobody''" and db = "fresh ()" and f = None
        and ?s1.0 = "()" and ?s2.0 = "()" and ?s3.0 = "()" and cfg = "''postgres''"
        and rdb = "license_db [License_row example_license example_rights]"
        and tcon = "license_table [License_row example_license example_rights]"
        and tlic = "license_table [License_row example_license example_rights]" and e = ErrNoRows]
    by (simp add: permissive_def content_db_def license_db_def content_table_def license_table_def
        fresh_def h1 h2)
qed

section \<open>What the updates return\<close>

lemma UpdateRights_args_eq:
  "[arg_ptr arg_int (r_Print r), arg_ptr arg_int (r_Copy r),
    arg_ptr arg_time (r_Start r), arg_ptr arg_time (r_End r),
    arg_time (Time_Truncate (Time_UTC now) Second), arg_string (l_Id l)] = UpdateRights_args now l r"
  by (simp add: UpdateRights_args_def arg_string_def arg_time_def)

lemma Update_args_eq:
  "[arg_string (u_Id (l_User l)), arg_string (l_Provider l),
    arg_time (Time_Truncate (Time_UTC now) Second),
    arg_ptr arg_int (r_Print r), arg_ptr arg_int (r_Copy r),
    arg_ptr arg_time (r_Start r), arg_ptr arg_time (r_End r),
    arg_string (l_ContentId l), arg_string (l_Id l)] = Update_args now l r"
  by (simp add: Update_args_def arg_string_def arg_time_def)

lemma License_args_eq:
  "[arg_string (l_Id l), arg_string (u_Id (l_User l)), arg_string (l_Provider l),
    arg_time (l_Issued l), arg_nil,
    arg_ptr arg_int (r_Print r), arg_ptr arg_int (r_Copy r),
    arg_ptr arg_time (r_Start r), arg_ptr arg_time (r_End r),
    arg_string (l_ContentId l)] = License_args l r"
  by (simp add: License_args_def arg_string_def arg_time_def arg_nil_def)

lemma UpdateRights_result:
  assumes "l_Rights l = Some r"
    and "drv_Exec drv (query (s_updaterights s)) (UpdateRights_args now l r) (content db) = (x, s')"
  shows "fst (UpdateRights drv now s l db) =
     Returns (case x of Inl err \<Rightarrow> Some (DbErr err)
              | Inr res \<Rightarrow> if rowsAffected res = 0 then Some license_NotFound else None)"
  unfolding UpdateRights_def assms(1) option.case UpdateRights_args_eq Stmt_Exec_eq [OF assms(2)]
  by (simp split: sum.splits)

lemma Update_result:
  assumes "l_Rights l = Some r"
    and "drv_Exec drv (query (s_update s)) (Update_args now l r) (content db) = (x, s')"
  shows "fst (Update drv now s l db) =
     Returns (case x of Inl err \<Rightarrow> Some (DbErr err) | Inr res \<Rightarrow> None)"
  unfolding Update_def assms(1) option.case Update_args_eq Stmt_Exec_eq [OF assms(2)]
  by (simp split: sum.splits)

lemma UpdateLsdStatus_result:
  assumes "drv_Exec drv (query (s_updatelsdstatus s)) [VInt (sint status), VStr ident] (content db) = (x, s')"
  shows "fst (UpdateLsdStatus drv s ident status db) =
     (case x of Inl err \<Rightarrow> Some (DbErr err) | Inr res \<Rightarrow> None)"
  unfolding UpdateLsdStatus_def arg_int_def arg_string_def Stmt_Exec_eq [OF assms]
  by (simp split: sum.splits)

lemma Update_ref_missing:
  assumes "content db ''license'' = Some t" "t_cols t = license_schema" "l_Rights l = Some r"
    and "filter (hit (l_Id l)) (t_rows t) = []"
  shows "fst (Update refdb now (store_of cfg) l db) = Returns None \<and>
         content (snd (Update refdb now (store_of cfg) l db)) = content db"
  unfolding Update_ref [OF assms(1,2,3)] using assms(1)
  by (simp add: updated_table_no_hit [OF assms(4)] fun_upd_idem)

lemma UpdateRights_ref_missing:
  assumes "content db ''license'' = Some t" "t_cols t = license_schema" "l_Rights l = Some r"
    and "filter (hit (l_Id l)) (t_rows t) = []" and "HasPrefix cfg ''postgres''"
  shows "fst (UpdateRights refdb now (store_of cfg) l db) = Returns (Some license_NotFound) \<and>
         content (snd (UpdateRights refdb now (store_of cfg) l db)) = content db"
  unfolding UpdateRights_ref [OF assms(1,2,3,5)] using assms(1,4)
  by (simp add: updated_table_no_hit [OF assms(4)] fun_upd_idem)

lemma UpdateRights_ref_present:
  assumes "content db ''license'' = Some t" "t_cols t = license_schema" "l_Rights l = Some r"
    and "filter (hit (l_Id l)) (t_rows t) \<noteq> []" and "HasPrefix cfg ''postgres''"
  shows "fst (UpdateRights refdb now (store_of cfg) l db) = Returns None"
  unfolding UpdateRights_ref [OF assms(1,2,3,5)] using assms(4) by simp

lemma UpdateLsdStatus_ref_missing:
  assumes "content db ''license'' = Some t" "t_cols t = license_schema"
    and "filter (hit ident) (t_rows t) = []"
  shows "fst (UpdateLsdStatus refdb (store_of cfg) ident status db) = None \<and>
         content (snd (UpdateLsdStatus refdb (store_of cfg) ident status db)) = content db"
  unfolding UpdateLsdStatus_ref [OF assms(1,2)] using assms(1)
  by (simp add: updated_table_no_hit [OF assms(3)] fun_upd_idem)

text \<open>
  C5.  For every driver and every license with rights: when the statement of
  \<^verbatim>\<open>UpdateRights\<close> is executed without error, \<^verbatim>\<open>UpdateRights\<close> returns the not-found error
  if the result reports no affected row and no error otherwise; \<^verbatim>\<open>Update\<close> and
  \<^verbatim>\<open>UpdateLsdStatus\<close> return no error whenever their statement is executed without error,
  whatever the result reports.  On the reference database, when no row has the id:
  \<^verbatim>\<open>Update\<close> and \<^verbatim>\<open>UpdateLsdStatus\<close> return no error and the database is what it was, in
  both dialects; \<^verbatim>\<open>UpdateRights\<close>, with the Postgres statement, returns not-found and the
  database is what it was; and when a row has the id it returns no error.
\<close>

theorem update_of_missing_id:
  "(l_Rights l = Some r \<and>
    drv_Exec drv (query (s_updaterights s)) (UpdateRights_args now l r) (content db) = (Inr res, s1) \<longrightarrow>
      fst (UpdateRights drv now s l db) =
        Returns (if rowsAffected res = 0 then Some license_NotFound else None)) \<and>
   (l_Rights l = Some r \<and>
    drv_Exec drv (query (s_update s)) (Update_args now l r) (content db) = (Inr res, s2) \<longrightarrow>
      fst (Update drv now s l db) = Returns None) \<and>
   (drv_Exec drv (query (s_updatelsdstatus s)) [VInt (sint status), VStr ident] (content db) = (Inr res, s3) \<longrightarrow>
      fst (UpdateLsdStatus drv s ident status db) = None) \<and>
   (content rdb ''license'' = Some t \<and> t_cols t = license_schema \<and> l_Rights l = Some r \<and>
    filter (hit (l_Id l)) (t_rows t) = [] \<longrightarrow>
      fst (Update refdb now (store_of cfg) l rdb) = Returns None \<and>
      content (snd (Update refdb now (store_of cfg) l rdb)) = content rdb) \<and>
   (content rdb ''license'' = Some t \<and> t_cols t = license_schema \<and> filter (hit ident) (t_rows t) = [] \<longrightarrow>
      fst (UpdateLsdStatus refdb (store_of cfg) ident status rdb) = None \<and>
      content (snd (UpdateLsdStatus refdb (store_of cfg) ident status rdb)) = content rdb) \<and>
   (content rdb ''license'' = Some t \<and> t_cols t = license_schema \<and> l_Rights l = Some r \<and>
    filter (hit (l_Id l)) (t_rows t) = [] \<and> HasPrefix cfg ''postgres'' \<longrightarrow>
      fst (UpdateRights refdb now (store_of cfg) l rdb) = Returns (Some license_NotFound) \<and>
      content (snd (UpdateRights refdb now (store_of cfg) l rdb)) = content rdb) \<and>
   (content rdb ''license'' = Some t \<and> t_cols t = license_schema \<and> l_Rights l = Some r \<and>
    filter (hit (l_Id l)) (t_rows t) \<noteq> [] \<and> HasPrefix cfg ''postgres'' \<longrightarrow>
      fst (UpdateRights refdb now (store_of cfg) l rdb) = Returns None)"
  using UpdateRights_result [of l r drv s now db "Inr res" s1] Update_result [of l r drv s now db "Inr res" s2]
    UpdateLsdStatus_result [of drv s status ident db "Inr res" s3]
    Update_ref_missing [of rdb t l r now cfg] UpdateLsdStatus_ref_missing [of rdb t ident cfg status]
    UpdateRights_ref_missing [of rdb t l r cfg now] UpdateRights_ref_present [of rdb t l r cfg now]
  by simp

theorem update_of_missing_id_witness:
  "fst (UpdateRights permissive example_clock (store_of ''mysql'') example_license (fresh ())) =
     Returns (Some license_NotFound) \<and>
   fst (Update permissive example_clock (store_of ''mysql'') example_license (fresh ())) = Returns None \<and>
   fst (UpdateLsdStatus permissive (store_of ''mysql'') ''L1'' 1 (fresh ())) = None \<and>
   fst (Update refdb example_clock (store_of ''postgres'') example_license (license_db [])) = Returns None \<and>
   content (snd (Update refdb example_clock (store_of ''postgres'') example_license (license_db []))) =
     content (license_db []) \<and>
   fst (UpdateLsdStatus refdb (store_of ''postgres'') ''L1'' 1 (license_db [])) = None \<and>
   fst (UpdateRights refdb example_clock (store_of ''postgres'') example_license (license_db [])) =
     Returns (Some license_NotFound) \<and>
   fst (UpdateRights refdb example_clock (store_of ''postgres'') example_license
          (license_db [License_row example_license example_rights])) = Returns None"
proof -
  have h: "hit ''L1'' (License_row example_license example_rights)"
    using hit_License_row [of example_license example_rights] by (simp add: example_license_def)
  show ?thesis
    using update_of_missing_id [where drv = permissive and s = "store_of ''mysql''" and l = example_license
        and r = example_rights and now = example_clock and db = "fresh ()"
        and res = "\<lparr>rowsAffected = 0, rowsAffectedErr = None\<rparr>" and ?s1.0 = "()" and ?s2.0 = "()"
        and ?s3.0 = "()" and status = 1 and ident = "''L1''" and cfg = "''postgres''"
        and rdb = "license_db []" and t = "license_table []"]
      update_of_missing_id [where drv = permissive and s = "store_of ''mysql''" and l = example_license
        and r = example_rights and now = example_clock and db = "fresh ()"
        and res = "\<lparr>rowsAffected = 0, rowsAffectedErr = None\<rparr>" and ?s1.0 = "()" and ?s2.0 = "()"
        and ?s3.0 = "()" and status = 1 and ident = "''L1''" and cfg = "''postgres''"
        and rdb = "license_db [License_row example_license example_rights]"
        and t = "license_table [License_row example_license example_rights]"]
    by (simp add: permissive_def license_db_def license_table_def fresh_def example_license_def h [unfolded example_license_def])
qed

section \<open>The last-updated column\<close>

lemma Add_calls:
  "l_Rights l = Some r \<Longrightarrow>
   calls (snd (Add drv s l db)) = calls db @ [CallExec (query (s_add s)) (License_args l r)]"
proof -
  assume r: "l_Rights l = Some r"
  have "snd (Add drv s l db) = snd (Stmt_Exec drv (s_add s) (License_args l r) db)"
    unfolding Add_def r option.case License_args_eq by (simp split: prod.splits sum.splits)
  then show ?thesis by (simp add: Stmt_Exec_calls)
qed












section \<open>Add, then Get\<close>

lemma index_Add_calls:
  "calls (snd (index_Add drv i c db)) = calls db @ [CallExec (query (ix_add i)) (Content_args c)]"
proof -
  have "snd (index_Add drv i c db) = snd (Stmt_Exec drv (ix_add i) (Content_args c) db)"
    unfolding index_Add_def
    by (simp add: Content_args_def arg_string_def arg_bytes_def arg_int_def split: prod.splits sum.splits)
  then show ?thesis by (simp add: Stmt_Exec_calls)
qed

lemma index_Get_one_row:
  "drv_Query drv (query (ix_get i)) [VStr ident] (content db) = (Inr (row # rows, f), s') \<Longrightarrow>
   fst (index_Get drv i ident db) = index_result row"
  by (simp add: index_Get_def arg_string_def Stmt_Query_Inr Rows_Next_def Rows_Scan_def index_result_def
      split: prod.splits)

lemma license_Get_one_row:
  "drv_Query drv (query (s_get s)) [VStr ident] (content db) = (Inr (License_args l r # rows, f), s') \<Longrightarrow>
   fst (license_Get drv s ident db) =
     (\<lparr>l_Id = l_Id l, l_User = \<lparr>u_Id = u_Id (l_User l)\<rparr>, l_Provider = l_Provider l,
       l_Issued = l_Issued l, l_Updated = None, l_Rights = Some r, l_ContentId = l_ContentId l\<rparr>, None)"
  by (simp add: license_Get_def arg_string_def Stmt_Query_Inr Row_Scan_def Rows_Next_def Rows_Scan_def
      scan_License_args)

text \<open>
  C7.  On the reference database, in both dialects: when \<^verbatim>\<open>Add\<close> of the index returns no
  error, \<^verbatim>\<open>Get\<close> of the id of the record returns the record as it was added, with no
  error; when \<^verbatim>\<open>Add\<close> of the store returns no error, \<^verbatim>\<open>Get\<close> of the id of the license
  returns the license with every field \<^verbatim>\<open>Add\<close> wrote as it was, and a nil last update.
  For every driver: \<^verbatim>\<open>Add\<close> passes the fields in the order of the columns of its
  statement, and \<^verbatim>\<open>Get\<close> turns a first row of exactly those values back into the record.
\<close>

theorem add_then_get_round_trip:
  "(content rdb ''content'' = Some tcon \<and> t_cols tcon = content_schema \<and>
    index_Add refdb (index_of cfg) c rdb = (None, rdb1) \<longrightarrow>
      fst (index_Get refdb (index_of cfg) (c_Id c) rdb1) = (c, None)) \<and>
   (content rdb ''license'' = Some tlic \<and> t_cols tlic = license_schema \<and>
    Add refdb (store_of cfg) l rdb = (Returns None, rdb2) \<longrightarrow>
      fst (license_Get refdb (store_of cfg) (l_Id l) rdb2) = (l\<lparr>l_Updated := None\<rparr>, None)) \<and>
   calls (snd (index_Add drv i c db)) = calls db @ [CallExec (query (ix_add i)) (Content_args c)] \<and>
   (drv_Query drv (query (ix_get i)) [VStr ident] (content db) = (Inr (Content_args c # rows, f), s1) \<longrightarrow>
      fst (index_Get drv i ident db) = (c, None)) \<and>
   (l_Rights l = Some r \<longrightarrow>
      calls (snd (Add drv s l db)) = calls db @ [CallExec (query (s_add s)) (License_args l r)] \<and>
      (drv_Query drv (query (s_get s)) [VStr ident] (content db) = (Inr (License_args l r # rows, f), s2) \<longrightarrow>
         fst (license_Get drv s ident db) = (l\<lparr>l_Updated := None\<rparr>, None)))"
  using index_round_trip [of rdb tcon cfg c rdb1 cfg] license_round_trip [of rdb tlic cfg l rdb2 cfg]
    index_Add_calls [of drv i c db] index_Get_one_row [of drv i ident db "Content_args c" rows f s1]
    Add_calls [of l r drv s db] license_Get_one_row [of drv s ident db l r rows f s2]
  by (simp add: index_result_Content_args)

theorem add_then_get_round_trip_witness:
  "fst (index_Get refdb (index_of ''sqlite3'') ''c1''
          (snd (index_Add refdb (index_of ''sqlite3'') example_content (content_db [])))) =
     (example_content, None) \<and>
   fst (license_Get refdb (store_of ''postgres'') ''L1''
          (snd (Add refdb (store_of ''postgres'') example_license (license_db [])))) =
     (example_license\<lparr>l_Updated := None\<rparr>, None)"
proof -
  have ad: "Add refdb (store_of ''postgres'') example_license (license_db []) =
      (Returns None, snd (Add refdb (store_of ''postgres'') example_license (license_db [])))"
    using Add_ref [of "license_db []" "license_table []" example_license example_rights "''postgres''"]
    by (simp add: license_db_def license_table_def fresh_def example_license_def)
  have ia: "index_Add refdb (index_of ''sqlite3'') example_content (content_db []) =
      (None, snd (index_Add refdb (index_of ''sqlite3'') example_content (content_db [])))"
    using index_Add_ref [of "content_db []" "content_table []" "''sqlite3''" example_content]
    by (simp add: content_db_def content_table_def fresh_def)
  show ?thesis
    using add_then_get_round_trip [where rdb = "content_db []" and tcon = "content_table []"
        and tlic = "content_table []" and cfg = "''sqlite3''" and c = example_content
        and ?rdb1.0 = "snd (index_Add refdb (index_of ''sqlite3'') example_content (content_db []))"
        and l = example_license and ?rdb2.0 = "content_db []" and drv = refdb and i = "index_of ''sqlite3''"
        and db = "content_db []" and ident = "''c1''" and rows = "[]" and f = None and r = example_rights
        and s = "store_of ''sqlite3''" and ?s1.0 = "Map.empty" and ?s2.0 = "Map.empty"]
      add_then_get_round_trip [where rdb = "license_db []" and tcon = "license_table []"
        and tlic = "license_table []" and cfg = "''postgres''" and c = example_content
        and ?rdb1.0 = "license_db []"
        and l = example_license
        and ?rdb2.0 = "snd (Add refdb (store_of ''postgres'') example_license (license_db []))"
        and drv = refdb and i = "index_of ''sqlite3''"
        and db = "content_db []" and ident = "''c1''" and rows = "[]" and f = None and r = example_rights
        and s = "store_of ''sqlite3''" and ?s1.0 = "Map.empty" and ?s2.0 = "Map.empty"]
      ia ad
    by (simp add: content_db_def content_table_def license_db_def license_table_def fresh_def
        example_content_def example_license_def)
qed

section \<open>A list that started\<close>

lemma values_of_rows:
  "content_values (Content_row c) = Content_args c \<and> license_values (License_row l r) = License_args l r"
  by (simp add: content_values_def license_values_def fields_Content_row fields_License_row)

text \<open>
  C8.  For every driver: when the query of a list answers with a cursor of \<open>rows\<close>, the
  first \<open>length rows\<close> calls of the closure return the scans of the rows, in the order of
  the cursor, and the next call returns the not-found error and leaves the cursor
  closed.  This holds for the index's \<^verbatim>\<open>List\<close> and for \<^verbatim>\<open>ListAll\<close> and \<^verbatim>\<open>List\<close> of the
  store.  The scan of a row of the values \<^verbatim>\<open>Add\<close> passed is the record, with no error.  On
  the reference database the cursor of the index's \<^verbatim>\<open>List\<close> holds every row of the
  table, in the order of the table.
\<close>

theorem list_yields_rows_then_not_found:
  "(drv_Query drv (query (ix_list i)) [] (content db) = (Inr (rows, f), s1) \<longrightarrow>
      drain index_next (Suc (length rows)) (fst (index_List drv i db)) =
        (map index_result rows @ [(Content_zero, Some index_NotFound)],
         index_Cursor \<lparr>pending = [], current = None, failure = f, closed = True\<rparr>)) \<and>
   (drv_Query drv (query (s_listall s)) [VInt (sint page), VInt (sint (pageNum * page))] (content db) =
      (Inr (rows, f), s2) \<longrightarrow>
      drain license_next (Suc (length rows)) (fst (ListAll drv s page pageNum db)) =
        (map license_result rows @ [(LicenseReport_new, Some license_NotFound)],
         license_Cursor \<lparr>pending = [], current = None, failure = f, closed = True\<rparr>
           (Some license_NotFound))) \<and>
   (drv_Query drv (query (s_list s)) [VStr contentID, VInt (sint page), VInt (sint (pageNum * page))] (content db) =
      (Inr (rows, f), s3) \<longrightarrow>
      drain license_next (Suc (length rows)) (fst (List drv s contentID page pageNum db)) =
        (map license_result rows @ [(LicenseReport_new, Some license_NotFound)],
         license_Cursor \<lparr>pending = [], current = None, failure = f, closed = True\<rparr>
           (Some license_NotFound))) \<and>
   index_result (Content_args c) = (c, None) \<and>
   license_result (License_args l r) =
     (\<lparr>lr_Id = l_Id l, lr_User = \<lparr>u_Id = u_Id (l_User l)\<rparr>, lr_Provider = l_Provider l,
       lr_Issued = l_Issued l, lr_Updated = None, lr_Rights = Some r, lr_ContentId = l_ContentId l\<rparr>, None) \<and>
   (content rdb ''content'' = Some t \<and> t_cols t = content_schema \<longrightarrow>
      fst (index_List refdb (index_of cfg) rdb) =
        index_Cursor \<lparr>pending = map content_values (t_rows t), current = None, failure = None,
                      closed = False\<rparr>) \<and>
   content_values (Content_row c) = Content_args c \<and> license_values (License_row l r) = License_args l r"
  using index_List_started [of drv i db rows f s1] ListAll_started [of drv s page pageNum db rows f s2]
    List_started [of drv s contentID page pageNum db rows f s3]
    drain_index_Cursor [of rows None f] drain_license_Cursor [of rows None f]
    index_result_Content_args [of c] license_result_License_args [of l r]
    index_List_ref [of rdb t cfg] values_of_rows [of c l r]
  by simp

theorem list_yields_rows_then_not_found_witness:
  "drain index_next 2 (fst (index_List refdb (index_of ''sqlite3'') (content_db [Content_row example_content]))) =
     ([(example_content, None), (Content_zero, Some index_NotFound)],
      index_Cursor \<lparr>pending = [], current = None, failure = None, closed = True\<rparr>) \<and>
   drain license_next 1 (fst (ListAll permissive (store_of ''mysql'') 10 0 (fresh ()))) =
     ([(LicenseReport_new, Some license_NotFound)],
      license_Cursor \<lparr>pending = [], current = None, failure = None, closed = True\<rparr> (Some license_NotFound)) \<and>
   drain license_next 1 (fst (List permissive (store_of ''mysql'') ''c1'' 10 0 (fresh ()))) =
     ([(LicenseReport_new, Some license_NotFound)],
      license_Cursor \<lparr>pending = [], current = None, failure = None, closed = True\<rparr> (Some license_NotFound))"
proof -
  let ?db = "content_db [Content_row example_content]"
  have t: "content ?db ''content'' = Some (content_table [Content_row example_content])"
    "t_cols (content_table [Content_row example_content]) = content_schema"
    by (simp_all add: content_db_def fresh_def content_table_def)
  have q: "drv_Query refdb (query (ix_list (index_of ''sqlite3''))) [] (content ?db) =
      (Inr ([Content_args example_content], None), content ?db)"
    by (simp add: refdb_def ref_Query_def index_of_def parse_Open_listQuery num_input_def operands_def
        opt_list_def
        query_list_content [of "content ?db" "content_table [Content_row example_content]", OF t]
        content_table_def values_of_rows)
  show ?thesis
    using list_yields_rows_then_not_found [where drv = refdb and i = "index_of ''sqlite3''" and db = ?db
        and rows = "[Content_args example_content]" and f = None and ?s1.0 = "content ?db"
        and ?s2.0 = "content ?db" and ?s3.0 = "content ?db" and s = "store_of ''mysql''" and page = 10
        and pageNum = 0 and contentID = "''c1''" and c = example_content and l = example_license
        and r = example_rights and rdb = ?db and t = "content_table [Content_row example_content]"
        and cfg = "''sqlite3''"]
      list_yields_rows_then_not_found [where drv = permissive and i = "index_of ''sqlite3''"
        and db = "fresh ()" and rows = "[]" and f = None and ?s1.0 = "()"
        and ?s2.0 = "()" and ?s3.0 = "()" and s = "store_of ''mysql''" and page = 10
        and pageNum = 0 and contentID = "''c1''" and c = example_content and l = example_license
        and r = example_rights and rdb = ?db and t = "content_table [Content_row example_content]"
        and cfg = "''sqlite3''"]
      q
    by (simp add: permissive_def fresh_def numeral_2_eq_2)
qed

section \<open>A list that failed to start\<close>

text \<open>
  C10.  For every driver, and for each of \<^verbatim>\<open>ListAll\<close>, \<^verbatim>\<open>List\<close> and the index's \<^verbatim>\<open>List\<close> on
  its own: when the query that starts the list fails with a database error \<open>e\<close>, the
  closure returned is the one that captured \<open>e\<close>; every call of it, however many, returns
  the zero record together with \<open>e\<close> itself, never a record of the table, and \<open>e\<close> is
  neither package's not-found error.  So a list that failed to start differs from a list
  over no rows, whose first call returns not-found.
\<close>

theorem failed_list_repeats_the_error:
  "(drv_Query drv (query (s_listall s)) [VInt (sint page), VInt (sint (pageNum * page))] (content db) =
      (Inl e1, s1) \<longrightarrow>
      drain license_next n (fst (ListAll drv s page pageNum db)) =
        (replicate n (LicenseReport_zero, Some (DbErr e1)), license_Failed e1)) \<and>
   (drv_Query drv (query (s_list s)) [VStr contentID, VInt (sint page), VInt (sint (pageNum * page))] (content db) =
      (Inl e2, s2) \<longrightarrow>
      drain license_next n (fst (List drv s contentID page pageNum db)) =
        (replicate n (LicenseReport_zero, Some (DbErr e2)), license_Failed e2)) \<and>
   (drv_Query drv (query (ix_list i)) [] (content db) = (Inl e3, s3) \<longrightarrow>
      drain index_next n (fst (index_List drv i db)) =
        (replicate n (Content_zero, Some (DbErr e3)), index_Failed e3)) \<and>
   DbErr e1 \<noteq> license_NotFound \<and> DbErr e2 \<noteq> license_NotFound \<and> DbErr e3 \<noteq> index_NotFound"
  using ListAll_failed [of drv s page pageNum db e1 s1] List_failed [of drv s contentID page pageNum db e2 s2]
    index_List_failed [of drv i db e3 s3]
  by (simp add: drain_license_Failed drain_index_Failed)

text \<open>The conjuncts at a driver that refuses every call, and \<^verbatim>\<open>ListAll\<close> alone on a
  reference database that has a content table and no license table: there the query
  of \<^verbatim>\<open>ListAll\<close> fails while the index's \<^verbatim>\<open>List\<close> starts.\<close>

theorem failed_list_repeats_the_error_witness:
  "drain license_next 3 (fst (ListAll unreachable (store_of ''postgres'') 10 0 (fresh ()))) =
     (replicate 3 (LicenseReport_zero, Some (DbErr (ErrOther ''connection refused''))),
      license_Failed (ErrOther ''connection refused'')) \<and>
   drain license_next 3 (fst (List unreachable (store_of ''postgres'') ''c1'' 10 0 (fresh ()))) =
     (replicate 3 (LicenseReport_zero, Some (DbErr (ErrOther ''connection refused''))),
      license_Failed (ErrOther ''connection refused'')) \<and>
   drain index_next 3 (fst (index_List unreachable (index_of ''postgres'') (fresh ()))) =
     (replicate 3 (Content_zero, Some (DbErr (ErrOther ''connection refused''))),
      index_Failed (ErrOther ''connection refused'')) \<and>
   drain license_next 2 (fst (ListAll refdb (store_of ''postgres'') 10 0 (content_db []))) =
     (replicate 2 (LicenseReport_zero, Some (DbErr (ErrOther ''no such table''))),
      license_Failed (ErrOther ''no such table'')) \<and>
   fst (index_List refdb (index_of ''postgres'') (content_db [])) =
     index_Cursor \<lparr>pending = [], current = None, failure = None, closed = False\<rparr>"
proof -
  have q: "drv_Query refdb (query (s_listall (store_of ''postgres''))) [VInt (sint (10 :: 64 word)),
             VInt (sint ((0 :: 64 word) * 10))] (content (content_db [])) =
           (Inl (ErrOther ''no such table''), content (content_db []))"
    by (simp add: refdb_def ref_Query_def store_of_def parse_NewSqlStore_listallquery num_input_def
        operands_def param_index_def opt_list_def query_statement_def content_db_def fresh_def)
  have t: "content (content_db []) ''content'' = Some (content_table [])"
    "t_cols (content_table []) = content_schema"
    by (simp_all add: content_db_def fresh_def content_table_def)
  have started: "fst (index_List refdb (index_of ''postgres'') (content_db [])) =
      index_Cursor \<lparr>pending = [], current = None, failure = None, closed = False\<rparr>"
    using index_List_ref [of "content_db []" "content_table []" "''postgres''", OF t]
    by (simp add: content_table_def)
  show ?thesis
    using failed_list_repeats_the_error [where drv = unreachable and s = "store_of ''postgres''"
        and page = 10 and pageNum = 0 and db = "fresh ()" and ?e1.0 = "ErrOther ''connection refused''"
        and ?s1.0 = "()" and contentID = "''c1''" and ?e2.0 = "ErrOther ''connection refused''"
        and ?s2.0 = "()" and i = "index_of ''postgres''" and ?e3.0 = "ErrOther ''connection refused''"
        and ?s3.0 = "()" and n = 3]
      failed_list_repeats_the_error [where drv = refdb and s = "store_of ''postgres''"
        and page = 10 and pageNum = 0 and db = "content_db []" and ?e1.0 = "ErrOther ''no such table''"
        and ?s1.0 = "content (content_db [])" and contentID = "''c1''"
        and ?e2.0 = "ErrOther ''no such table''" and ?s2.0 = "content (content_db [])"
        and i = "index_of ''postgres''" and ?e3.0 = "ErrOther ''no such table''"
        and ?s3.0 = "content (content_db [])" and n = 2]
      q started
    by (simp add: unreachable_def numeral_2_eq_2)
qed

end
